theory Spec2Isabelle
  imports Complex_Main "HOL-Library.AList"
begin

section \<open>JavaScript values and runtime helpers\<close>

text \<open>
  The lambdas of \<^verbatim>\<open>infra/lambda/process/index.ts\<close> and
  \<^verbatim>\<open>infra/lambda/insights/index.ts\<close> work on values produced by
  \<^verbatim>\<open>JSON.parse\<close>. They are modelled by the datatype \<open>json\<close>; the
  JavaScript value \<^verbatim>\<open>undefined\<close> is \<open>None\<close> of \<open>json option\<close>.

  Scope of the embedding: numbers are exact rationals (IEEE rounding, \<^verbatim>\<open>NaN\<close> and
  \<^verbatim>\<open>-0\<close> are outside the model), strings are lists of 8-bit characters, each
  standing for one UTF-16 code unit below U+0100, and the pair list of \<open>JObj\<close> lists the own
  properties of the object in property order with pairwise distinct keys.
\<close>

datatype json =
    JNull
  | JBool bool
  | JNum rat
  | JStr string
  | JArr "json list"
  | JObj "(string \<times> json) list"

datatype js_error = TypeError string | SyntaxError string | Error string

fun message :: "js_error \<Rightarrow> string" where
  "message (TypeError m) = m"
| "message (SyntaxError m) = m"
| "message (Error m) = m"

text \<open>Truthiness (\<^verbatim>\<open>ToBoolean\<close>): what \<^verbatim>\<open>if (x)\<close>, \<^verbatim>\<open>!x\<close> and \<^verbatim>\<open>x || y\<close> test.\<close>

fun truthy :: "json \<Rightarrow> bool" where
  "truthy JNull = False"
| "truthy (JBool b) = b"
| "truthy (JNum r) = (r \<noteq> 0)"
| "truthy (JStr s) = (s \<noteq> [])"
| "truthy (JArr xs) = True"
| "truthy (JObj kvs) = True"

fun truthy_u :: "json option \<Rightarrow> bool" where
  "truthy_u None = False"
| "truthy_u (Some v) = truthy v"

text \<open>\<^verbatim>\<open>x || d\<close> where \<open>d\<close> is a defined value.\<close>

fun js_or :: "json option \<Rightarrow> json \<Rightarrow> json" where
  "js_or None d = d"
| "js_or (Some v) d = (if truthy v then v else d)"

text \<open>
  Reading a named property \<^verbatim>\<open>item.k\<close> of a value that is not \<^verbatim>\<open>null\<close>. The
  sources read only the names id, name, title, email, phone, amount, price, category, level
  and the fields of the inference answer; none of them exists on arrays, strings, numbers or
  booleans, so there the read gives \<^verbatim>\<open>undefined\<close>. Reading a property of
  \<^verbatim>\<open>null\<close> throws; every caller below tests for \<open>JNull\<close> first.
\<close>

fun get_prop :: "json \<Rightarrow> string \<Rightarrow> json option" where
  "get_prop (JObj kvs) k = map_of kvs k"
| "get_prop v k = None"

definition read_null :: "string \<Rightarrow> js_error" where
  "read_null k = TypeError (''Cannot read properties of null (reading '' @ [CHR 0x27] @ k @ [CHR 0x27] @ '')'')"

definition keys_null :: js_error where
  "keys_null = TypeError ''Cannot convert undefined or null to object''"

subsection \<open>Number and string conversion\<close>

definition digit_char :: "nat \<Rightarrow> char" where
  "digit_char d = ''0123456789abcdef'' ! d"

fun nat_to_string :: "nat \<Rightarrow> string" where
  "nat_to_string n =
     (if n < 10 then [digit_char n] else nat_to_string (n div 10) @ [digit_char (n mod 10)])"

fun frac_digits :: "nat \<Rightarrow> rat \<Rightarrow> string" where
  "frac_digits 0 r = []"
| "frac_digits (Suc k) r =
     (if r = 0 then []
      else (let d = \<lfloor>r * 10\<rfloor> in digit_char (nat d) # frac_digits k (r * 10 - of_int d)))"

text \<open>
  \<^verbatim>\<open>Number.prototype.toString\<close>, idealised: the exact decimal expansion, cut after 17
  fractional digits, without exponent notation.
\<close>

definition num_to_string :: "rat \<Rightarrow> string" where
  "num_to_string r =
     (let a = \<bar>r\<bar>; ip = \<lfloor>a\<rfloor>; fp = a - of_int ip
      in (if r < 0 then ''-'' else '''') @ nat_to_string (nat ip) @
         (if fp = 0 then [] else ''.'' @ frac_digits 17 fp))"

fun join :: "string \<Rightarrow> string list \<Rightarrow> string" where
  "join sep [] = []"
| "join sep [x] = x"
| "join sep (x # y # ys) = x @ sep @ join sep (y # ys)"

text \<open>\<^verbatim>\<open>ToString\<close>, as used by template literals and by string concatenation.\<close>

fun to_string :: "json \<Rightarrow> string" where
  "to_string JNull = ''null''"
| "to_string (JBool b) = (if b then ''true'' else ''false'')"
| "to_string (JNum r) = num_to_string r"
| "to_string (JStr s) = s"
| "to_string (JArr xs) = join '','' (map (\<lambda>x. if x = JNull then [] else to_string x) xs)"
| "to_string (JObj kvs) = ''[object Object]''"

fun is_stringy :: "json \<Rightarrow> bool" where
  "is_stringy (JStr s) = True"
| "is_stringy (JArr xs) = True"
| "is_stringy (JObj kvs) = True"
| "is_stringy v = False"

fun to_number :: "json \<Rightarrow> rat" where
  "to_number (JNum r) = r"
| "to_number (JBool b) = (if b then 1 else 0)"
| "to_number v = 0"

text \<open>
  The binary \<^verbatim>\<open>+\<close>: arrays and objects convert to strings; when either side is a
  string the result is the concatenation, otherwise the numeric sum. \<open>to_number\<close> is only
  used on \<^verbatim>\<open>null\<close>, booleans and numbers here.
\<close>

definition js_add :: "json \<Rightarrow> json \<Rightarrow> json" where
  "js_add a b =
     (if is_stringy a \<or> is_stringy b then JStr (to_string a @ to_string b)
      else JNum (to_number a + to_number b))"

text \<open>\<^verbatim>\<open>Object.keys\<close> of a value that is not \<^verbatim>\<open>null\<close>.\<close>

fun object_keys :: "json \<Rightarrow> string list" where
  "object_keys (JObj kvs) = map fst kvs"
| "object_keys (JArr xs) = map nat_to_string [0..<length xs]"
| "object_keys (JStr s) = map nat_to_string [0..<length s]"
| "object_keys v = []"

subsection \<open>Serialisation\<close>

definition hex2 :: "nat \<Rightarrow> string" where
  "hex2 n = [digit_char (n div 16), digit_char (n mod 16)]"

definition escape_char :: "char \<Rightarrow> string" where
  "escape_char c =
     (if c = CHR 0x22 then [CHR 0x5C, CHR 0x22]
      else if c = CHR 0x5C then [CHR 0x5C, CHR 0x5C]
      else if c = CHR 0x08 then [CHR 0x5C, CHR ''b'']
      else if c = CHR 0x0C then [CHR 0x5C, CHR ''f'']
      else if c = CHR 0x0A then [CHR 0x5C, CHR ''n'']
      else if c = CHR 0x0D then [CHR 0x5C, CHR ''r'']
      else if c = CHR 0x09 then [CHR 0x5C, CHR ''t'']
      else if (of_char c :: nat) < 32 then [CHR 0x5C, CHR ''u'', CHR ''0'', CHR ''0''] @ hex2 (of_char c)
      else [c])"

definition quote :: "string \<Rightarrow> string" where
  "quote s = [CHR 0x22] @ concat (map escape_char s) @ [CHR 0x22]"

text \<open>\<^verbatim>\<open>JSON.stringify(data)\<close> without indentation.\<close>

fun JSON_stringify :: "json \<Rightarrow> string" where
  "JSON_stringify JNull = ''null''"
| "JSON_stringify (JBool b) = (if b then ''true'' else ''false'')"
| "JSON_stringify (JNum r) = num_to_string r"
| "JSON_stringify (JStr s) = quote s"
| "JSON_stringify (JArr xs) = ''['' @ join '','' (map JSON_stringify xs) @ '']''"
| "JSON_stringify (JObj kvs) =
     ''{'' @ join '','' (map (\<lambda>(k, v). quote k @ '':'' @ JSON_stringify v) kvs) @ ''}''"

text \<open>\<^verbatim>\<open>Buffer.byteLength(s, 'utf8')\<close>: code units below U+0080 take one byte, the others two.\<close>

definition byteLength :: "string \<Rightarrow> nat" where
  "byteLength s = sum_list (map (\<lambda>c. if (of_char c :: nat) < 128 then 1 else 2) s)"

text \<open>
  An object literal with a spread, \<^verbatim>\<open>{ ...base, ...src }\<close>: each property of \<open>src\<close> is
  assigned in turn; an existing key keeps its position and takes the new value.
\<close>

definition spread :: "(string \<times> json) list \<Rightarrow> (string \<times> json) list \<Rightarrow> (string \<times> json) list" where
  "spread base src = fold (\<lambda>(k, v). AList.update k v) src base"

text \<open>Exceptions: the rest of a block runs only when the step before it returned.\<close>

fun bindE :: "'e + 'a \<Rightarrow> ('a \<Rightarrow> 'e + 'b) \<Rightarrow> 'e + 'b" where
  "bindE (Inl e) f = Inl e"
| "bindE (Inr x) f = f x"

section \<open>Processing Stage: \<^verbatim>\<open>infra/lambda/process/index.ts\<close>\<close>

subsection \<open>\<^verbatim>\<open>calculateQualityScore\<close> and \<^verbatim>\<open>calculateMissingFieldsPenalty\<close>\<close>

definition calculateMissingFieldsPenalty :: "json \<Rightarrow> js_error + int" where
  "calculateMissingFieldsPenalty item =
     (if item = JNull then Inl (read_null ''id'')
      else
        (let penalty = 0;
             penalty = (if \<not> truthy_u (get_prop item ''id'') \<and> \<not> truthy_u (get_prop item ''name'')
                           \<and> \<not> truthy_u (get_prop item ''title'')
                        then penalty + 10 else penalty);
             penalty = (if length (object_keys item) = 0 then penalty + 20 else penalty)
         in Inr penalty))"

definition calculateQualityScore :: "json \<Rightarrow> js_error + int" where
  "calculateQualityScore data =
     (case data of
        JArr xs \<Rightarrow>
          (let score = 100;
               score = (if length xs = 0 then score - 20 else score);
               score = (if length xs > 1000 then score - 10 else score)
           in (case xs of
                 [] \<Rightarrow> Inr (max 0 score)
               | sample # rest \<Rightarrow>
                   (if truthy sample
                    then bindE (calculateMissingFieldsPenalty sample) (\<lambda>p. Inr (max 0 (score - p)))
                    else Inr (max 0 score))))
      | _ \<Rightarrow> bindE (calculateMissingFieldsPenalty data) (\<lambda>p. Inr (max 0 (100 - p))))"

subsection \<open>\<^verbatim>\<open>processData\<close>\<close>

text \<open>\<^verbatim>\<open>data.some((item) => item[k])\<close>: stops at the first truthy answer.\<close>

fun js_some :: "string \<Rightarrow> json list \<Rightarrow> js_error + bool" where
  "js_some k [] = Inr False"
| "js_some k (item # items) =
     (if item = JNull then Inl (read_null k)
      else if truthy_u (get_prop item k) then Inr True
      else js_some k items)"

text \<open>\<^verbatim>\<open>data.reduce((sum, item) => sum + (item[amountField] || 0), sum0)\<close>.\<close>

fun reduce_amount :: "string \<Rightarrow> json \<Rightarrow> json list \<Rightarrow> js_error + json" where
  "reduce_amount k acc [] = Inr acc"
| "reduce_amount k acc (item # items) =
     (if item = JNull then Inl (read_null k)
      else reduce_amount k (js_add acc (js_or (get_prop item k) (JNum 0))) items)"

text \<open>\<^verbatim>\<open>data.map((item) => item[k])\<close>.\<close>

fun map_prop :: "string \<Rightarrow> json list \<Rightarrow> js_error + json option list" where
  "map_prop k [] = Inr []"
| "map_prop k (item # items) =
     (if item = JNull then Inl (read_null k)
      else bindE (map_prop k items) (\<lambda>vs. Inr (get_prop item k # vs)))"

text \<open>\<^verbatim>\<open>.filter(Boolean)\<close> on the values read.\<close>

fun filter_Boolean :: "json option list \<Rightarrow> json list" where
  "filter_Boolean [] = []"
| "filter_Boolean (None # vs) = filter_Boolean vs"
| "filter_Boolean (Some v # vs) = (if truthy v then v # filter_Boolean vs else filter_Boolean vs)"

text \<open>
  \<^verbatim>\<open>[...new Set(values)]\<close>: a value is dropped when an equal primitive was seen before;
  two arrays or objects parsed at different places are never the same member.
\<close>

fun is_reference :: "json \<Rightarrow> bool" where
  "is_reference (JArr xs) = True"
| "is_reference (JObj kvs) = True"
| "is_reference v = False"

definition same_member :: "json \<Rightarrow> json \<Rightarrow> bool" where
  "same_member a b = (\<not> is_reference a \<and> a = b)"

fun set_spread :: "json list \<Rightarrow> json list \<Rightarrow> json list" where
  "set_spread seen [] = seen"
| "set_spread seen (v # vs) =
     (if list_ex (same_member v) seen then set_spread seen vs else set_spread (seen @ [v]) vs)"

text \<open>\<^verbatim>\<open>data.filter((item) => item.level === 'error').length\<close>.\<close>

fun count_errors :: "json list \<Rightarrow> js_error + nat" where
  "count_errors [] = Inr 0"
| "count_errors (item # items) =
     (if item = JNull then Inl (read_null ''level'')
      else bindE (count_errors items)
             (\<lambda>n. Inr (if get_prop item ''level'' = Some (JStr ''error'') then Suc n else n)))"

definition recordCount_of :: "json \<Rightarrow> nat" where
  "recordCount_of data = (case data of JArr xs \<Rightarrow> length xs | _ \<Rightarrow> 1)"

definition keys_json :: "json \<Rightarrow> json" where
  "keys_json v = JArr (map JStr (object_keys v))"

definition detect_patterns ::
  "json list \<Rightarrow> json \<Rightarrow> (string \<times> json) list \<Rightarrow> js_error + (string \<times> json) list" where
  "detect_patterns data sample results =
     bindE (if truthy_u (get_prop sample ''email'')
            then bindE (js_some ''email'' data)
                   (\<lambda>b. Inr (AList.update ''hasEmail'' (JBool b) results))
            else Inr results)
     (\<lambda>results.
     bindE (if truthy_u (get_prop sample ''phone'')
            then bindE (js_some ''phone'' data)
                   (\<lambda>b. Inr (AList.update ''hasPhone'' (JBool b) results))
            else Inr results)
     (\<lambda>results.
     bindE (if truthy_u (get_prop sample ''amount'') \<or> truthy_u (get_prop sample ''price'')
            then (let amountField = (if truthy_u (get_prop sample ''amount'') then ''amount'' else ''price'')
                  in bindE (reduce_amount amountField (JNum 0) data)
                       (\<lambda>total. Inr (AList.update ''totalAmount'' total results)))
            else Inr results)
     (\<lambda>results.
     bindE (if truthy_u (get_prop sample ''category'')
            then bindE (map_prop ''category'' data)
                   (\<lambda>vs. Inr (AList.update ''categories''
                                 (JArr (set_spread [] (filter_Boolean vs))) results))
            else Inr results)
     (\<lambda>results.
     (if truthy_u (get_prop sample ''level'')
      then bindE (count_errors data)
             (\<lambda>n. Inr (AList.update ''errorCount'' (JNum (of_nat n)) results))
      else Inr results)))))"

definition processData :: "json \<Rightarrow> js_error + (string \<times> json) list" where
  "processData data =
     (case data of
        JNull \<Rightarrow> Inl keys_null
      | JArr (sample # rest) \<Rightarrow>
          (if sample = JNull then Inl keys_null
           else detect_patterns (sample # rest) sample
                  [(''recordCount'', JNum (of_nat (length (sample # rest)))),
                   (''extractedFields'', keys_json sample)])
      | _ \<Rightarrow> Inr [(''recordCount'', JNum (of_nat (recordCount_of data))),
                  (''extractedFields'', keys_json data)])"

text \<open>
  The \<^verbatim>\<open>processingResults\<close> object the handler builds (lines 65 to 85): the result of
  \<^verbatim>\<open>processData\<close> is spread last over the five properties written out in the literal.
\<close>

definition handler_processingResults :: "json \<Rightarrow> js_error + (string \<times> json) list" where
  "handler_processingResults data =
     bindE (processData data)
     (\<lambda>processingResults.
        (let dataSize = byteLength (JSON_stringify data)
         in bindE (calculateQualityScore data)
              (\<lambda>q. Inr (spread
                     [(''recordCount'', JNum (of_nat (recordCount_of data))),
                      (''dataSize'', JNum (of_nat dataSize)),
                      (''validationStatus'', JStr ''VALID''),
                      (''extractedFields'', keys_json data),
                      (''qualityScore'', JNum (of_int q))]
                     processingResults))))"

subsection \<open>The metadata table\<close>

text \<open>
  An item of the DynamoDB table, keyed by \<open>(tenantId, dataId)\<close>. Every attribute other than
  the key may be absent. Instants (\<^verbatim>\<open>Date.now()\<close>, \<^verbatim>\<open>new Date().toISOString()\<close>)
  are integers, the milliseconds since the epoch; the ISO rendering is not modelled.
\<close>

datatype status = UPLOADED | PROCESSED | PROCESSING_FAILED | INSIGHTS_GENERATED

record insight_record =
  ir_timestamp :: int
  ir_userId :: string
  ir_prompt :: string
  ir_response :: string

record AIInsights =
  summary :: json
  keyInsights :: json
  recommendations :: json
  riskFactors :: json
  opportunities :: json
  dataQualityNotes :: json
  modelUsed :: json
  confidence :: json

record item =
  tenantId :: string
  dataId :: string
  s3Key :: "string option"
  uploadedAt :: "int option"
  status :: "status option"
  metadata :: "json option"
  ttl :: "int option"
  processedAt :: "int option"
  processingResults :: "json option"
  processingError :: "string option"
  aiInsights :: "AIInsights option"
  insightsGeneratedAt :: "int option"
  insightsError :: "string option"
  insights :: "insight_record list option"
  lastInsightAt :: "int option"

type_synonym table = "string \<times> string \<Rightarrow> item option"

definition new_item :: "string \<Rightarrow> string \<Rightarrow> item" where
  "new_item t d =
     \<lparr>tenantId = t, dataId = d, s3Key = None, uploadedAt = None, status = None, metadata = None,
      ttl = None, processedAt = None, processingResults = None, processingError = None,
      aiInsights = None, insightsGeneratedAt = None, insightsError = None, insights = None,
      lastInsightAt = None\<rparr>"

text \<open>
  \<^verbatim>\<open>UpdateCommand\<close> with a \<^verbatim>\<open>SET\<close> expression: the named attributes of the item at
  the key are assigned, the others stay; when no item has the key, one is created.
\<close>

definition update_item :: "table \<Rightarrow> string \<Rightarrow> string \<Rightarrow> (item \<Rightarrow> item) \<Rightarrow> table" where
  "update_item tbl t d f =
     tbl((t, d) \<mapsto> f (case tbl (t, d) of None \<Rightarrow> new_item t d | Some it \<Rightarrow> it))"

text \<open>The \<^verbatim>\<open>PutCommand\<close> of the upload lambda: the item is written whole.\<close>

definition upload_put ::
  "table \<Rightarrow> string \<Rightarrow> string \<Rightarrow> string \<Rightarrow> int \<Rightarrow> json \<Rightarrow> int \<Rightarrow> table" where
  "upload_put tbl t d key ts meta expiry =
     tbl((t, d) \<mapsto> (new_item t d)\<lparr>s3Key := Some key, uploadedAt := Some ts,
                                   status := Some UPLOADED, metadata := Some meta,
                                   ttl := Some expiry\<rparr>)"

subsection \<open>\<^verbatim>\<open>handler\<close> of the process lambda\<close>

record DataUploadedEvent =
  ue_tenantId :: string
  ue_dataId :: string
  ue_s3Key :: string
  ue_timestamp :: int
  ue_metadata :: "json option"

record DataProcessedDetail =
  pd_tenantId :: string
  pd_dataId :: string
  pd_s3Key :: string
  pd_timestamp :: int
  pd_processedAt :: int
  pd_processingResults :: json
  pd_metadata :: "json option"

text \<open>
  What the collaborators answer during one invocation: the object store, \<^verbatim>\<open>JSON.parse\<close>,
  the clock, the two table updates (\<open>None\<close>: done, \<open>Some e\<close>: \<open>e\<close> is thrown and nothing is
  written) and the event bus.
\<close>

record process_env =
  pe_s3_get :: "string \<Rightarrow> js_error + string option"
  pe_JSON_parse :: "string \<Rightarrow> js_error + json"
  pe_now :: int
  pe_update :: "js_error option"
  pe_ENABLE_AI_INSIGHTS :: bool
  pe_put_events :: "js_error option"
  pe_catch_now :: int
  pe_catch_update :: "js_error option"

type_synonym process_outcome = "(js_error + unit) \<times> table \<times> DataProcessedDetail list"

text \<open>The \<^verbatim>\<open>try\<close> block, lines 47 to 131.\<close>

definition process_try :: "process_env \<Rightarrow> DataUploadedEvent \<Rightarrow> table \<Rightarrow> process_outcome" where
  "process_try env ev tbl =
     (case pe_s3_get env (ue_s3Key ev) of
        Inl e \<Rightarrow> (Inl e, tbl, [])
      | Inr None \<Rightarrow> (Inl (Error ''No data found in S3 object''), tbl, [])
      | Inr (Some body) \<Rightarrow>
          (case pe_JSON_parse env body of
             Inl e \<Rightarrow> (Inl e, tbl, [])
           | Inr data \<Rightarrow>
               (case handler_processingResults data of
                  Inl e \<Rightarrow> (Inl e, tbl, [])
                | Inr pr \<Rightarrow>
                    (case pe_update env of
                       Some e \<Rightarrow> (Inl e, tbl, [])
                     | None \<Rightarrow>
                         (let tbl' = update_item tbl (ue_tenantId ev) (ue_dataId ev)
                                       (\<lambda>it. it\<lparr>status := Some PROCESSED,
                                                processedAt := Some (pe_now env),
                                                processingResults := Some (JObj pr)\<rparr>);
                              detail = \<lparr>pd_tenantId = ue_tenantId ev, pd_dataId = ue_dataId ev,
                                        pd_s3Key = ue_s3Key ev, pd_timestamp = ue_timestamp ev,
                                        pd_processedAt = pe_now env,
                                        pd_processingResults = JObj pr,
                                        pd_metadata = ue_metadata ev\<rparr>
                          in if pe_ENABLE_AI_INSIGHTS env
                             then (case pe_put_events env of
                                     Some e \<Rightarrow> (Inl e, tbl', [])
                                   | None \<Rightarrow> (Inr (), tbl', [detail]))
                             else (Inr (), tbl', []))))))"

text \<open>The handler: the \<^verbatim>\<open>try\<close> block, and the \<^verbatim>\<open>catch\<close> block of lines 132 to 159.\<close>

definition process_handler :: "process_env \<Rightarrow> DataUploadedEvent \<Rightarrow> table \<Rightarrow> process_outcome" where
  "process_handler env ev tbl =
     (case process_try env ev tbl of
        (Inr u, tbl', out) \<Rightarrow> (Inr u, tbl', out)
      | (Inl e, tbl', out) \<Rightarrow>
          (case pe_catch_update env of
             None \<Rightarrow>
               (Inl e,
                update_item tbl' (ue_tenantId ev) (ue_dataId ev)
                  (\<lambda>it. it\<lparr>status := Some PROCESSING_FAILED,
                           processingError := Some (message e),
                           processedAt := Some (pe_catch_now env)\<rparr>),
                out)
           | Some update_error \<Rightarrow> (Inl e, tbl', out)))"

section \<open>Insight Generation Stage: \<^verbatim>\<open>infra/lambda/insights/index.ts\<close>\<close>

subsection \<open>The rate limiter, lines 101 to 187\<close>

record bucket =
  count :: nat
  resetTime :: int

type_synonym rateLimitStore = "string \<Rightarrow> bucket option"

definition RATE_LIMIT_MAX_CALLS :: nat where
  "RATE_LIMIT_MAX_CALLS = 6"

definition RATE_LIMIT_WINDOW_MS :: int where
  "RATE_LIMIT_WINDOW_MS = 60000"

datatype rate_decision = Allowed | Limited int

text \<open>
  The check of lines 149 to 187 for one call at instant \<open>now\<close>: the decision (\<open>Limited\<close>
  carries \<^verbatim>\<open>secondsUntilReset\<close>) and the store after the call.
\<close>

definition check_rate_limit ::
  "int \<Rightarrow> string \<Rightarrow> rateLimitStore \<Rightarrow> rate_decision \<times> rateLimitStore" where
  "check_rate_limit now userId store =
     (case store userId of
        Some userRateLimit \<Rightarrow>
          (if now < resetTime userRateLimit
           then (if count userRateLimit \<ge> RATE_LIMIT_MAX_CALLS
                 then (Limited \<lceil>(of_int (resetTime userRateLimit - now) :: rat) / 1000\<rceil>, store)
                 else (Allowed, store(userId \<mapsto> userRateLimit\<lparr>count := count userRateLimit + 1\<rparr>)))
           else (Allowed, store(userId \<mapsto> \<lparr>count = 1, resetTime = now + RATE_LIMIT_WINDOW_MS\<rparr>)))
      | None \<Rightarrow> (Allowed, store(userId \<mapsto> \<lparr>count = 1, resetTime = now + RATE_LIMIT_WINDOW_MS\<rparr>)))"

subsection \<open>\<^verbatim>\<open>generateAdditionalInsights\<close>, lines 374 to 425\<close>

text \<open>
  The inference service is an input of the model: \<open>Inr text\<close> when the \<^verbatim>\<open>try\<close> block
  returns the text of the answer, \<open>Inl e\<close> when anything in it throws. The text of the prompt
  sent to the service only reaches the service and is not modelled.
\<close>

definition fallback_text :: "json \<Rightarrow> string option \<Rightarrow> string" where
  "fallback_text pr prompt =
     ''Analysis completed with fallback method. '' @
     (case prompt of
        Some p \<Rightarrow> (if p \<noteq> [] then ''Question: '' @ p else ''General analysis'')
      | None \<Rightarrow> ''General analysis'') @
     '' - Data contains '' @
     to_string (js_or (get_prop pr ''recordCount'') (JNum 0)) @
     '' records with quality score of '' @
     to_string (js_or (get_prop pr ''qualityScore'') (JStr ''Unknown'')) @
     ''. Consider reviewing the data for business opportunities and potential improvements.''"

definition generateAdditionalInsights ::
  "(js_error + string) \<Rightarrow> json \<Rightarrow> json \<Rightarrow> string option \<Rightarrow> string" where
  "generateAdditionalInsights bedrock data pr prompt =
     (case bedrock of
        Inr text \<Rightarrow> text
      | Inl e \<Rightarrow> fallback_text pr prompt)"

subsection \<open>\<^verbatim>\<open>handleApiGatewayRequest\<close>, lines 106 to 327\<close>

record claims =
  sub :: "string option"
  cognito_username :: "string option"

record api_request =
  q_dataId :: "string option"
  q_prompt :: "string option"
  q_claims :: "claims option"

record api_env =
  ae_now :: int
  ae_scan :: "js_error + item list option"
  ae_s3_get :: "string \<Rightarrow> js_error + string option"
  ae_JSON_parse :: "string \<Rightarrow> js_error + json"
  ae_bedrock :: "js_error + string"
  ae_timestamp :: int
  ae_update :: "js_error option"

datatype api_response =
    Ok200 (r_insights: string) (r_dataId: string) (r_tenantId: string)
          (r_prompt: "string option") (r_saved: bool) (r_insightHistory: "insight_record list")
  | BadRequest400 string
  | NotFound404 string
  | TooManyRequests429 int
  | InternalError500 string

record sys =
  limiter :: rateLimitStore
  db :: table
  clock :: int

fun str_truthy :: "string option \<Rightarrow> bool" where
  "str_truthy None = False"
| "str_truthy (Some s) = (s \<noteq> [])"

text \<open>\<^verbatim>\<open>userContext?.sub || userContext?.['cognito:username'] || 'unknown'\<close>.\<close>

definition userId_of :: "api_request \<Rightarrow> string" where
  "userId_of req =
     (case q_claims req of
        None \<Rightarrow> ''unknown''
      | Some userContext \<Rightarrow>
          (case sub userContext of
             Some s \<Rightarrow> (if s \<noteq> [] then s
                        else (case cognito_username userContext of
                                Some n \<Rightarrow> (if n \<noteq> [] then n else ''unknown'')
                              | None \<Rightarrow> ''unknown''))
           | None \<Rightarrow> (case cognito_username userContext of
                        Some n \<Rightarrow> (if n \<noteq> [] then n else ''unknown'')
                      | None \<Rightarrow> ''unknown'')))"

definition MAX_INSIGHTS :: nat where
  "MAX_INSIGHTS = 10"

text \<open>\<^verbatim>\<open>xs.slice(-k)\<close>: the last \<open>k\<close> elements, all of them when there are fewer.\<close>

definition slice_last :: "nat \<Rightarrow> 'a list \<Rightarrow> 'a list" where
  "slice_last k xs = drop (length xs - k) xs"

text \<open>Lines 189 to 309, after the rate limiter has let the call through.\<close>

definition answer_query ::
  "api_env \<Rightarrow> string \<Rightarrow> string option \<Rightarrow> string \<Rightarrow> sys \<Rightarrow> api_response \<times> sys" where
  "answer_query env dataId_q prompt userId st =
     (case ae_scan env of
        Inl e \<Rightarrow> (InternalError500 (message e), st)
      | Inr None \<Rightarrow> (NotFound404 ''File not found'', st)
      | Inr (Some []) \<Rightarrow> (NotFound404 ''File not found'', st)
      | Inr (Some (fileRecord # others)) \<Rightarrow>
          (if \<not> str_truthy (s3Key fileRecord)
           then (BadRequest400 ''No S3 key found for this file'', st)
           else
             (case ae_s3_get env (case s3Key fileRecord of Some k \<Rightarrow> k | None \<Rightarrow> []) of
                Inl e \<Rightarrow> (InternalError500 (message e), st)
              | Inr None \<Rightarrow> (NotFound404 ''Data not found in S3'', st)
              | Inr (Some body) \<Rightarrow>
                  (case ae_JSON_parse env body of
                     Inl e \<Rightarrow> (InternalError500 (message e), st)
                   | Inr data \<Rightarrow>
                       (let pr = js_or (processingResults fileRecord) (JObj []);
                            text = generateAdditionalInsights (ae_bedrock env) data pr prompt;
                            timestamp = ae_timestamp env;
                            insightRecord =
                              \<lparr>ir_timestamp = timestamp, ir_userId = userId,
                               ir_prompt = (case prompt of
                                              Some p \<Rightarrow> (if p \<noteq> [] then p else ''General insights'')
                                            | None \<Rightarrow> ''General insights''),
                               ir_response = text\<rparr>;
                            existingInsights = (case insights fileRecord of Some xs \<Rightarrow> xs | None \<Rightarrow> []);
                            updatedInsights = slice_last MAX_INSIGHTS (existingInsights @ [insightRecord])
                        in (case ae_update env of
                              Some e \<Rightarrow> (InternalError500 (message e), st)
                            | None \<Rightarrow>
                                (Ok200 text dataId_q (tenantId fileRecord) prompt True updatedInsights,
                                 st\<lparr>db := update_item (db st) (tenantId fileRecord) dataId_q
                                             (\<lambda>it. it\<lparr>insights := Some updatedInsights,
                                                      lastInsightAt := Some timestamp\<rparr>)\<rparr>)))))))"

definition handleApiGatewayRequest :: "api_env \<Rightarrow> api_request \<Rightarrow> sys \<Rightarrow> api_response \<times> sys" where
  "handleApiGatewayRequest env req st =
     (if \<not> str_truthy (q_dataId req)
      then (BadRequest400 ''Missing required parameter: dataId'', st)
      else if (case q_prompt req of Some p \<Rightarrow> p \<noteq> [] \<and> length p > 100 | None \<Rightarrow> False)
      then (BadRequest400 ''Prompt is too long. Maximum length is 100 characters.'', st)
      else
        (let userId = userId_of req
         in (case check_rate_limit (ae_now env) userId (limiter st) of
               (Limited secondsUntilReset, store') \<Rightarrow> (TooManyRequests429 secondsUntilReset, st)
             | (Allowed, store') \<Rightarrow>
                 answer_query env (case q_dataId req of Some d \<Rightarrow> d | None \<Rightarrow> []) (q_prompt req)
                   userId (st\<lparr>limiter := store'\<rparr>))))"

subsection \<open>The event path: \<^verbatim>\<open>parseAIResponse\<close>, \<^verbatim>\<open>generateFallbackInsights\<close>, \<^verbatim>\<open>handler\<close>\<close>

text \<open>
  The \<^verbatim>\<open>processingResults\<close> of a \<^verbatim>\<open>DataProcessedEvent\<close>, typed as the interface of
  lines 15 to 30 declares it.
\<close>

record ProcessingResults =
  recordCount :: "rat option"
  dataSize :: "rat option"
  validationStatus :: string
  extractedFields :: "string list option"
  qualityScore :: "rat option"

record DataProcessedEvent =
  de_tenantId :: string
  de_dataId :: string
  de_s3Key :: string
  de_processingResults :: ProcessingResults
  de_metadata :: "json option"

record event_env =
  ee_s3_get :: "string \<Rightarrow> js_error + string option"
  ee_JSON_parse :: "string \<Rightarrow> js_error + json"
  ee_bedrock :: "js_error + string"
  ee_now :: int
  ee_update :: "js_error option"
  ee_catch_now :: int
  ee_catch_update :: "js_error option"

text \<open>
  \<^verbatim>\<open>content.match(/\{[\s\S]*\}/)\<close>: from the first opening brace to the last closing
  brace after it.
\<close>

definition match_braces :: "string \<Rightarrow> string option" where
  "match_braces content =
     (let from_open = dropWhile (\<lambda>c. c \<noteq> CHR ''{'') content
      in if CHR ''}'' \<in> set from_open
         then Some (rev (dropWhile (\<lambda>c. c \<noteq> CHR ''}'') (rev from_open)))
         else None)"

definition fallback_parsing :: "string \<Rightarrow> AIInsights" where
  "fallback_parsing content =
     \<lparr>summary = JStr (take 200 content @ ''...''),
      keyInsights = JArr [JStr ''AI analysis completed'', JStr ''Review the full response for details''],
      recommendations = JArr [JStr ''Consider the AI-generated insights for decision making''],
      riskFactors = JArr [JStr ''No specific risks identified in the analysis''],
      opportunities = JArr [JStr ''Data analysis provides insights for business optimization''],
      dataQualityNotes = JArr [JStr ''AI analysis completed successfully''],
      modelUsed = JStr ''anthropic.claude-3-sonnet-20240229-v1:0'',
      confidence = JNum (7 / 10)\<rparr>"

definition parseAIResponse :: "(string \<Rightarrow> js_error + json) \<Rightarrow> string \<Rightarrow> AIInsights" where
  "parseAIResponse JSON_parse content =
     (case match_braces content of
        None \<Rightarrow> fallback_parsing content
      | Some jsonMatch \<Rightarrow>
          (case JSON_parse jsonMatch of
             Inl e \<Rightarrow> fallback_parsing content
           | Inr parsed \<Rightarrow>
               (if parsed = JNull then fallback_parsing content
                else
                  \<lparr>summary = js_or (get_prop parsed ''summary'') (JStr ''AI analysis completed''),
                   keyInsights = js_or (get_prop parsed ''keyInsights'')
                                   (JArr [JStr ''Analysis completed successfully'']),
                   recommendations = js_or (get_prop parsed ''recommendations'')
                                       (JArr [JStr ''Review the data for business opportunities'']),
                   riskFactors = js_or (get_prop parsed ''riskFactors'')
                                   (JArr [JStr ''No immediate risks identified'']),
                   opportunities = js_or (get_prop parsed ''opportunities'')
                                     (JArr [JStr ''Data analysis reveals potential for optimization'']),
                   dataQualityNotes = js_or (get_prop parsed ''dataQualityNotes'')
                                        (JArr [JStr ''Data quality assessment completed'']),
                   modelUsed = js_or (get_prop parsed ''modelUsed'')
                                 (JStr ''anthropic.claude-3-sonnet-20240229-v1:0''),
                   confidence = js_or (get_prop parsed ''confidence'') (JNum (8 / 10))\<rparr>)))"

text \<open>\<^verbatim>\<open>x || 0\<close> and \<^verbatim>\<open>x || 'Unknown'\<close> inside a template literal, for an optional number.\<close>

fun num_or_0 :: "rat option \<Rightarrow> rat" where
  "num_or_0 None = 0"
| "num_or_0 (Some r) = (if r \<noteq> 0 then r else 0)"

fun num_or_Unknown :: "rat option \<Rightarrow> string" where
  "num_or_Unknown None = ''Unknown''"
| "num_or_Unknown (Some r) = (if r \<noteq> 0 then num_to_string r else ''Unknown'')"

definition generateFallbackInsights :: "json \<Rightarrow> ProcessingResults \<Rightarrow> AIInsights" where
  "generateFallbackInsights data pr =
     \<lparr>summary = JStr (''Fallback analysis for data with '' @ num_to_string (num_or_0 (recordCount pr))
                      @ '' records''),
      keyInsights = JArr
        [JStr (''Data contains '' @ num_to_string (num_or_0 (recordCount pr)) @ '' records''),
         JStr (''Data quality score: '' @ num_or_Unknown (qualityScore pr)),
         JStr (''Data size: '' @ num_to_string (num_or_0 (dataSize pr) / 1024) @ '' KB'')],
      recommendations = JArr
        [JStr ''Review data quality and completeness'',
         JStr ''Consider implementing data validation rules'',
         JStr ''Monitor data processing performance''],
      riskFactors = JArr
        [JStr ''Fallback analysis used due to AI service unavailability'',
         JStr ''Limited insight depth compared to AI analysis''],
      opportunities = JArr
        [JStr ''Implement automated data quality checks'',
         JStr ''Set up regular data processing monitoring'',
         JStr ''Consider data enrichment strategies''],
      dataQualityNotes = JArr
        [JStr (''Quality score: '' @ num_or_Unknown (qualityScore pr)),
         JStr (''Fields extracted: '' @
               join '', '' (case extractedFields pr of Some fs \<Rightarrow> fs | None \<Rightarrow> []))],
      modelUsed = JStr ''fallback-rule-based'',
      confidence = JNum (6 / 10)\<rparr>"

text \<open>
  \<^verbatim>\<open>generateAIInsights\<close>, lines 427 to 473. \<open>Inr content\<close> is the text of the answer of the
  inference service, \<open>Inl e\<close> anything thrown between sending the request and reading that text.
\<close>

definition generateAIInsights ::
  "(js_error + string) \<Rightarrow> (string \<Rightarrow> js_error + json) \<Rightarrow> json \<Rightarrow> ProcessingResults \<Rightarrow> AIInsights" where
  "generateAIInsights bedrock JSON_parse data pr =
     (case bedrock of
        Inr content \<Rightarrow> parseAIResponse JSON_parse content
      | Inl e \<Rightarrow> generateFallbackInsights data pr)"

text \<open>\<^verbatim>\<open>handleEventBridgeEvent\<close>, lines 329 to 372.\<close>

definition handleEventBridgeEvent ::
  "event_env \<Rightarrow> DataProcessedEvent \<Rightarrow> table \<Rightarrow> (js_error + unit) \<times> table" where
  "handleEventBridgeEvent env ev tbl =
     (case ee_s3_get env (de_s3Key ev) of
        Inl e \<Rightarrow> (Inl e, tbl)
      | Inr None \<Rightarrow> (Inl (Error ''No data found in S3 object''), tbl)
      | Inr (Some body) \<Rightarrow>
          (case ee_JSON_parse env body of
             Inl e \<Rightarrow> (Inl e, tbl)
           | Inr data \<Rightarrow>
               (let generated = generateAIInsights (ee_bedrock env) (ee_JSON_parse env) data
                                  (de_processingResults ev)
                in (case ee_update env of
                      Some e \<Rightarrow> (Inl e, tbl)
                    | None \<Rightarrow>
                        (Inr (),
                         update_item tbl (de_tenantId ev) (de_dataId ev)
                           (\<lambda>it. it\<lparr>aiInsights := Some generated,
                                    insightsGeneratedAt := Some (ee_now env),
                                    status := Some INSIGHTS_GENERATED\<rparr>))))))"

text \<open>
  \<^verbatim>\<open>handler\<close>, lines 43 to 99, on an EventBridge event: the \<^verbatim>\<open>catch\<close> block records the
  error and throws it again.
\<close>

definition insights_handler ::
  "event_env \<Rightarrow> DataProcessedEvent \<Rightarrow> table \<Rightarrow> (js_error + unit) \<times> table" where
  "insights_handler env ev tbl =
     (case handleEventBridgeEvent env ev tbl of
        (Inr u, tbl') \<Rightarrow> (Inr u, tbl')
      | (Inl e, tbl') \<Rightarrow>
          (case ee_catch_update env of
             None \<Rightarrow>
               (Inl e,
                update_item tbl' (de_tenantId ev) (de_dataId ev)
                  (\<lambda>it. it\<lparr>insightsError := Some (message e),
                           insightsGeneratedAt := Some (ee_catch_now env)\<rparr>))
           | Some update_error \<Rightarrow> (Inl e, tbl')))"

section \<open>Reachable states\<close>

text \<open>
  A scan answers with items of the table that carry the \<^verbatim>\<open>dataId\<close> asked for.
\<close>

definition scan_consistent :: "table \<Rightarrow> string \<Rightarrow> (js_error + item list option) \<Rightarrow> bool" where
  "scan_consistent tbl d outcome =
     (case outcome of
        Inr (Some its) \<Rightarrow> list_all (\<lambda>it. dataId it = d \<and> tbl (tenantId it, dataId it) = Some it) its
      | _ \<Rightarrow> True)"

text \<open>
  The states of table, rate limiter and clock that invocations of the lambdas reach one after
  the other from an empty table. The clock never runs backwards; a cold start empties the
  rate limiter.
\<close>

inductive reachable :: "sys \<Rightarrow> bool" where
  start: "reachable \<lparr>limiter = Map.empty, db = Map.empty, clock = t0\<rparr>"
| cold_start: "reachable s \<Longrightarrow> reachable (s\<lparr>limiter := Map.empty\<rparr>)"
| tick: "reachable s \<Longrightarrow> clock s \<le> t \<Longrightarrow> reachable (s\<lparr>clock := t\<rparr>)"
| upload: "reachable s \<Longrightarrow> reachable (s\<lparr>db := upload_put (db s) t d key ts meta expiry\<rparr>)"
| process:
    "reachable s \<Longrightarrow> process_handler penv uev (db s) = (res, tbl', out) \<Longrightarrow>
     reachable (s\<lparr>db := tbl'\<rparr>)"
| insights_event:
    "reachable s \<Longrightarrow> insights_handler eenv dev (db s) = (res, tbl') \<Longrightarrow>
     reachable (s\<lparr>db := tbl'\<rparr>)"
| query:
    "reachable s \<Longrightarrow> clock s \<le> ae_now env \<Longrightarrow> ae_now env \<le> ae_timestamp env \<Longrightarrow>
     scan_consistent (db s) (case q_dataId req of Some d \<Rightarrow> d | None \<Rightarrow> []) (ae_scan env) \<Longrightarrow>
     handleApiGatewayRequest env req s = (resp, s') \<Longrightarrow>
     reachable (s'\<lparr>clock := ae_timestamp env\<rparr>)"

section \<open>Auxiliary notions and concrete inputs\<close>

text \<open>The item the Processing Stage samples: the first element of a non-empty array, else the payload.\<close>

definition sampled :: "json \<Rightarrow> json" where
  "sampled data = (case data of JArr (x # xs) \<Rightarrow> x | _ \<Rightarrow> data)"

definition pattern_keys :: "string list" where
  "pattern_keys = [''hasEmail'', ''hasPhone'', ''totalAmount'', ''categories'', ''errorCount'']"

definition extended :: "string \<Rightarrow> (string \<times> json) list \<Rightarrow> (string \<times> json) list \<Rightarrow> bool" where
  "extended K r0 r1 = (r1 = r0 \<or> (\<exists>v. r1 = AList.update K v r0))"

text \<open>
  The quality score as the specification words it, for comparison with
  \<open>calculateQualityScore\<close>: 20 off for no records, 10 off for more than 1000 records, 10 off
  when the sampled item lacks all of id, name and title, 20 off when it has no fields.
\<close>

definition spec_lacks_all :: "json \<Rightarrow> bool" where
  "spec_lacks_all item =
     (get_prop item ''id'' = None \<and> get_prop item ''name'' = None \<and> get_prop item ''title'' = None)"

definition spec_qualityScore :: "json \<Rightarrow> int" where
  "spec_qualityScore data =
     max 0 (100 - (if recordCount_of data = 0 then 20 else 0)
                - (if recordCount_of data > 1000 then 10 else 0)
                - (case data of
                     JArr [] \<Rightarrow> 0
                   | _ \<Rightarrow> (if spec_lacks_all (sampled data) then 10 else 0)
                          + (if object_keys (sampled data) = [] then 20 else 0)))"

text \<open>The payload of the scenario: two records with a name and an amount.\<close>

definition scenario_payload :: json where
  "scenario_payload =
     JArr [JObj [(''name'', JStr ''A''), (''amount'', JNum 10)],
           JObj [(''name'', JStr ''B''), (''amount'', JNum 20)]]"

text \<open>The table once the Processing Stage has persisted the results \<open>pr\<close>.\<close>

definition persisted :: "process_env \<Rightarrow> DataUploadedEvent \<Rightarrow> table \<Rightarrow> (string \<times> json) list \<Rightarrow> table" where
  "persisted env ev tbl pr =
     update_item tbl (ue_tenantId ev) (ue_dataId ev)
       (\<lambda>it. it\<lparr>status := Some PROCESSED, processedAt := Some (pe_now env),
                processingResults := Some (JObj pr)\<rparr>)"

text \<open>
  The scenario as an invocation: the payload lies under its key in the object store, the
  record was created by the upload, and every collaborator answers.
\<close>

definition scenario_parse :: "string \<Rightarrow> js_error + json" where
  "scenario_parse s =
     (if s = JSON_stringify scenario_payload then Inr scenario_payload
      else Inl (SyntaxError ''Unexpected token''))"

definition scenario_event :: DataUploadedEvent where
  "scenario_event =
     \<lparr>ue_tenantId = ''t1'', ue_dataId = ''d1'', ue_s3Key = ''t1/d1.json'', ue_timestamp = 1000,
      ue_metadata = None\<rparr>"

definition scenario_table :: table where
  "scenario_table = upload_put Map.empty ''t1'' ''d1'' ''t1/d1.json'' 1000 (JObj []) 31537000"

definition scenario_process_env :: process_env where
  "scenario_process_env =
     \<lparr>pe_s3_get = (\<lambda>k. if k = ''t1/d1.json'' then Inr (Some (JSON_stringify scenario_payload))
                         else Inl (Error ''NoSuchKey'')),
      pe_JSON_parse = scenario_parse,
      pe_now = 2000, pe_update = None, pe_ENABLE_AI_INSIGHTS = True, pe_put_events = None,
      pe_catch_now = 2001, pe_catch_update = None\<rparr>"

definition emit_fails_env :: process_env where
  "emit_fails_env = scenario_process_env\<lparr>pe_put_events := Some (Error ''EventBridge unavailable'')\<rparr>"

definition scenario_results :: "(string \<times> json) list" where
  "scenario_results =
     [(''recordCount'', JNum 2), (''dataSize'', JNum 51),
      (''validationStatus'', JStr ''VALID''),
      (''extractedFields'', JArr [JStr ''name'', JStr ''amount'']),
      (''qualityScore'', JNum 100), (''totalAmount'', JNum 30)]"



text \<open>The same invocation when the object store returns no body.\<close>

definition no_body_env :: process_env where
  "no_body_env = scenario_process_env\<lparr>pe_s3_get := (\<lambda>k. Inr None)\<rparr>"

text \<open>\<^verbatim>\<open>prompt || 'General insights'\<close>, and \<^verbatim>\<open>fileRecord.insights || []\<close>.\<close>

definition prompt_or_general :: "string option \<Rightarrow> string" where
  "prompt_or_general prompt =
     (case prompt of Some p \<Rightarrow> (if p \<noteq> [] then p else ''General insights'') | None \<Rightarrow> ''General insights'')"

definition history :: "item \<Rightarrow> insight_record list" where
  "history it = (case insights it of Some xs \<Rightarrow> xs | None \<Rightarrow> [])"

text \<open>
  The outcome of a query that got through every check: the answer, and the state after the
  update of the table.
\<close>

definition answered ::
  "api_env \<Rightarrow> string \<Rightarrow> string option \<Rightarrow> string \<Rightarrow> item \<Rightarrow> json \<Rightarrow> sys \<Rightarrow> api_response \<Rightarrow> sys \<Rightarrow> bool" where
  "answered env d prompt u fileRecord data st resp st' =
     (let text = generateAdditionalInsights (ae_bedrock env) data
                   (js_or (processingResults fileRecord) (JObj [])) prompt;
          entry = \<lparr>ir_timestamp = ae_timestamp env, ir_userId = u,
                   ir_prompt = prompt_or_general prompt, ir_response = text\<rparr>;
          updated = slice_last MAX_INSIGHTS (history fileRecord @ [entry])
      in resp = Ok200 text d (tenantId fileRecord) prompt True updated
         \<and> st' = st\<lparr>db := update_item (db st) (tenantId fileRecord) d
                              (\<lambda>it. it\<lparr>insights := Some updated,
                                       lastInsightAt := Some (ae_timestamp env)\<rparr>)\<rparr>)"

text \<open>The history stored under a key, and what holds of every bucket and every history.\<close>

definition hist_at :: "table \<Rightarrow> string \<times> string \<Rightarrow> insight_record list" where
  "hist_at tbl k = (case tbl k of None \<Rightarrow> [] | Some it \<Rightarrow> history it)"

definition bucket_ok :: "int \<Rightarrow> bucket \<Rightarrow> bool" where
  "bucket_ok c b = (1 \<le> count b \<and> count b \<le> 6 \<and> resetTime b \<le> c + 60000)"

definition history_ok :: "int \<Rightarrow> insight_record list \<Rightarrow> bool" where
  "history_ok c h = (length h \<le> 10 \<and> sorted (map ir_timestamp h) \<and> list_all (\<lambda>e. ir_timestamp e \<le> c) h)"

definition sys_inv :: "sys \<Rightarrow> bool" where
  "sys_inv s = ((\<forall>u b. limiter s u = Some b \<longrightarrow> bucket_ok (clock s) b)
               \<and> (\<forall>k. history_ok (clock s) (hist_at (db s) k)))"

text \<open>
  The scenario goes on: the record after processing, and a query with the prompt
  \<^verbatim>\<open>total amount?\<close> while the inference service is down.
\<close>

definition scenario_record :: item where
  "scenario_record =
     \<lparr>tenantId = ''t1'', dataId = ''d1'', s3Key = Some ''t1/d1.json'', uploadedAt = Some 1000,
      status = Some PROCESSED, metadata = Some (JObj []), ttl = Some 31537000,
      processedAt = Some 2000, processingResults = Some (JObj scenario_results),
      processingError = None, aiInsights = None, insightsGeneratedAt = None,
      insightsError = None, insights = None, lastInsightAt = None\<rparr>"

definition scenario_processed :: sys where
  "scenario_processed =
     \<lparr>limiter = Map.empty,
      db = persisted scenario_process_env scenario_event scenario_table scenario_results,
      clock = 2000\<rparr>"

definition scenario_request :: api_request where
  "scenario_request =
     \<lparr>q_dataId = Some ''d1'', q_prompt = Some ''total amount?'',
      q_claims = Some \<lparr>sub = Some ''user-1'', cognito_username = None\<rparr>\<rparr>"

definition scenario_api_env :: api_env where
  "scenario_api_env =
     \<lparr>ae_now = 3000, ae_scan = Inr (Some [scenario_record]),
      ae_s3_get = (\<lambda>k. if k = ''t1/d1.json'' then Inr (Some (JSON_stringify scenario_payload))
                         else Inl (Error ''NoSuchKey'')),
      ae_JSON_parse = scenario_parse,
      ae_bedrock = Inl (Error ''ThrottlingException''),
      ae_timestamp = 3005, ae_update = None\<rparr>"

definition scenario_fallback :: string where
  "scenario_fallback =
     ''Analysis completed with fallback method. Question: total amount? - Data contains 2 records with quality score of 100. Consider reviewing the data for business opportunities and potential improvements.''"

definition scenario_entry :: insight_record where
  "scenario_entry =
     \<lparr>ir_timestamp = 3005, ir_userId = ''user-1'', ir_prompt = ''total amount?'',
      ir_response = scenario_fallback\<rparr>"

definition scenario_limiter :: rateLimitStore where
  "scenario_limiter = [''user-1'' \<mapsto> \<lparr>count = 1, resetTime = 63000\<rparr>]"

definition scenario_answered :: sys where
  "scenario_answered =
     \<lparr>limiter = scenario_limiter,
      db = update_item (db scenario_processed) ''t1'' ''d1''
             (\<lambda>it. it\<lparr>insights := Some [scenario_entry], lastInsightAt := Some 3005\<rparr>),
      clock = 2000\<rparr>"

text \<open>Queries for a record the scan does not find: they only count against the rate limit.\<close>

definition not_found_env :: api_env where
  "not_found_env = scenario_api_env\<lparr>ae_scan := Inr None, ae_timestamp := 3000\<rparr>"

definition counted :: "nat \<Rightarrow> sys" where
  "counted k = \<lparr>limiter = [''user-1'' \<mapsto> \<lparr>count = k, resetTime = 63000\<rparr>], db = Map.empty, clock = 3000\<rparr>"

text \<open>
  A request that gets past the two validations of lines 112 to 141, which come before the rate
  limiter; an answer 429; and invocations of the handler one after the other in one container,
  each starting in the state the one before left.
\<close>

definition passes_validation :: "api_request \<Rightarrow> bool" where
  "passes_validation req =
     (str_truthy (q_dataId req) \<and> (case q_prompt req of Some p \<Rightarrow> length p \<le> 100 | None \<Rightarrow> True))"

fun rejected :: "api_response \<Rightarrow> bool" where
  "rejected (TooManyRequests429 secondsUntilReset) = True"
| "rejected r = False"

fun invocations :: "(api_env \<times> api_request) list \<Rightarrow> sys \<Rightarrow> api_response list \<times> sys" where
  "invocations [] st = ([], st)"
| "invocations ((env, req) # later) st =
     (case handleApiGatewayRequest env req st of
        (resp, st') \<Rightarrow> (case invocations later st' of (resps, st'') \<Rightarrow> (resp # resps, st'')))"

text \<open>The status stored under a key.\<close>

definition status_at :: "table \<Rightarrow> string \<times> string \<Rightarrow> status option" where
  "status_at tbl k = (case tbl k of None \<Rightarrow> None | Some it \<Rightarrow> status it)"

text \<open>Prompts of 101 and of 100 characters.\<close>

definition long_request :: api_request where
  "long_request = scenario_request\<lparr>q_prompt := Some (replicate 101 (CHR ''a''))\<rparr>"

definition limit_request :: api_request where
  "limit_request = scenario_request\<lparr>q_prompt := Some (replicate 100 (CHR ''a''))\<rparr>"

text \<open>The fields of an \<^verbatim>\<open>AIInsights\<close> value by name, and the defaults of \<^verbatim>\<open>parseAIResponse\<close>.\<close>

definition ai_fields :: "AIInsights \<Rightarrow> (string \<times> json) list" where
  "ai_fields ins =
     [(''summary'', summary ins), (''keyInsights'', keyInsights ins),
      (''recommendations'', recommendations ins), (''riskFactors'', riskFactors ins),
      (''opportunities'', opportunities ins), (''dataQualityNotes'', dataQualityNotes ins),
      (''modelUsed'', modelUsed ins), (''confidence'', confidence ins)]"

definition parse_defaults :: "(string \<times> json) list" where
  "parse_defaults =
     [(''summary'', JStr ''AI analysis completed''),
      (''keyInsights'', JArr [JStr ''Analysis completed successfully'']),
      (''recommendations'', JArr [JStr ''Review the data for business opportunities'']),
      (''riskFactors'', JArr [JStr ''No immediate risks identified'']),
      (''opportunities'', JArr [JStr ''Data analysis reveals potential for optimization'']),
      (''dataQualityNotes'', JArr [JStr ''Data quality assessment completed'']),
      (''modelUsed'', JStr ''anthropic.claude-3-sonnet-20240229-v1:0''),
      (''confidence'', JNum (8 / 10))]"

text \<open>A field that is not empty, as the specification asks of every field.\<close>

fun spec_filled :: "json \<Rightarrow> bool" where
  "spec_filled JNull = False"
| "spec_filled (JStr s) = (s \<noteq> [])"
| "spec_filled (JArr xs) = (xs \<noteq> [])"
| "spec_filled (JObj kvs) = (kvs \<noteq> [])"
| "spec_filled v = True"

text \<open>An answer of the inference service whose \<^verbatim>\<open>keyInsights\<close> is the empty list.\<close>

definition empty_list_answer :: string where
  "empty_list_answer = ''{'' @ quote ''keyInsights'' @ '':[]}''"

definition empty_list_parse :: "string \<Rightarrow> js_error + json" where
  "empty_list_parse s =
     (if s = empty_list_answer then Inr (JObj [(''keyInsights'', JArr [])])
      else Inl (SyntaxError ''Unexpected token''))"

text \<open>The processed event of the scenario, with the inference service down, and with the object missing.\<close>

definition scenario_processed_event :: DataProcessedEvent where
  "scenario_processed_event =
     \<lparr>de_tenantId = ''t1'', de_dataId = ''d1'', de_s3Key = ''t1/d1.json'',
      de_processingResults =
        \<lparr>recordCount = Some 2, dataSize = Some 51, validationStatus = ''VALID'',
         extractedFields = Some [''name'', ''amount''], qualityScore = Some 100\<rparr>,
      de_metadata = None\<rparr>"

definition inference_down_env :: event_env where
  "inference_down_env =
     \<lparr>ee_s3_get = (\<lambda>k. if k = ''t1/d1.json'' then Inr (Some (JSON_stringify scenario_payload))
                         else Inl (Error ''NoSuchKey'')),
      ee_JSON_parse = scenario_parse,
      ee_bedrock = Inl (Error ''ThrottlingException''),
      ee_now = 4000, ee_update = None, ee_catch_now = 4001, ee_catch_update = None\<rparr>"

definition object_missing_env :: event_env where
  "object_missing_env = inference_down_env\<lparr>ee_s3_get := (\<lambda>k. Inr None)\<rparr>"

text \<open>The same, when the table also refuses the update of the \<^verbatim>\<open>catch\<close> block.\<close>

definition table_refuses_env :: event_env where
  "table_refuses_env =
     object_missing_env\<lparr>ee_catch_update := Some (Error ''ProvisionedThroughputExceededException'')\<rparr>"


section \<open>Lemmas on the processing results\<close>

lemma bindE_Inr_iff: "bindE m f = Inr y \<longleftrightarrow> (\<exists>x. m = Inr x \<and> f x = Inr y)"
  by (cases m) auto

lemma map_of_rev_distinct: "distinct (map fst r) \<Longrightarrow> map_of (rev r) = map_of r"
  by (subst map_of_inject_set) (simp_all add: rev_map [symmetric])

lemma map_of_spread: "map_of (spread base src) = map_of base ++ map_of (rev src)"
  unfolding spread_def
proof (induction src arbitrary: base)
  case Nil
  then show ?case by simp
next
  case (Cons p src)
  obtain k v where p: "p = (k, v)" by (cases p)
  have "map_of (fold (\<lambda>(k, v). AList.update k v) src (AList.update k v base))
        = map_of (AList.update k v base) ++ map_of (rev src)"
    by (rule Cons.IH)
  then show ?case
    by (simp add: p update_conv' map_add_upd_left)
qed

subsection \<open>The quality score\<close>

lemma penalty_not_null:
  "item \<noteq> JNull \<Longrightarrow>
   calculateMissingFieldsPenalty item =
     Inr ((if \<not> truthy_u (get_prop item ''id'') \<and> \<not> truthy_u (get_prop item ''name'')
              \<and> \<not> truthy_u (get_prop item ''title'') then 10 else 0)
          + (if object_keys item = [] then 20 else 0))"
  by (simp add: calculateMissingFieldsPenalty_def)

lemma truthy_not_null: "truthy x \<Longrightarrow> x \<noteq> JNull"
  by auto

lemma score_null: "calculateQualityScore JNull = Inl (read_null ''id'')"
  by (simp add: calculateQualityScore_def calculateMissingFieldsPenalty_def)

lemma score_empty: "calculateQualityScore (JArr []) = Inr 80"
  by (simp add: calculateQualityScore_def)

lemma score_falsy_sample:
  "\<not> truthy x \<Longrightarrow>
   calculateQualityScore (JArr (x # xs)) = Inr (100 - (if 1000 < length (x # xs) then 10 else 0))"
  by (simp add: calculateQualityScore_def)

lemma score_truthy_sample:
  "truthy x \<Longrightarrow>
   calculateQualityScore (JArr (x # xs)) =
     Inr (100 - (if 1000 < length (x # xs) then 10 else 0)
              - (if \<not> truthy_u (get_prop x ''id'') \<and> \<not> truthy_u (get_prop x ''name'')
                    \<and> \<not> truthy_u (get_prop x ''title'') then 10 else 0)
              - (if object_keys x = [] then 20 else 0))"
  by (simp add: calculateQualityScore_def penalty_not_null truthy_not_null)

lemma score_single:
  "data \<noteq> JNull \<Longrightarrow> \<forall>xs. data \<noteq> JArr xs \<Longrightarrow>
   calculateQualityScore data =
     Inr (100 - (if \<not> truthy_u (get_prop data ''id'') \<and> \<not> truthy_u (get_prop data ''name'')
                    \<and> \<not> truthy_u (get_prop data ''title'') then 10 else 0)
              - (if object_keys data = [] then 20 else 0))"
  by (cases data) (simp_all add: calculateQualityScore_def penalty_not_null)

lemma score_range:
  assumes "data \<noteq> JNull"
  shows "\<exists>q. calculateQualityScore data = Inr q \<and> 60 \<le> q \<and> q \<le> 100"
proof (cases "\<exists>xs. data = JArr xs")
  case True
  then obtain xs where d: "data = JArr xs" by blast
  show ?thesis
  proof (cases xs)
    case Nil
    then show ?thesis by (simp add: d score_empty)
  next
    case (Cons x rest)
    then show ?thesis
      by (cases "truthy x") (simp_all add: d score_falsy_sample score_truthy_sample)
  qed
next
  case False
  then show ?thesis using assms by (simp add: score_single)
qed

lemma score_above_empty:
  assumes "calculateQualityScore (JArr (x # xs)) = Inr q"
    and "\<not> truthy x \<or> (truthy_u (get_prop x ''id'') \<or> truthy_u (get_prop x ''name'')
                          \<or> truthy_u (get_prop x ''title'')) \<and> object_keys x \<noteq> []"
  shows "80 < q"
proof (cases "truthy x")
  case True
  with assms show ?thesis by (auto simp add: score_truthy_sample split: if_splits)
next
  case False
  with assms show ?thesis by (auto simp add: score_falsy_sample split: if_splits)
qed

text \<open>
  Claim C4, as the code has it. On every payload other than \<^verbatim>\<open>null\<close> (where reading
  \<^verbatim>\<open>null.id\<close> throws) the score starts at 100 and loses 20 for an empty array and 10 for
  an array of more than 1000 elements. The two field deductions apply to the sampled item only
  when it is truthy (the first element of the array) or when the payload is not an array: 10
  when none of id, name and title holds a truthy value, 20 when the item has no keys. The
  result lies between 60 and 100, so the floor at 0 is never reached; the empty array scores
  80, and a non-empty array without field deductions scores more.
\<close>

theorem quality_score_deductions:
  "calculateQualityScore JNull = Inl (read_null ''id'')
   \<and> calculateQualityScore (JArr []) = Inr 80
   \<and> (\<not> truthy x \<longrightarrow>
        calculateQualityScore (JArr (x # xs)) =
          Inr (100 - (if 1000 < length (x # xs) then 10 else 0)))
   \<and> (truthy x \<longrightarrow>
        calculateQualityScore (JArr (x # xs)) =
          Inr (100 - (if 1000 < length (x # xs) then 10 else 0)
                   - (if \<not> truthy_u (get_prop x ''id'') \<and> \<not> truthy_u (get_prop x ''name'')
                         \<and> \<not> truthy_u (get_prop x ''title'') then 10 else 0)
                   - (if object_keys x = [] then 20 else 0)))
   \<and> (data \<noteq> JNull \<and> (\<forall>ys. data \<noteq> JArr ys) \<longrightarrow>
        calculateQualityScore data =
          Inr (100 - (if \<not> truthy_u (get_prop data ''id'') \<and> \<not> truthy_u (get_prop data ''name'')
                         \<and> \<not> truthy_u (get_prop data ''title'') then 10 else 0)
                   - (if object_keys data = [] then 20 else 0)))
   \<and> (data \<noteq> JNull \<longrightarrow> (\<exists>q. calculateQualityScore data = Inr q \<and> 60 \<le> q \<and> q \<le> 100))
   \<and> (calculateQualityScore (JArr (x # xs)) = Inr q
        \<and> (\<not> truthy x \<or> (truthy_u (get_prop x ''id'') \<or> truthy_u (get_prop x ''name'')
                             \<or> truthy_u (get_prop x ''title'')) \<and> object_keys x \<noteq> [])
        \<longrightarrow> 80 < q)"
  using score_null score_empty score_falsy_sample [of x xs] score_truthy_sample [of x xs]
    score_single [of data] score_range [of data] score_above_empty [of x xs q]
  by blast

theorem quality_score_deductions_witness:
  "truthy (JObj [(''name'', JStr ''A'')])
   \<and> calculateQualityScore (JArr [JObj [(''name'', JStr ''A'')]]) = Inr 100
   \<and> (80::int) < 100
   \<and> \<not> truthy (JNum 0)
   \<and> calculateQualityScore (JArr [JNum 0]) = Inr 100
   \<and> JObj [] \<noteq> JNull \<and> (\<forall>ys. JObj [] \<noteq> JArr ys)
   \<and> calculateQualityScore (JObj []) = Inr 70
   \<and> (\<exists>q. calculateQualityScore (JObj []) = Inr q \<and> 60 \<le> q \<and> q \<le> 100)"
  using quality_score_deductions [of "JObj [(''name'', JStr ''A'')]" "[]" "JObj []" 100]
    quality_score_deductions [of "JNum 0" "[]" "JObj []" 100]
  by simp

text \<open>
  Claim C4 as stated fails on an array whose first record has the id 0: the record has an id,
  so the specification deducts nothing, while the code tests the value and deducts 10.
\<close>

theorem quality_score_counterexample:
  "calculateQualityScore (JArr [JObj [(''id'', JNum 0)]]) = Inr 90
   \<and> spec_qualityScore (JArr [JObj [(''id'', JNum 0)]]) = 100"
  by (simp add: calculateQualityScore_def calculateMissingFieldsPenalty_def spec_qualityScore_def
        spec_lacks_all_def sampled_def recordCount_of_def)

subsection \<open>\<^verbatim>\<open>processData\<close> and the results object\<close>

lemma last_step:
  "(if c then bindE m (\<lambda>x. Inr (AList.update K (g x) r0)) else Inr r0) = Inr r \<Longrightarrow> extended K r0 r"
  by (auto simp add: extended_def bindE_Inr_iff split: if_splits)

lemma one_step:
  assumes "bindE (if c then bindE m (\<lambda>x. Inr (AList.update K (g x) r0)) else Inr r0) f = Inr r"
  obtains r1 where "extended K r0 r1" and "f r1 = Inr r"
proof -
  from assms obtain r1
    where a: "(if c then bindE m (\<lambda>x. Inr (AList.update K (g x) r0)) else Inr r0) = Inr r1"
      and b: "f r1 = Inr r"
    by (auto simp only: bindE_Inr_iff)
  from a have "extended K r0 r1" by (rule last_step)
  then show thesis using b by (rule that)
qed

lemma detect_patterns_chain:
  assumes "detect_patterns data sample r0 = Inr r"
  obtains r1 r2 r3 r4 where "extended ''hasEmail'' r0 r1" and "extended ''hasPhone'' r1 r2"
    and "extended ''totalAmount'' r2 r3" and "extended ''categories'' r3 r4"
    and "extended ''errorCount'' r4 r"
proof -
  note d = assms [unfolded detect_patterns_def Let_def]
  from d obtain r1 where 1: "extended ''hasEmail'' r0 r1"
    and d1: "bindE (if truthy_u (get_prop sample ''phone'')
            then bindE (js_some ''phone'' data)
                   (\<lambda>b. Inr (AList.update ''hasPhone'' (JBool b) r1))
            else Inr r1)
     (\<lambda>results.
     bindE (if truthy_u (get_prop sample ''amount'') \<or> truthy_u (get_prop sample ''price'')
            then bindE (reduce_amount (if truthy_u (get_prop sample ''amount'') then ''amount'' else ''price'') (JNum 0) data)
                       (\<lambda>total. Inr (AList.update ''totalAmount'' total results))
            else Inr results)
     (\<lambda>results.
     bindE (if truthy_u (get_prop sample ''category'')
            then bindE (map_prop ''category'' data)
                   (\<lambda>vs. Inr (AList.update ''categories''
                                 (JArr (set_spread [] (filter_Boolean vs))) results))
            else Inr results)
     (\<lambda>results.
     (if truthy_u (get_prop sample ''level'')
      then bindE (count_errors data)
             (\<lambda>n. Inr (AList.update ''errorCount'' (JNum (of_nat n)) results))
      else Inr results)))) = Inr r"
    by (rule one_step)
  from d1 obtain r2 where 2: "extended ''hasPhone'' r1 r2"
    and d2: "bindE (if truthy_u (get_prop sample ''amount'') \<or> truthy_u (get_prop sample ''price'')
            then bindE (reduce_amount (if truthy_u (get_prop sample ''amount'') then ''amount'' else ''price'') (JNum 0) data)
                       (\<lambda>total. Inr (AList.update ''totalAmount'' total r2))
            else Inr r2)
     (\<lambda>results.
     bindE (if truthy_u (get_prop sample ''category'')
            then bindE (map_prop ''category'' data)
                   (\<lambda>vs. Inr (AList.update ''categories''
                                 (JArr (set_spread [] (filter_Boolean vs))) results))
            else Inr results)
     (\<lambda>results.
     (if truthy_u (get_prop sample ''level'')
      then bindE (count_errors data)
             (\<lambda>n. Inr (AList.update ''errorCount'' (JNum (of_nat n)) results))
      else Inr results))) = Inr r"
    by (rule one_step)
  from d2 obtain r3 where 3: "extended ''totalAmount'' r2 r3"
    and d3: "bindE (if truthy_u (get_prop sample ''category'')
            then bindE (map_prop ''category'' data)
                   (\<lambda>vs. Inr (AList.update ''categories''
                                 (JArr (set_spread [] (filter_Boolean vs))) r3))
            else Inr r3)
     (\<lambda>results.
     (if truthy_u (get_prop sample ''level'')
      then bindE (count_errors data)
             (\<lambda>n. Inr (AList.update ''errorCount'' (JNum (of_nat n)) results))
      else Inr results)) = Inr r"
    by (rule one_step)
  from d3 obtain r4 where 4: "extended ''categories'' r3 r4"
    and d4: "(if truthy_u (get_prop sample ''level'')
      then bindE (count_errors data)
             (\<lambda>n. Inr (AList.update ''errorCount'' (JNum (of_nat n)) r4))
      else Inr r4) = Inr r"
    by (rule one_step)
  from d4 have 5: "extended ''errorCount'' r4 r" by (rule last_step)
  from 1 2 3 4 5 show thesis by (rule that)
qed


lemma extended_frame: "extended K r0 r1 \<Longrightarrow> k \<noteq> K \<Longrightarrow> map_of r1 k = map_of r0 k"
  by (auto simp add: extended_def update_conv')

lemma extended_distinct: "extended K r0 r1 \<Longrightarrow> distinct (map fst r0) \<Longrightarrow> distinct (map fst r1)"
  by (auto simp add: extended_def distinct_update)

lemma detect_patterns_frame:
  assumes "detect_patterns data sample r0 = Inr r" and "k \<notin> set pattern_keys"
  shows "map_of r k = map_of r0 k"
proof -
  from assms(1) obtain r1 r2 r3 r4 where "extended ''hasEmail'' r0 r1" and "extended ''hasPhone'' r1 r2"
    and "extended ''totalAmount'' r2 r3" and "extended ''categories'' r3 r4"
    and "extended ''errorCount'' r4 r"
    by (rule detect_patterns_chain)
  with assms(2) show ?thesis
    by (simp add: pattern_keys_def extended_frame)
qed

lemma detect_patterns_distinct:
  assumes "detect_patterns data sample r0 = Inr r" and "distinct (map fst r0)"
  shows "distinct (map fst r)"
proof -
  from assms(1) obtain r1 r2 r3 r4 where "extended ''hasEmail'' r0 r1" and "extended ''hasPhone'' r1 r2"
    and "extended ''totalAmount'' r2 r3" and "extended ''categories'' r3 r4"
    and "extended ''errorCount'' r4 r"
    by (rule detect_patterns_chain)
  with assms(2) show ?thesis
    by (blast intro: extended_distinct)
qed

lemma processData_cases:
  assumes "processData data = Inr r"
  shows "(\<exists>x xs. data = JArr (x # xs) \<and> x \<noteq> JNull \<and>
            detect_patterns (x # xs) x
              [(''recordCount'', JNum (of_nat (recordCount_of data))),
               (''extractedFields'', keys_json (sampled data))] = Inr r)
         \<or> r = [(''recordCount'', JNum (of_nat (recordCount_of data))),
                 (''extractedFields'', keys_json (sampled data))]"
proof (cases data)
  case (JArr ys)
  then show ?thesis using assms
    by (cases ys) (auto simp add: processData_def recordCount_of_def sampled_def split: if_splits)
qed (use assms in \<open>auto simp add: processData_def recordCount_of_def sampled_def\<close>)

lemma processData_results:
  assumes "processData data = Inr r"
  shows "distinct (map fst r)"
    and "k \<notin> set pattern_keys \<Longrightarrow>
         map_of r k = map_of [(''recordCount'', JNum (of_nat (recordCount_of data))),
                              (''extractedFields'', keys_json (sampled data))] k"
  using processData_cases [OF assms]
  by (auto dest: detect_patterns_distinct detect_patterns_frame)

lemma handler_processingResults_Inr:
  assumes "handler_processingResults data = Inr pr"
  obtains r q where "processData data = Inr r" and "calculateQualityScore data = Inr q"
    and "pr = spread [(''recordCount'', JNum (of_nat (recordCount_of data))),
                      (''dataSize'', JNum (of_nat (byteLength (JSON_stringify data)))),
                      (''validationStatus'', JStr ''VALID''),
                      (''extractedFields'', keys_json data),
                      (''qualityScore'', JNum (of_int q))] r"
  using assms unfolding handler_processingResults_def Let_def
  by (auto simp add: bindE_Inr_iff)

lemma handler_processingResults_lookup:
  assumes "handler_processingResults data = Inr pr"
  shows "map_of pr ''recordCount'' = Some (JNum (of_nat (recordCount_of data)))"
    and "map_of pr ''dataSize'' = Some (JNum (of_nat (byteLength (JSON_stringify data))))"
    and "map_of pr ''extractedFields'' = Some (keys_json (sampled data))"
    and "map_of pr ''validationStatus'' = Some (JStr ''VALID'')"
    and "\<exists>q. calculateQualityScore data = Inr q \<and> map_of pr ''qualityScore'' = Some (JNum (of_int q))"
proof -
  from assms obtain r q where r: "processData data = Inr r" and q: "calculateQualityScore data = Inr q"
    and pr: "pr = spread [(''recordCount'', JNum (of_nat (recordCount_of data))),
                      (''dataSize'', JNum (of_nat (byteLength (JSON_stringify data)))),
                      (''validationStatus'', JStr ''VALID''),
                      (''extractedFields'', keys_json data),
                      (''qualityScore'', JNum (of_int q))] r"
    by (rule handler_processingResults_Inr)
  have m: "map_of pr = map_of [(''recordCount'', JNum (of_nat (recordCount_of data))),
                      (''dataSize'', JNum (of_nat (byteLength (JSON_stringify data)))),
                      (''validationStatus'', JStr ''VALID''),
                      (''extractedFields'', keys_json data),
                      (''qualityScore'', JNum (of_int q))] ++ map_of r"
    by (simp only: pr map_of_spread map_of_rev_distinct [OF processData_results(1) [OF r]])
  note look = processData_results(2) [OF r]
  show "map_of pr ''recordCount'' = Some (JNum (of_nat (recordCount_of data)))"
    by (simp add: m map_add_def look pattern_keys_def)
  show "map_of pr ''dataSize'' = Some (JNum (of_nat (byteLength (JSON_stringify data))))"
    by (simp add: m map_add_def look pattern_keys_def)
  show "map_of pr ''extractedFields'' = Some (keys_json (sampled data))"
    by (simp add: m map_add_def look pattern_keys_def)
  show "map_of pr ''validationStatus'' = Some (JStr ''VALID'')"
    by (simp add: m map_add_def look pattern_keys_def)
  show "\<exists>q. calculateQualityScore data = Inr q \<and> map_of pr ''qualityScore'' = Some (JNum (of_int q))"
    by (simp add: m map_add_def look pattern_keys_def q)
qed










subsection \<open>The handler of the process lambda\<close>

lemma process_try_cases:
  assumes "process_try env ev tbl = (res, tbl', out)"
  shows "(\<exists>e. res = Inl e \<and> tbl' = tbl \<and> out = [])
       \<or> (\<exists>body data pr. pe_s3_get env (ue_s3Key ev) = Inr (Some body)
             \<and> pe_JSON_parse env body = Inr data
             \<and> handler_processingResults data = Inr pr
             \<and> pe_update env = None
             \<and> tbl' = persisted env ev tbl pr
             \<and> ((\<exists>e. res = Inl e \<and> pe_ENABLE_AI_INSIGHTS env \<and> pe_put_events env = Some e \<and> out = [])
                \<or> res = Inr ()))"
  using assms unfolding process_try_def persisted_def Let_def
  by (auto split: sum.splits option.splits if_splits)

lemma process_handler_Inr:
  assumes "process_handler env ev tbl = (Inr u, tbl', out)"
  shows "process_try env ev tbl = (Inr u, tbl', out)"
  using assms unfolding process_handler_def
  by (auto split: sum.splits option.splits prod.splits)

lemma update_item_at: "update_item tbl t d f (t, d) = Some (f (case tbl (t, d) of None \<Rightarrow> new_item t d | Some it \<Rightarrow> it))"
  by (simp add: update_item_def)

lemma update_item_other: "k \<noteq> (t, d) \<Longrightarrow> update_item tbl t d f k = tbl k"
  by (simp add: update_item_def)

lemma persisted_at:
  "map_option processingResults (persisted env ev tbl pr (ue_tenantId ev, ue_dataId ev)) = Some (Some (JObj pr))"
  by (simp add: persisted_def update_item_at)

lemma process_handler_success:
  assumes "process_handler env ev tbl = (Inr u, tbl', out)"
  shows "\<exists>body data pr. pe_s3_get env (ue_s3Key ev) = Inr (Some body)
             \<and> pe_JSON_parse env body = Inr data
             \<and> handler_processingResults data = Inr pr
             \<and> map_option processingResults (tbl' (ue_tenantId ev, ue_dataId ev)) = Some (Some (JObj pr))"
  using process_try_cases [OF process_handler_Inr [OF assms]] persisted_at
  by auto

lemma process_handler_Inl:
  assumes "process_try env ev tbl = (Inl e, tbl1, out1)"
  shows "process_handler env ev tbl =
           (Inl e,
            (case pe_catch_update env of
               None \<Rightarrow> update_item tbl1 (ue_tenantId ev) (ue_dataId ev)
                         (\<lambda>it. it\<lparr>status := Some PROCESSING_FAILED,
                                  processingError := Some (message e),
                                  processedAt := Some (pe_catch_now env)\<rparr>)
             | Some update_error \<Rightarrow> tbl1),
            out1)"
  by (simp add: process_handler_def assms split: option.splits)

lemma scenario_results_eval: "handler_processingResults scenario_payload = Inr scenario_results"
  unfolding scenario_results_def by code_simp

lemma scenario_try:
  "process_try scenario_process_env scenario_event scenario_table =
     (Inr (), persisted scenario_process_env scenario_event scenario_table scenario_results,
      [\<lparr>pd_tenantId = ''t1'', pd_dataId = ''d1'', pd_s3Key = ''t1/d1.json'', pd_timestamp = 1000,
        pd_processedAt = 2000, pd_processingResults = JObj scenario_results, pd_metadata = None\<rparr>])"
  by (simp add: process_try_def scenario_process_env_def scenario_event_def scenario_parse_def
        scenario_results_eval persisted_def)

lemma scenario_run:
  "process_handler scenario_process_env scenario_event scenario_table =
     (Inr (), persisted scenario_process_env scenario_event scenario_table scenario_results,
      [\<lparr>pd_tenantId = ''t1'', pd_dataId = ''d1'', pd_s3Key = ''t1/d1.json'', pd_timestamp = 1000,
        pd_processedAt = 2000, pd_processingResults = JObj scenario_results, pd_metadata = None\<rparr>])"
  by (simp add: process_handler_def scenario_try)

lemma emit_fails_try:
  "process_try emit_fails_env scenario_event scenario_table =
     (Inl (Error ''EventBridge unavailable''),
      persisted emit_fails_env scenario_event scenario_table scenario_results, [])"
  by (simp add: process_try_def emit_fails_env_def scenario_process_env_def scenario_event_def scenario_parse_def
        scenario_results_eval persisted_def)

lemma no_body_try:
  "process_try no_body_env scenario_event scenario_table =
     (Inl (Error ''No data found in S3 object''), scenario_table, [])"
  by (simp add: process_try_def no_body_env_def scenario_process_env_def scenario_event_def)






text \<open>
  Claim C10. The results object always carries \<^verbatim>\<open>validationStatus = 'VALID'\<close>: what
  \<^verbatim>\<open>processData\<close> spreads into it never has that key. Every run of the handler leaves
  the \<^verbatim>\<open>processingResults\<close> of the record as they were, or writes an object whose
  \<^verbatim>\<open>validationStatus\<close> is \<^verbatim>\<open>'VALID'\<close>.
\<close>

theorem validationStatus_always_VALID:
  "(handler_processingResults data = Inr pr \<longrightarrow>
      map_of pr ''validationStatus'' = Some (JStr ''VALID''))
   \<and> (process_handler env ev tbl = (Inr (), tbl', out) \<longrightarrow>
        (\<exists>p. map_option processingResults (tbl' (ue_tenantId ev, ue_dataId ev)) = Some (Some (JObj p))
           \<and> map_of p ''validationStatus'' = Some (JStr ''VALID'')))
   \<and> (process_handler env ev tbl = (res, tbl', out) \<longrightarrow>
        map_option processingResults (tbl' (ue_tenantId ev, ue_dataId ev))
          = map_option processingResults (tbl (ue_tenantId ev, ue_dataId ev))
        \<or> (tbl (ue_tenantId ev, ue_dataId ev) = None
            \<and> map_option processingResults (tbl' (ue_tenantId ev, ue_dataId ev)) = Some None)
        \<or> (\<exists>p. map_option processingResults (tbl' (ue_tenantId ev, ue_dataId ev)) = Some (Some (JObj p))
              \<and> map_of p ''validationStatus'' = Some (JStr ''VALID'')))"
proof -
  have 1: "handler_processingResults data = Inr pr \<longrightarrow>
      map_of pr ''validationStatus'' = Some (JStr ''VALID'')"
    using handler_processingResults_lookup(4) by blast
  have 2: "process_handler env ev tbl = (Inr (), tbl', out) \<longrightarrow>
        (\<exists>p. map_option processingResults (tbl' (ue_tenantId ev, ue_dataId ev)) = Some (Some (JObj p))
           \<and> map_of p ''validationStatus'' = Some (JStr ''VALID''))"
    using process_handler_success handler_processingResults_lookup(4) by blast
  have 3: "process_handler env ev tbl = (res, tbl', out) \<longrightarrow>
        map_option processingResults (tbl' (ue_tenantId ev, ue_dataId ev))
          = map_option processingResults (tbl (ue_tenantId ev, ue_dataId ev))
        \<or> (tbl (ue_tenantId ev, ue_dataId ev) = None
            \<and> map_option processingResults (tbl' (ue_tenantId ev, ue_dataId ev)) = Some None)
        \<or> (\<exists>p. map_option processingResults (tbl' (ue_tenantId ev, ue_dataId ev)) = Some (Some (JObj p))
              \<and> map_of p ''validationStatus'' = Some (JStr ''VALID''))"
  proof
    assume a: "process_handler env ev tbl = (res, tbl', out)"
    obtain r1 tbl1 out1 where t: "process_try env ev tbl = (r1, tbl1, out1)"
      by (cases "process_try env ev tbl") auto
    from process_try_cases [OF t]
    have c: "tbl1 = tbl \<or> (\<exists>p. tbl1 = persisted env ev tbl p \<and> map_of p ''validationStatus'' = Some (JStr ''VALID''))"
      using handler_processingResults_lookup(4) by blast
    have f: "map_option processingResults (tbl' (ue_tenantId ev, ue_dataId ev))
           = map_option processingResults (tbl1 (ue_tenantId ev, ue_dataId ev))
          \<or> (tbl1 (ue_tenantId ev, ue_dataId ev) = None
             \<and> map_option processingResults (tbl' (ue_tenantId ev, ue_dataId ev)) = Some None)"
      using a unfolding process_handler_def t
      by (auto simp add: update_item_at new_item_def split: sum.splits option.splits)
    from c f persisted_at [of env ev tbl]
    show "map_option processingResults (tbl' (ue_tenantId ev, ue_dataId ev))
          = map_option processingResults (tbl (ue_tenantId ev, ue_dataId ev))
        \<or> (tbl (ue_tenantId ev, ue_dataId ev) = None
            \<and> map_option processingResults (tbl' (ue_tenantId ev, ue_dataId ev)) = Some None)
        \<or> (\<exists>p. map_option processingResults (tbl' (ue_tenantId ev, ue_dataId ev)) = Some (Some (JObj p))
              \<and> map_of p ''validationStatus'' = Some (JStr ''VALID''))"
      by (metis option.distinct(1) option.map_disc_iff)
  qed
  from 1 2 3 show ?thesis by blast
qed

theorem validationStatus_always_VALID_witness:
  "handler_processingResults scenario_payload = Inr scenario_results
   \<and> map_of scenario_results ''validationStatus'' = Some (JStr ''VALID'')
   \<and> fst (process_handler scenario_process_env scenario_event scenario_table) = Inr ()
   \<and> (\<exists>p. map_option processingResults
             (fst (snd (process_handler scenario_process_env scenario_event scenario_table)) (''t1'', ''d1''))
            = Some (Some (JObj p))
         \<and> map_of p ''validationStatus'' = Some (JStr ''VALID''))"
proof -
  note t = validationStatus_always_VALID [of scenario_payload scenario_results scenario_process_env
      scenario_event scenario_table
      "persisted scenario_process_env scenario_event scenario_table scenario_results"
      "[\<lparr>pd_tenantId = ''t1'', pd_dataId = ''d1'', pd_s3Key = ''t1/d1.json'', pd_timestamp = 1000,
        pd_processedAt = 2000, pd_processingResults = JObj scenario_results, pd_metadata = None\<rparr>]"
      "Inr ()"]
  have k: "ue_tenantId scenario_event = ''t1''" "ue_dataId scenario_event = ''d1''"
    by (simp_all add: scenario_event_def)
  from t scenario_results_eval
  have 1: "map_of scenario_results ''validationStatus'' = Some (JStr ''VALID'')"
    by blast
  from t scenario_run
  have "\<exists>p. map_option processingResults
             (persisted scenario_process_env scenario_event scenario_table scenario_results
                (ue_tenantId scenario_event, ue_dataId scenario_event))
            = Some (Some (JObj p))
         \<and> map_of p ''validationStatus'' = Some (JStr ''VALID'')"
    by blast
  then have 2: "\<exists>p. map_option processingResults
             (fst (snd (process_handler scenario_process_env scenario_event scenario_table)) (''t1'', ''d1''))
            = Some (Some (JObj p))
         \<and> map_of p ''validationStatus'' = Some (JStr ''VALID'')"
    by (simp add: scenario_run k)
  have 3: "fst (process_handler scenario_process_env scenario_event scenario_table) = Inr ()"
    by (simp add: scenario_run)
  from scenario_results_eval 1 2 3 show ?thesis by blast
qed

text \<open>
  Claim C3, as the code has it. Whatever the \<^verbatim>\<open>try\<close> block of the handler throws, the
  handler throws the same error again. The table at that moment is the table before the
  invocation, or, when only the emission of the processed event failed, the table with the
  results already persisted. When the table accepts the update of the \<^verbatim>\<open>catch\<close> block,
  the record gets \<^verbatim>\<open>status = PROCESSING_FAILED\<close>, the message of the error in
  \<^verbatim>\<open>processingError\<close> and a new \<^verbatim>\<open>processedAt\<close>; every other attribute and every
  other record stay as they were at that moment. When the table refuses it, nothing changes.
\<close>

theorem processing_failure_recorded:
  "process_try env ev tbl = (Inl e, tbl1, out1) \<longrightarrow>
     fst (process_handler env ev tbl) = Inl e
   \<and> (tbl1 = tbl
      \<or> pe_put_events env = Some e
        \<and> (\<exists>pr. tbl1 = update_item tbl (ue_tenantId ev) (ue_dataId ev)
                           (\<lambda>it. it\<lparr>status := Some PROCESSED, processedAt := Some (pe_now env),
                                    processingResults := Some (JObj pr)\<rparr>)))
   \<and> (pe_catch_update env = None \<longrightarrow>
        fst (snd (process_handler env ev tbl)) =
          update_item tbl1 (ue_tenantId ev) (ue_dataId ev)
            (\<lambda>it. it\<lparr>status := Some PROCESSING_FAILED, processingError := Some (message e),
                     processedAt := Some (pe_catch_now env)\<rparr>)
        \<and> (\<exists>it'. fst (snd (process_handler env ev tbl)) (ue_tenantId ev, ue_dataId ev) = Some it'
              \<and> status it' = Some PROCESSING_FAILED
              \<and> processingError it' = Some (message e)
              \<and> processingResults it' =
                  (case tbl1 (ue_tenantId ev, ue_dataId ev) of
                     None \<Rightarrow> None | Some it1 \<Rightarrow> processingResults it1)))
   \<and> (pe_catch_update env \<noteq> None \<longrightarrow> fst (snd (process_handler env ev tbl)) = tbl1)"
proof
  assume a: "process_try env ev tbl = (Inl e, tbl1, out1)"
  note h = process_handler_Inl [OF a]
  have 1: "fst (process_handler env ev tbl) = Inl e" by (simp add: h)
  have 2: "tbl1 = tbl
      \<or> pe_put_events env = Some e
        \<and> (\<exists>pr. tbl1 = update_item tbl (ue_tenantId ev) (ue_dataId ev)
                           (\<lambda>it. it\<lparr>status := Some PROCESSED, processedAt := Some (pe_now env),
                                    processingResults := Some (JObj pr)\<rparr>))"
    using process_try_cases [OF a] by (auto simp add: persisted_def)
  have 3: "pe_catch_update env = None \<longrightarrow>
        fst (snd (process_handler env ev tbl)) =
          update_item tbl1 (ue_tenantId ev) (ue_dataId ev)
            (\<lambda>it. it\<lparr>status := Some PROCESSING_FAILED, processingError := Some (message e),
                     processedAt := Some (pe_catch_now env)\<rparr>)
        \<and> (\<exists>it'. fst (snd (process_handler env ev tbl)) (ue_tenantId ev, ue_dataId ev) = Some it'
              \<and> status it' = Some PROCESSING_FAILED
              \<and> processingError it' = Some (message e)
              \<and> processingResults it' =
                  (case tbl1 (ue_tenantId ev, ue_dataId ev) of
                     None \<Rightarrow> None | Some it1 \<Rightarrow> processingResults it1))"
    by (simp add: h update_item_at new_item_def split: option.splits)
  have 4: "pe_catch_update env \<noteq> None \<longrightarrow> fst (snd (process_handler env ev tbl)) = tbl1"
    by (auto simp add: h)
  from 1 2 3 4 show "fst (process_handler env ev tbl) = Inl e
   \<and> (tbl1 = tbl
      \<or> pe_put_events env = Some e
        \<and> (\<exists>pr. tbl1 = update_item tbl (ue_tenantId ev) (ue_dataId ev)
                           (\<lambda>it. it\<lparr>status := Some PROCESSED, processedAt := Some (pe_now env),
                                    processingResults := Some (JObj pr)\<rparr>)))
   \<and> (pe_catch_update env = None \<longrightarrow>
        fst (snd (process_handler env ev tbl)) =
          update_item tbl1 (ue_tenantId ev) (ue_dataId ev)
            (\<lambda>it. it\<lparr>status := Some PROCESSING_FAILED, processingError := Some (message e),
                     processedAt := Some (pe_catch_now env)\<rparr>)
        \<and> (\<exists>it'. fst (snd (process_handler env ev tbl)) (ue_tenantId ev, ue_dataId ev) = Some it'
              \<and> status it' = Some PROCESSING_FAILED
              \<and> processingError it' = Some (message e)
              \<and> processingResults it' =
                  (case tbl1 (ue_tenantId ev, ue_dataId ev) of
                     None \<Rightarrow> None | Some it1 \<Rightarrow> processingResults it1)))
   \<and> (pe_catch_update env \<noteq> None \<longrightarrow> fst (snd (process_handler env ev tbl)) = tbl1)"
    by blast
qed

theorem processing_failure_recorded_witness:
  "process_try no_body_env scenario_event scenario_table =
     (Inl (Error ''No data found in S3 object''), scenario_table, [])
   \<and> pe_catch_update no_body_env = None
   \<and> fst (process_handler no_body_env scenario_event scenario_table)
       = Inl (Error ''No data found in S3 object'')
   \<and> (\<exists>it'. fst (snd (process_handler no_body_env scenario_event scenario_table)) (''t1'', ''d1'') = Some it'
         \<and> status it' = Some PROCESSING_FAILED
         \<and> processingError it' = Some ''No data found in S3 object''
         \<and> processingResults it' = None
         \<and> s3Key it' = Some ''t1/d1.json'')"
proof -
  have c: "pe_catch_update no_body_env = None"
    by (simp add: no_body_env_def scenario_process_env_def)
  have k: "ue_tenantId scenario_event = ''t1''" "ue_dataId scenario_event = ''d1''"
    by (simp_all add: scenario_event_def)
  have t: "scenario_table (''t1'', ''d1'') =
      Some ((new_item ''t1'' ''d1'')\<lparr>s3Key := Some ''t1/d1.json'', uploadedAt := Some 1000,
                                   status := Some UPLOADED, metadata := Some (JObj []),
                                   ttl := Some 31537000\<rparr>)"
    by (simp add: scenario_table_def upload_put_def)
  from processing_failure_recorded [of no_body_env scenario_event scenario_table
      "Error ''No data found in S3 object''" scenario_table "[]"] no_body_try c
  show ?thesis
    by (simp add: k t update_item_at new_item_def)
qed

text \<open>
  Claim C3 as stated fails when the event bus refuses the processed event: the results are
  persisted with the status \<^verbatim>\<open>PROCESSED\<close>, and the \<^verbatim>\<open>catch\<close> block then reports the
  record as failed.
\<close>

theorem processing_failure_counterexample:
  "fst (process_handler emit_fails_env scenario_event scenario_table) = Inl (Error ''EventBridge unavailable'')
   \<and> map_option status (fst (snd (process_try emit_fails_env scenario_event scenario_table)) (''t1'', ''d1''))
       = Some (Some PROCESSED)
   \<and> map_option status (fst (snd (process_handler emit_fails_env scenario_event scenario_table)) (''t1'', ''d1''))
       = Some (Some PROCESSING_FAILED)
   \<and> map_option processingResults
         (fst (snd (process_handler emit_fails_env scenario_event scenario_table)) (''t1'', ''d1''))
       = Some (Some (JObj scenario_results))"
  unfolding process_handler_def emit_fails_try
  by (simp add: persisted_def update_item_at emit_fails_env_def scenario_process_env_def
        scenario_event_def)

section \<open>Lemmas on the rate limiter\<close>

lemma ceil_div_1000:
  fixes d :: int
  assumes "0 < d" and "d \<le> 60000"
  shows "1 \<le> \<lceil>(of_int d :: rat) / 1000\<rceil>" and "\<lceil>(of_int d :: rat) / 1000\<rceil> \<le> 60"
proof -
  have "(0::rat) < of_int d / 1000" using assms(1) by simp
  then have "0 < \<lceil>(of_int d :: rat) / 1000\<rceil>" by linarith
  then show "1 \<le> \<lceil>(of_int d :: rat) / 1000\<rceil>" by simp
  have "(of_int d :: rat) / 1000 \<le> 60" using assms(2) by simp
  then show "\<lceil>(of_int d :: rat) / 1000\<rceil> \<le> 60" by (simp add: ceiling_le_iff)
qed

lemma check_first:
  "store u = None \<Longrightarrow>
   check_rate_limit now u store = (Allowed, store(u \<mapsto> \<lparr>count = 1, resetTime = now + 60000\<rparr>))"
  by (simp add: check_rate_limit_def RATE_LIMIT_WINDOW_MS_def)

lemma check_expired:
  "store u = Some b \<Longrightarrow> resetTime b \<le> now \<Longrightarrow>
   check_rate_limit now u store = (Allowed, store(u \<mapsto> \<lparr>count = 1, resetTime = now + 60000\<rparr>))"
  by (simp add: check_rate_limit_def RATE_LIMIT_WINDOW_MS_def)

lemma check_within:
  "store u = Some b \<Longrightarrow> now < resetTime b \<Longrightarrow> count b < 6 \<Longrightarrow>
   check_rate_limit now u store = (Allowed, store(u \<mapsto> b\<lparr>count := count b + 1\<rparr>))"
  by (simp add: check_rate_limit_def RATE_LIMIT_MAX_CALLS_def)

lemma check_exceeded:
  "store u = Some b \<Longrightarrow> now < resetTime b \<Longrightarrow> 6 \<le> count b \<Longrightarrow>
   check_rate_limit now u store = (Limited \<lceil>(of_int (resetTime b - now) :: rat) / 1000\<rceil>, store)"
  by (simp add: check_rate_limit_def RATE_LIMIT_MAX_CALLS_def)

lemma check_other_user:
  "v \<noteq> u \<Longrightarrow> snd (check_rate_limit now u store) v = store v"
  by (simp add: check_rate_limit_def split: option.splits)

lemma check_allowed_iff:
  "fst (check_rate_limit now u store) = Allowed \<longleftrightarrow>
     (case store u of None \<Rightarrow> True | Some b \<Rightarrow> resetTime b \<le> now \<or> count b < 6)"
  by (auto simp add: check_rate_limit_def RATE_LIMIT_MAX_CALLS_def split: option.splits)

section \<open>Lemmas on the handler of queries\<close>

lemma answer_query_cases:
  assumes "answer_query env d prompt u st = (resp, st')"
  shows "(st' = st \<and> (\<forall>a b c e f g. resp \<noteq> Ok200 a b c e f g))
       \<or> (\<exists>fileRecord others key body data.
             ae_scan env = Inr (Some (fileRecord # others))
           \<and> s3Key fileRecord = Some key \<and> key \<noteq> []
           \<and> ae_s3_get env key = Inr (Some body)
           \<and> ae_JSON_parse env body = Inr data
           \<and> ae_update env = None
           \<and> answered env d prompt u fileRecord data st resp st')"
proof (cases "ae_scan env")
  case (Inl e)
  then show ?thesis using assms by (auto simp add: answer_query_def)
next
  case (Inr items)
  show ?thesis
  proof (cases items)
    case None
    then show ?thesis using assms Inr by (auto simp add: answer_query_def)
  next
    case (Some its)
    show ?thesis
    proof (cases its)
      case Nil
      then show ?thesis using assms Inr Some by (auto simp add: answer_query_def)
    next
      case (Cons fileRecord others)
      note scan = Inr [unfolded Some Cons]
      show ?thesis
      proof (cases "str_truthy (s3Key fileRecord)")
        case False
        then show ?thesis using assms scan by (auto simp add: answer_query_def)
      next
        case True
        then obtain key where key: "s3Key fileRecord = Some key" "key \<noteq> []"
          by (cases "s3Key fileRecord") auto
        show ?thesis
        proof (cases "ae_s3_get env key")
          case (Inl e)
          then show ?thesis using assms scan key by (auto simp add: answer_query_def)
        next
          case (Inr bodyopt)
          note s3 = this
          show ?thesis
          proof (cases bodyopt)
            case None
            then show ?thesis using assms scan key s3 by (auto simp add: answer_query_def)
          next
            case (Some body)
            note s3 = s3 [unfolded Some]
            show ?thesis
            proof (cases "ae_JSON_parse env body")
              case (Inl e)
              then show ?thesis using assms scan key s3 by (auto simp add: answer_query_def)
            next
              case (Inr data)
              note parse = this
              show ?thesis
              proof (cases "ae_update env")
                case (Some e)
                then show ?thesis using assms scan key s3 parse
                  by (auto simp add: answer_query_def Let_def)
              next
                case None
                have "answered env d prompt u fileRecord data st resp st'"
                  using assms scan key s3 parse None
                  by (auto simp add: answer_query_def answered_def Let_def history_def
                        prompt_or_general_def)
                then show ?thesis using scan key s3 parse None by blast
              qed
            qed
          qed
        qed
      qed
    qed
  qed
qed

lemma handleApiGatewayRequest_cases:
  assumes "handleApiGatewayRequest env req st = (resp, st')"
  shows "(resp = BadRequest400 ''Missing required parameter: dataId'' \<and> st' = st
            \<and> \<not> str_truthy (q_dataId req))
       \<or> (resp = BadRequest400 ''Prompt is too long. Maximum length is 100 characters.'' \<and> st' = st
            \<and> str_truthy (q_dataId req) \<and> (\<exists>p. q_prompt req = Some p \<and> length p > 100))
       \<or> (\<exists>secs. resp = TooManyRequests429 secs \<and> st' = st
            \<and> check_rate_limit (ae_now env) (userId_of req) (limiter st) = (Limited secs, limiter st))
       \<or> (\<exists>store' d. check_rate_limit (ae_now env) (userId_of req) (limiter st) = (Allowed, store')
            \<and> q_dataId req = Some d \<and> d \<noteq> []
            \<and> (\<forall>p. q_prompt req = Some p \<longrightarrow> length p \<le> 100)
            \<and> answer_query env d (q_prompt req) (userId_of req) (st\<lparr>limiter := store'\<rparr>) = (resp, st'))"
proof (cases "str_truthy (q_dataId req)")
  case False
  then show ?thesis using assms by (auto simp add: handleApiGatewayRequest_def)
next
  case True
  then obtain d where d: "q_dataId req = Some d" "d \<noteq> []"
    by (cases "q_dataId req") auto
  show ?thesis
  proof (cases "\<exists>p. q_prompt req = Some p \<and> length p > 100")
    case True
    then obtain p where p: "q_prompt req = Some p" "length p > 100"
      by auto
    from p(2) have "p \<noteq> []" by (cases p) simp_all
    with p show ?thesis using assms d
      by (simp add: handleApiGatewayRequest_def)
  next
    case False
    then have short: "\<forall>p. q_prompt req = Some p \<longrightarrow> length p \<le> 100" by auto
    then have np: "\<not> (case q_prompt req of Some p \<Rightarrow> p \<noteq> [] \<and> length p > 100 | None \<Rightarrow> False)"
      by (auto split: option.splits)
    obtain dec store' where c: "check_rate_limit (ae_now env) (userId_of req) (limiter st) = (dec, store')"
      by (cases "check_rate_limit (ae_now env) (userId_of req) (limiter st)") auto
    show ?thesis
    proof (cases dec)
      case Allowed
      then show ?thesis using assms d np c short
        by (simp add: handleApiGatewayRequest_def)
    next
      case (Limited secs)
      have "store' = limiter st"
        using c Limited
        by (auto simp add: check_rate_limit_def split: option.splits if_splits)
      then show ?thesis using assms d np c Limited
        by (simp add: handleApiGatewayRequest_def)
    qed
  qed
qed

section \<open>Invariants of the reachable states\<close>

lemma update_item_hist:
  assumes "\<And>it. insights (f it) = insights it"
  shows "hist_at (update_item tbl t d f) k = hist_at tbl k"
  by (simp add: hist_at_def update_item_def history_def assms new_item_def split: option.splits)

lemma update_item_hist_set:
  "hist_at (update_item tbl t d (\<lambda>it. it\<lparr>insights := Some h, lastInsightAt := x\<rparr>)) k
     = (if k = (t, d) then h else hist_at tbl k)"
  by (simp add: hist_at_def update_item_def history_def)

lemma upload_put_hist:
  "hist_at (upload_put tbl t d key ts meta expiry) k = (if k = (t, d) then [] else hist_at tbl k)"
  by (simp add: hist_at_def upload_put_def history_def new_item_def)

lemma process_handler_hist:
  assumes "process_handler env ev tbl = (res, tbl', out)"
  shows "hist_at tbl' k = hist_at tbl k"
proof -
  obtain r1 tbl1 out1 where t: "process_try env ev tbl = (r1, tbl1, out1)"
    by (cases "process_try env ev tbl") auto
  from process_try_cases [OF t] have 1: "hist_at tbl1 k = hist_at tbl k"
    by (auto simp add: persisted_def update_item_hist)
  from assms have "hist_at tbl' k = hist_at tbl1 k"
    unfolding process_handler_def t
    by (auto simp add: update_item_hist split: sum.splits option.splits)
  with 1 show ?thesis by simp
qed

lemma handleEventBridgeEvent_cases:
  assumes "handleEventBridgeEvent env ev tbl = (res, tbl1)"
  shows "(\<exists>e. res = Inl e \<and> tbl1 = tbl)
       \<or> (\<exists>body data. ee_s3_get env (de_s3Key ev) = Inr (Some body)
            \<and> ee_JSON_parse env body = Inr data \<and> ee_update env = None \<and> res = Inr ()
            \<and> tbl1 = update_item tbl (de_tenantId ev) (de_dataId ev)
                       (\<lambda>it. it\<lparr>aiInsights := Some (generateAIInsights (ee_bedrock env) (ee_JSON_parse env)
                                                         data (de_processingResults ev)),
                                insightsGeneratedAt := Some (ee_now env),
                                status := Some INSIGHTS_GENERATED\<rparr>))"
  using assms unfolding handleEventBridgeEvent_def Let_def
  by (auto split: sum.splits option.splits)

lemma insights_handler_hist:
  assumes "insights_handler env ev tbl = (res, tbl')"
  shows "hist_at tbl' k = hist_at tbl k"
proof -
  obtain r1 tbl1 where t: "handleEventBridgeEvent env ev tbl = (r1, tbl1)"
    by (cases "handleEventBridgeEvent env ev tbl") auto
  from handleEventBridgeEvent_cases [OF t] have 1: "hist_at tbl1 k = hist_at tbl k"
    by (auto simp add: update_item_hist)
  from assms have "hist_at tbl' k = hist_at tbl1 k"
    unfolding insights_handler_def t
    by (auto simp add: update_item_hist split: sum.splits option.splits)
  with 1 show ?thesis by simp
qed

lemma check_rate_limit_buckets:
  assumes "\<And>v b. store v = Some b \<Longrightarrow> bucket_ok c b" and "c \<le> now"
    and "check_rate_limit now u store = (dec, store')" and "store' v = Some b"
  shows "bucket_ok now b"
  using assms(3,4) assms(1) [of v b] assms(1) [of u] assms(2)
  by (auto simp add: check_rate_limit_def bucket_ok_def RATE_LIMIT_WINDOW_MS_def
        RATE_LIMIT_MAX_CALLS_def split: option.splits if_splits)

lemma bucket_ok_mono: "bucket_ok c b \<Longrightarrow> c \<le> c' \<Longrightarrow> bucket_ok c' b"
  by (auto simp add: bucket_ok_def)

lemma history_ok_mono: "history_ok c h \<Longrightarrow> c \<le> c' \<Longrightarrow> history_ok c' h"
  by (auto simp add: history_ok_def list_all_iff)

lemma history_ok_Nil: "history_ok c []"
  by (simp add: history_ok_def)

lemma length_slice_last: "length (slice_last k xs) = min k (length xs)"
  by (simp add: slice_last_def)

lemma slice_last_append1: "0 < k \<Longrightarrow> slice_last k (xs @ [x]) = slice_last (k - 1) xs @ [x]"
  by (cases k) (simp_all add: slice_last_def)

lemma history_ok_append:
  assumes "history_ok c h" and "c \<le> ts" and "ir_timestamp e = ts"
  shows "history_ok ts (slice_last MAX_INSIGHTS (h @ [e]))"
proof -
  have s: "slice_last MAX_INSIGHTS (h @ [e]) = slice_last 9 h @ [e]"
    by (simp add: MAX_INSIGHTS_def slice_last_append1)
  have a: "\<forall>x\<in>set h. ir_timestamp x \<le> c" using assms(1) by (simp add: history_ok_def list_all_iff)
  have "sorted (map ir_timestamp (slice_last 9 h))"
    using assms(1) by (simp add: history_ok_def slice_last_def drop_map [symmetric])
  moreover have "\<forall>x\<in>set (slice_last 9 h). ir_timestamp x \<le> ts"
    using a assms(2) by (force simp add: slice_last_def dest: in_set_dropD)
  ultimately show ?thesis
    using assms(3) by (auto simp add: s history_ok_def sorted_append list_all_iff length_slice_last)
qed

lemma sys_invI:
  "(\<And>u b. limiter s u = Some b \<Longrightarrow> bucket_ok (clock s) b) \<Longrightarrow>
   (\<And>k. history_ok (clock s) (hist_at (db s) k)) \<Longrightarrow> sys_inv s"
  unfolding sys_inv_def by blast

lemma sys_inv_bucket: "sys_inv s \<Longrightarrow> limiter s u = Some b \<Longrightarrow> bucket_ok (clock s) b"
  unfolding sys_inv_def by blast

lemma sys_inv_history: "sys_inv s \<Longrightarrow> history_ok (clock s) (hist_at (db s) k)"
  unfolding sys_inv_def by blast

lemma sys_inv_later:
  assumes "sys_inv s" and "clock s \<le> t"
  shows "sys_inv (s\<lparr>clock := t\<rparr>)"
proof (rule sys_invI)
  fix u b assume "limiter (s\<lparr>clock := t\<rparr>) u = Some b"
  then have "bucket_ok (clock s) b" using assms(1) by (simp add: sys_inv_bucket)
  then show "bucket_ok (clock (s\<lparr>clock := t\<rparr>)) b" using assms(2) by (simp add: bucket_ok_mono)
next
  fix k
  have "history_ok (clock s) (hist_at (db s) k)" using assms(1) by (rule sys_inv_history)
  then show "history_ok (clock (s\<lparr>clock := t\<rparr>)) (hist_at (db (s\<lparr>clock := t\<rparr>)) k)"
    using assms(2) by (simp add: history_ok_mono)
qed

lemma sys_inv_db:
  assumes "sys_inv s" and "\<And>k. hist_at tbl' k = hist_at (db s) k \<or> hist_at tbl' k = []"
  shows "sys_inv (s\<lparr>db := tbl'\<rparr>)"
proof (rule sys_invI)
  fix u b assume "limiter (s\<lparr>db := tbl'\<rparr>) u = Some b"
  then show "bucket_ok (clock (s\<lparr>db := tbl'\<rparr>)) b" using assms(1) by (simp add: sys_inv_bucket)
next
  fix k
  from assms(2) [of k] sys_inv_history [OF assms(1), of k]
  show "history_ok (clock (s\<lparr>db := tbl'\<rparr>)) (hist_at (db (s\<lparr>db := tbl'\<rparr>)) k)"
    by (auto simp add: history_ok_Nil)
qed

lemma sys_inv_query:
  assumes inv: "sys_inv s" and now: "clock s \<le> ae_now env" and ts: "ae_now env \<le> ae_timestamp env"
    and scan: "scan_consistent (db s) (case q_dataId req of Some d \<Rightarrow> d | None \<Rightarrow> []) (ae_scan env)"
    and run: "handleApiGatewayRequest env req s = (resp, s')"
  shows "sys_inv (s'\<lparr>clock := ae_timestamp env\<rparr>)"
proof -
  from now ts have c: "clock s \<le> ae_timestamp env" by simp
  from handleApiGatewayRequest_cases [OF run]
  consider (same) "s' = s"
    | (query) store' d where "check_rate_limit (ae_now env) (userId_of req) (limiter s) = (Allowed, store')"
        "q_dataId req = Some d"
        "answer_query env d (q_prompt req) (userId_of req) (s\<lparr>limiter := store'\<rparr>) = (resp, s')"
    by blast
  then show ?thesis
  proof cases
    case same
    with inv c show ?thesis by (simp add: sys_inv_later)
  next
    case query
    have lim: "bucket_ok (ae_timestamp env) b" if "store' v = Some b" for v b
    proof -
      have "bucket_ok (ae_now env) b"
        using sys_inv_bucket [OF inv] now query(1) that by (rule check_rate_limit_buckets)
      with ts show ?thesis by (simp add: bucket_ok_mono)
    qed
    from answer_query_cases [OF query(3)]
    consider (unchanged) "s' = s\<lparr>limiter := store'\<rparr>"
      | (answered) fileRecord others data where "ae_scan env = Inr (Some (fileRecord # others))"
          "answered env d (q_prompt req) (userId_of req) fileRecord data (s\<lparr>limiter := store'\<rparr>) resp s'"
      by blast
    then show ?thesis
    proof cases
      case unchanged
      show ?thesis
      proof (rule sys_invI)
        fix u b assume "limiter (s'\<lparr>clock := ae_timestamp env\<rparr>) u = Some b"
        then show "bucket_ok (clock (s'\<lparr>clock := ae_timestamp env\<rparr>)) b"
          by (simp add: unchanged lim)
      next
        fix k
        from sys_inv_history [OF inv, of k] c
        show "history_ok (clock (s'\<lparr>clock := ae_timestamp env\<rparr>)) (hist_at (db (s'\<lparr>clock := ae_timestamp env\<rparr>)) k)"
          by (simp add: unchanged history_ok_mono)
      qed
    next
      case answered
      from scan answered(1) query(2)
      have rec: "dataId fileRecord = d" "db s (tenantId fileRecord, dataId fileRecord) = Some fileRecord"
        by (auto simp add: scan_consistent_def)
      then have "hist_at (db s) (tenantId fileRecord, d) = history fileRecord"
        by (simp add: hist_at_def)
      with sys_inv_history [OF inv, of "(tenantId fileRecord, d)"]
      have h: "history_ok (clock s) (history fileRecord)" by simp
      define entry where "entry = \<lparr>ir_timestamp = ae_timestamp env, ir_userId = userId_of req,
                   ir_prompt = prompt_or_general (q_prompt req),
                   ir_response = generateAdditionalInsights (ae_bedrock env) data
                   (js_or (processingResults fileRecord) (JObj [])) (q_prompt req)\<rparr>"
      have new: "history_ok (ae_timestamp env) (slice_last MAX_INSIGHTS (history fileRecord @ [entry]))"
        using h c by (rule history_ok_append) (simp add: entry_def)
      from answered(2) have s': "s' = s\<lparr>limiter := store',
          db := update_item (db s) (tenantId fileRecord) d
                  (\<lambda>it. it\<lparr>insights := Some (slice_last MAX_INSIGHTS (history fileRecord @ [entry])),
                           lastInsightAt := Some (ae_timestamp env)\<rparr>)\<rparr>"
        by (simp add: answered_def Let_def entry_def)
      show ?thesis
      proof (rule sys_invI)
        fix u b assume "limiter (s'\<lparr>clock := ae_timestamp env\<rparr>) u = Some b"
        then show "bucket_ok (clock (s'\<lparr>clock := ae_timestamp env\<rparr>)) b"
          by (simp add: s' lim)
      next
        fix k
        from sys_inv_history [OF inv, of k] c new
        show "history_ok (clock (s'\<lparr>clock := ae_timestamp env\<rparr>)) (hist_at (db (s'\<lparr>clock := ae_timestamp env\<rparr>)) k)"
          by (simp add: s' update_item_hist_set history_ok_mono)
      qed
    qed
  qed
qed

lemma reachable_inv: "reachable s \<Longrightarrow> sys_inv s"
proof (induction rule: reachable.induct)
  case (start t0)
  show ?case by (rule sys_invI) (simp_all add: hist_at_def history_ok_Nil)
next
  case (cold_start s)
  show ?case
  proof (rule sys_invI)
    fix k
    from sys_inv_history [OF cold_start.IH, of k]
    show "history_ok (clock (s\<lparr>limiter := Map.empty\<rparr>)) (hist_at (db (s\<lparr>limiter := Map.empty\<rparr>)) k)"
      by simp
  qed simp
next
  case (tick s t)
  then show ?case by (simp add: sys_inv_later)
next
  case (upload s t d key ts meta expiry)
  then show ?case by (intro sys_inv_db) (simp_all add: upload_put_hist)
next
  case (process s penv uev res tbl' out)
  then show ?case by (intro sys_inv_db) (simp_all add: process_handler_hist)
next
  case (insights_event s eenv dev res tbl')
  then show ?case by (intro sys_inv_db) (simp_all add: insights_handler_hist)
next
  case (query s env req resp s')
  then show ?case by (intro sys_inv_query)
qed

lemma reachable_history:
  assumes "reachable s" and "db s k = Some it"
  shows "length (history it) \<le> 10" and "sorted (map ir_timestamp (history it))"
proof -
  from sys_inv_history [OF reachable_inv [OF assms(1)], of k] assms(2)
  have "history_ok (clock s) (history it)" by (simp add: hist_at_def)
  then show "length (history it) \<le> 10" and "sorted (map ir_timestamp (history it))"
    by (simp_all add: history_ok_def)
qed

lemma reachable_retry_after:
  assumes "reachable s" and "clock s \<le> now"
    and "check_rate_limit now u (limiter s) = (Limited secs, l')"
  shows "1 \<le> secs" and "secs \<le> 60"
proof -
  from assms(3) obtain b where b: "limiter s u = Some b" "now < resetTime b"
    and secs: "secs = \<lceil>(of_int (resetTime b - now) :: rat) / 1000\<rceil>"
    by (auto simp add: check_rate_limit_def split: option.splits if_splits)
  from sys_inv_bucket [OF reachable_inv [OF assms(1)] b(1)] assms(2)
  have "resetTime b - now \<le> 60000" by (simp add: bucket_ok_def)
  moreover from b(2) have "0 < resetTime b - now" by simp
  ultimately show "1 \<le> secs" and "secs \<le> 60"
    using ceil_div_1000 [of "resetTime b - now"] by (simp_all add: secs)
qed

subsection \<open>The scenario, evaluated\<close>

lemma scenario_record_at:
  "db scenario_processed (''t1'', ''d1'') = Some scenario_record"
  by (simp add: scenario_processed_def persisted_def update_item_at scenario_event_def
        scenario_table_def upload_put_def new_item_def scenario_record_def scenario_process_env_def)

lemma reachable_scenario_processed: "reachable scenario_processed"
proof -
  have "reachable \<lparr>limiter = Map.empty, db = Map.empty, clock = 0\<rparr>"
    by (rule reachable.start)
  from reachable.upload [OF this, of "''t1''" "''d1''" "''t1/d1.json''" 1000 "JObj []" 31537000]
  have "reachable \<lparr>limiter = Map.empty, db = scenario_table, clock = 0\<rparr>"
    by (simp add: scenario_table_def)
  from reachable.process [OF this, of scenario_process_env scenario_event]
  have "reachable \<lparr>limiter = Map.empty,
      db = persisted scenario_process_env scenario_event scenario_table scenario_results, clock = 0\<rparr>"
    by (simp add: scenario_run)
  from reachable.tick [OF this, of 2000] show ?thesis
    by (simp add: scenario_processed_def)
qed

lemma scenario_fallback_eval:
  "fallback_text (JObj scenario_results) (Some ''total amount?'') = scenario_fallback"
  unfolding scenario_fallback_def scenario_results_def
  by (simp add: fallback_text_def num_to_string_def digit_char_def)

lemma scenario_user: "userId_of scenario_request = ''user-1''"
  by (simp add: userId_of_def scenario_request_def)

lemma scenario_check:
  "check_rate_limit 3000 ''user-1'' Map.empty = (Allowed, scenario_limiter)"
  by (simp add: check_first scenario_limiter_def)

lemma scenario_answer:
  "answer_query scenario_api_env ''d1'' (Some ''total amount?'') ''user-1''
     (scenario_processed\<lparr>limiter := scenario_limiter\<rparr>)
   = (Ok200 scenario_fallback ''d1'' ''t1'' (Some ''total amount?'') True [scenario_entry],
      scenario_answered)"
proof -
  have r: "tenantId scenario_record = ''t1''" "s3Key scenario_record = Some ''t1/d1.json''"
    "processingResults scenario_record = Some (JObj scenario_results)"
    "insights scenario_record = None"
    by (simp_all add: scenario_record_def)
  show ?thesis
    by (simp add: answer_query_def scenario_api_env_def r scenario_parse_def Let_def
          generateAdditionalInsights_def scenario_fallback_eval slice_last_def MAX_INSIGHTS_def
          scenario_entry_def scenario_processed_def scenario_answered_def)
qed

lemma scenario_query:
  "handleApiGatewayRequest scenario_api_env scenario_request scenario_processed =
     (Ok200 scenario_fallback ''d1'' ''t1'' (Some ''total amount?'') True [scenario_entry],
      scenario_answered)"
proof -
  have q: "q_dataId scenario_request = Some ''d1''" "q_prompt scenario_request = Some ''total amount?''"
    by (simp_all add: scenario_request_def)
  have e: "ae_now scenario_api_env = 3000" by (simp add: scenario_api_env_def)
  have l: "limiter scenario_processed = Map.empty" by (simp add: scenario_processed_def)
  show ?thesis
    by (simp add: handleApiGatewayRequest_def scenario_user q e l scenario_check scenario_answer)
qed

lemma ceil_eval:
  fixes d k :: int
  assumes "1000 * (k - 1) < d" and "d \<le> 1000 * k"
  shows "\<lceil>(of_int d :: rat) / 1000\<rceil> = k"
proof (rule ceiling_unique)
  have "(of_int (1000 * (k - 1)) :: rat) < of_int d"
    using assms(1) by (simp only: of_int_less_iff)
  then show "(of_int k :: rat) - 1 < of_int d / 1000" by simp
  have "(of_int d :: rat) \<le> of_int (1000 * k)"
    using assms(2) by (simp only: of_int_le_iff)
  then show "(of_int d :: rat) / 1000 \<le> of_int k" by simp
qed

lemma answer_query_not_429:
  "answer_query env d prompt u st \<noteq> (TooManyRequests429 secs, st')"
  unfolding answer_query_def Let_def
  by (simp split: sum.splits option.splits list.splits)

lemma handler_429:
  assumes "handleApiGatewayRequest env req s = (TooManyRequests429 secs, s')"
  shows "check_rate_limit (ae_now env) (userId_of req) (limiter s) = (Limited secs, limiter s)"
    and "s' = s"
  using handleApiGatewayRequest_cases [OF assms] answer_query_not_429
  by auto

lemma not_found_first:
  "handleApiGatewayRequest not_found_env scenario_request
     \<lparr>limiter = Map.empty, db = Map.empty, clock = 0\<rparr>
   = (NotFound404 ''File not found'', \<lparr>limiter = [''user-1'' \<mapsto> \<lparr>count = 1, resetTime = 63000\<rparr>], db = Map.empty, clock = 0\<rparr>)"
  by (simp add: handleApiGatewayRequest_def scenario_user check_first answer_query_def)
     (simp add: not_found_env_def scenario_api_env_def scenario_request_def)

lemma not_found_next:
  assumes "k < 6"
  shows "handleApiGatewayRequest not_found_env scenario_request (counted k)
         = (NotFound404 ''File not found'', counted (Suc k))"
proof -
  have c: "check_rate_limit 3000 ''user-1'' [''user-1'' \<mapsto> \<lparr>count = k, resetTime = 63000\<rparr>]
      = (Allowed, [''user-1'' \<mapsto> \<lparr>count = Suc k, resetTime = 63000\<rparr>])"
    using assms check_within [of "[''user-1'' \<mapsto> \<lparr>count = k, resetTime = 63000\<rparr>]" "''user-1''"
        "\<lparr>count = k, resetTime = 63000\<rparr>" 3000]
    by simp
  have e: "ae_now not_found_env = 3000" "ae_scan not_found_env = Inr None"
    by (simp_all add: not_found_env_def scenario_api_env_def)
  have q: "q_dataId scenario_request = Some ''d1''" "q_prompt scenario_request = Some ''total amount?''"
    by (simp_all add: scenario_request_def)
  show ?thesis
    by (simp add: handleApiGatewayRequest_def scenario_user e q counted_def c answer_query_def)
qed

lemma reachable_counted: "0 < k \<Longrightarrow> k \<le> 6 \<Longrightarrow> reachable (counted k)"
proof (induction k)
  case 0
  then show ?case by simp
next
  case (Suc k)
  have t: "ae_now not_found_env = 3000" "ae_timestamp not_found_env = 3000"
    "ae_scan not_found_env = Inr None"
    by (simp_all add: not_found_env_def scenario_api_env_def)
  show ?case
  proof (cases k)
    case 0
    note k0 = this
    have "reachable \<lparr>limiter = Map.empty, db = Map.empty, clock = 0\<rparr>"
      by (rule reachable.start)
    from reachable.query [OF this _ _ _ not_found_first]
    show ?thesis by (simp add: t scan_consistent_def counted_def k0)
  next
    case (Suc j)
    with Suc.prems Suc.IH have r: "reachable (counted k)" and k: "k < 6" by simp_all
    from reachable.query [OF r _ _ _ not_found_next [OF k]]
    show ?thesis by (simp add: t scan_consistent_def counted_def)
  qed
qed

lemma answer_query_limiter: "limiter (snd (answer_query env d prompt u st)) = limiter st"
proof -
  obtain resp st' where a: "answer_query env d prompt u st = (resp, st')"
    by (cases "answer_query env d prompt u st") auto
  from answer_query_cases [OF a] have "limiter st' = limiter st"
    by (auto simp add: answered_def Let_def)
  with a show ?thesis by simp
qed

lemma answer_query_not_rejected: "\<not> rejected (fst (answer_query env d prompt u st))"
  unfolding answer_query_def Let_def
  by (simp split: sum.splits option.splits list.splits)

lemma passes_validation_prompt:
  "passes_validation req \<Longrightarrow>
   \<not> (case q_prompt req of Some p \<Rightarrow> p \<noteq> [] \<and> length p > 100 | None \<Rightarrow> False)"
  by (auto simp add: passes_validation_def split: option.splits)

lemma handler_limited:
  assumes "passes_validation req"
    and "check_rate_limit (ae_now env) (userId_of req) (limiter st) = (Limited secs, l')"
  shows "handleApiGatewayRequest env req st = (TooManyRequests429 secs, st)"
  using assms(2) passes_validation_prompt [OF assms(1)] assms(1)
  by (simp add: handleApiGatewayRequest_def passes_validation_def)

lemma handler_allowed:
  assumes "passes_validation req"
    and "check_rate_limit (ae_now env) (userId_of req) (limiter st) = (Allowed, l')"
  shows "limiter (snd (handleApiGatewayRequest env req st)) = l'"
    and "\<not> rejected (fst (handleApiGatewayRequest env req st))"
  using assms(2) passes_validation_prompt [OF assms(1)] assms(1)
  by (simp_all add: handleApiGatewayRequest_def passes_validation_def answer_query_limiter
        answer_query_not_rejected)

lemma handler_429_valid:
  assumes "handleApiGatewayRequest env req s = (TooManyRequests429 secs, s')"
  shows "passes_validation req"
proof (rule ccontr)
  assume "\<not> passes_validation req"
  then consider "\<not> str_truthy (q_dataId req)"
    | p where "str_truthy (q_dataId req)" and "q_prompt req = Some p" and "length p > 100"
    by (cases "str_truthy (q_dataId req)") (auto simp add: passes_validation_def split: option.splits)
  then show False
  proof cases
    case 1
    with assms show False by (simp add: handleApiGatewayRequest_def)
  next
    case 2
    from 2(3) have "p \<noteq> []" by (cases p) simp_all
    with 2 assms show False by (simp add: handleApiGatewayRequest_def)
  qed
qed

lemma invocations_Cons:
  "invocations ((env, req) # later) st =
     (fst (handleApiGatewayRequest env req st)
        # fst (invocations later (snd (handleApiGatewayRequest env req st))),
      snd (invocations later (snd (handleApiGatewayRequest env req st))))"
  by (simp split: prod.splits)

lemma invocations_append:
  "fst (invocations (xs @ ys) st)
     = fst (invocations xs st) @ fst (invocations ys (snd (invocations xs st)))"
  by (induction xs arbitrary: st) (auto simp add: invocations_Cons simp del: invocations.simps(2))

lemma invocations_within_window:
  assumes "limiter st u = Some b"
    and "\<forall>(e, r)\<in>set calls. passes_validation r \<and> userId_of r = u \<and> ae_now e < resetTime b"
    and "count b + length calls \<le> 6"
  shows "list_all (\<lambda>r. \<not> rejected r) (fst (invocations calls st))
         \<and> length (fst (invocations calls st)) = length calls
         \<and> limiter (snd (invocations calls st)) u = Some (b\<lparr>count := count b + length calls\<rparr>)"
  using assms
proof (induction calls arbitrary: st b)
  case Nil
  then show ?case by simp
next
  case (Cons c calls)
  obtain e r where c: "c = (e, r)" by (cases c)
  let ?b = "b\<lparr>count := count b + 1\<rparr>"
  let ?st = "snd (handleApiGatewayRequest e r st)"
  from Cons.prems c have v: "passes_validation r" and u: "userId_of r = u" and t: "ae_now e < resetTime b"
    by auto
  have k: "check_rate_limit (ae_now e) (userId_of r) (limiter st) = (Allowed, (limiter st)(u \<mapsto> ?b))"
    unfolding u using Cons.prems(1) t Cons.prems(3) by (intro check_within) auto
  note h = handler_allowed [OF v k]
  have "limiter ?st u = Some ?b" by (simp add: h(1))
  moreover have "\<forall>(e, r)\<in>set calls. passes_validation r \<and> userId_of r = u \<and> ae_now e < resetTime ?b"
    using Cons.prems(2) by auto
  moreover have "count ?b + length calls \<le> 6" using Cons.prems(3) by simp
  ultimately have "list_all (\<lambda>r. \<not> rejected r) (fst (invocations calls ?st))
         \<and> length (fst (invocations calls ?st)) = length calls
         \<and> limiter (snd (invocations calls ?st)) u = Some (?b\<lparr>count := count ?b + length calls\<rparr>)"
    by (rule Cons.IH)
  then show ?case
    by (simp add: c invocations_Cons h(2) del: invocations.simps(2))
qed

lemma seven_invocations:
  assumes "limiter st u = None \<or> (\<exists>b. limiter st u = Some b \<and> resetTime b \<le> ae_now env1)"
    and "passes_validation req1" and "userId_of req1 = u"
    and "length calls = 5"
    and "\<forall>(e, r)\<in>set (calls @ [(env7, req7)]).
           passes_validation r \<and> userId_of r = u \<and> ae_now e < ae_now env1 + 60000"
  shows "\<exists>resps. fst (invocations ((env1, req1) # calls @ [(env7, req7)]) st)
           = resps @ [TooManyRequests429 \<lceil>(of_int (ae_now env1 + 60000 - ae_now env7) :: rat) / 1000\<rceil>]
         \<and> length resps = 6 \<and> list_all (\<lambda>r. \<not> rejected r) resps"
proof -
  let ?b1 = "\<lparr>count = 1, resetTime = ae_now env1 + 60000\<rparr>"
  define st1 where "st1 = snd (handleApiGatewayRequest env1 req1 st)"
  define st6 where "st6 = snd (invocations calls st1)"
  have k1: "check_rate_limit (ae_now env1) (userId_of req1) (limiter st)
      = (Allowed, (limiter st)(u \<mapsto> ?b1))"
    using assms(1) by (auto simp add: assms(3) check_first check_expired)
  note h1 = handler_allowed [OF assms(2) k1]
  have l1: "limiter st1 u = Some ?b1" by (simp add: st1_def h1(1))
  have w: "list_all (\<lambda>r. \<not> rejected r) (fst (invocations calls st1))
         \<and> length (fst (invocations calls st1)) = length calls
         \<and> limiter (snd (invocations calls st1)) u = Some (?b1\<lparr>count := count ?b1 + length calls\<rparr>)"
    using l1 assms(4,5) by (intro invocations_within_window) auto
  then have l6: "limiter st6 u = Some \<lparr>count = 6, resetTime = ae_now env1 + 60000\<rparr>"
    using assms(4) by (simp add: st6_def)
  have v7: "passes_validation req7" and u7: "userId_of req7 = u"
    and t7: "ae_now env7 < ae_now env1 + 60000"
    using assms(5) by auto
  have "check_rate_limit (ae_now env7) (userId_of req7) (limiter st6)
      = (Limited \<lceil>(of_int (resetTime \<lparr>count = 6, resetTime = ae_now env1 + 60000\<rparr> - ae_now env7) :: rat) / 1000\<rceil>,
         limiter st6)"
    unfolding u7 using l6 t7 by (intro check_exceeded) auto
  then have k7: "check_rate_limit (ae_now env7) (userId_of req7) (limiter st6)
      = (Limited \<lceil>(of_int (ae_now env1 + 60000 - ae_now env7) :: rat) / 1000\<rceil>, limiter st6)"
    by simp
  note h7 = handler_limited [OF v7 k7]
  have "fst (invocations ((env1, req1) # calls @ [(env7, req7)]) st)
      = (fst (handleApiGatewayRequest env1 req1 st) # fst (invocations calls st1))
        @ [TooManyRequests429 \<lceil>(of_int (ae_now env1 + 60000 - ae_now env7) :: rat) / 1000\<rceil>]"
    by (simp add: invocations_Cons invocations_append st1_def [symmetric] st6_def [symmetric] h7
          del: invocations.simps(2))
  moreover have "length (fst (handleApiGatewayRequest env1 req1 st) # fst (invocations calls st1)) = 6"
    using w assms(4) by simp
  moreover have "list_all (\<lambda>r. \<not> rejected r)
      (fst (handleApiGatewayRequest env1 req1 st) # fst (invocations calls st1))"
    using w h1(2) by simp
  ultimately show ?thesis by blast
qed

lemma scenario_request_valid: "passes_validation scenario_request"
  by (simp add: passes_validation_def scenario_request_def)

text \<open>
  Claim C1. The limiter keeps one bucket per user, with 6 calls per window of 60000 ms. A call
  of a user without a bucket, or at or after \<^verbatim>\<open>resetTime\<close>, is let through and
  sets the bucket to count 1 and \<^verbatim>\<open>resetTime = now + 60000\<close>. A call before
  \<^verbatim>\<open>resetTime\<close> is let through with the count incremented when the count is below 6,
  and otherwise rejected with the seconds until reset, rounded up, the store unchanged. The
  buckets of other users are never touched. The handler answers a request that passed the
  validations with 429 and these seconds, its state unchanged, exactly when the check rejects
  the call; when the check lets the call through, the handler keeps the store of the check and
  does not answer 429. In every reachable state, at an instant not before the clock of that
  state, a rejection carries between 1 and 60 seconds. Seven invocations of the handler for one
  user, the first without a bucket or after its reset and the others less than 60000 ms after
  the first: the first six are not answered 429, the seventh is, with the seconds left of the
  window of the first.
\<close>

theorem rate_limiter_fixed_window:
  "RATE_LIMIT_MAX_CALLS = 6 \<and> RATE_LIMIT_WINDOW_MS = 60000
   \<and> (store u = None \<or> (\<exists>b'. store u = Some b' \<and> resetTime b' \<le> now) \<longrightarrow>
        check_rate_limit now u store
          = (Allowed, store(u \<mapsto> \<lparr>count = 1, resetTime = now + 60000\<rparr>)))
   \<and> (store u = Some b \<and> now < resetTime b \<and> count b < 6 \<longrightarrow>
        check_rate_limit now u store = (Allowed, store(u \<mapsto> b\<lparr>count := count b + 1\<rparr>)))
   \<and> (store u = Some b \<and> now < resetTime b \<and> 6 \<le> count b \<longrightarrow>
        check_rate_limit now u store
          = (Limited \<lceil>(of_int (resetTime b - now) :: rat) / 1000\<rceil>, store))
   \<and> (v \<noteq> u \<longrightarrow> snd (check_rate_limit now u store) v = store v)
   \<and> (passes_validation req
        \<and> check_rate_limit (ae_now env) (userId_of req) (limiter st) = (Limited secs, l') \<longrightarrow>
        handleApiGatewayRequest env req st = (TooManyRequests429 secs, st))
   \<and> (passes_validation req
        \<and> check_rate_limit (ae_now env) (userId_of req) (limiter st) = (Allowed, l') \<longrightarrow>
        limiter (snd (handleApiGatewayRequest env req st)) = l'
        \<and> \<not> rejected (fst (handleApiGatewayRequest env req st)))
   \<and> (handleApiGatewayRequest env req st = (TooManyRequests429 secs, st') \<longrightarrow>
        passes_validation req
        \<and> check_rate_limit (ae_now env) (userId_of req) (limiter st) = (Limited secs, limiter st)
        \<and> st' = st)
   \<and> (reachable s \<and> clock s \<le> now \<and> check_rate_limit now u (limiter s) = (Limited secs, l') \<longrightarrow>
        1 \<le> secs \<and> secs \<le> 60)
   \<and> (reachable s \<and> clock s \<le> ae_now env
        \<and> handleApiGatewayRequest env req s = (TooManyRequests429 secs, s') \<longrightarrow>
        1 \<le> secs \<and> secs \<le> 60)
   \<and> ((limiter st0 caller = None
          \<or> (\<exists>b'. limiter st0 caller = Some b' \<and> resetTime b' \<le> ae_now env1))
        \<and> passes_validation req1 \<and> userId_of req1 = caller \<and> length calls = 5
        \<and> (\<forall>(e, r)\<in>set (calls @ [(env7, req7)]).
              passes_validation r \<and> userId_of r = caller \<and> ae_now e < ae_now env1 + 60000) \<longrightarrow>
        (\<exists>resps. fst (invocations ((env1, req1) # calls @ [(env7, req7)]) st0)
             = resps @ [TooManyRequests429
                          \<lceil>(of_int (ae_now env1 + 60000 - ae_now env7) :: rat) / 1000\<rceil>]
           \<and> length resps = 6 \<and> list_all (\<lambda>r. \<not> rejected r) resps))"
proof -
  have 0: "RATE_LIMIT_MAX_CALLS = 6" "RATE_LIMIT_WINDOW_MS = 60000"
    by (simp_all add: RATE_LIMIT_MAX_CALLS_def RATE_LIMIT_WINDOW_MS_def)
  have 1: "store u = None \<or> (\<exists>b'. store u = Some b' \<and> resetTime b' \<le> now) \<longrightarrow>
        check_rate_limit now u store
          = (Allowed, store(u \<mapsto> \<lparr>count = 1, resetTime = now + 60000\<rparr>))"
    using check_first check_expired by blast
  have 2: "store u = Some b \<and> now < resetTime b \<and> count b < 6 \<longrightarrow>
        check_rate_limit now u store = (Allowed, store(u \<mapsto> b\<lparr>count := count b + 1\<rparr>))"
    using check_within by blast
  have 3: "store u = Some b \<and> now < resetTime b \<and> 6 \<le> count b \<longrightarrow>
        check_rate_limit now u store
          = (Limited \<lceil>(of_int (resetTime b - now) :: rat) / 1000\<rceil>, store)"
    using check_exceeded by blast
  have 4: "v \<noteq> u \<longrightarrow> snd (check_rate_limit now u store) v = store v"
    using check_other_user by blast
  have 5: "passes_validation req
        \<and> check_rate_limit (ae_now env) (userId_of req) (limiter st) = (Limited secs, l') \<longrightarrow>
        handleApiGatewayRequest env req st = (TooManyRequests429 secs, st)"
    using handler_limited by blast
  have 6: "passes_validation req
        \<and> check_rate_limit (ae_now env) (userId_of req) (limiter st) = (Allowed, l') \<longrightarrow>
        limiter (snd (handleApiGatewayRequest env req st)) = l'
        \<and> \<not> rejected (fst (handleApiGatewayRequest env req st))"
    using handler_allowed by blast
  have 7: "handleApiGatewayRequest env req st = (TooManyRequests429 secs, st') \<longrightarrow>
        passes_validation req
        \<and> check_rate_limit (ae_now env) (userId_of req) (limiter st) = (Limited secs, limiter st)
        \<and> st' = st"
    using handler_429 handler_429_valid by blast
  have 8: "reachable s \<and> clock s \<le> now \<and> check_rate_limit now u (limiter s) = (Limited secs, l') \<longrightarrow>
        1 \<le> secs \<and> secs \<le> 60"
    using reachable_retry_after by blast
  have 9: "reachable s \<and> clock s \<le> ae_now env
        \<and> handleApiGatewayRequest env req s = (TooManyRequests429 secs, s') \<longrightarrow>
        1 \<le> secs \<and> secs \<le> 60"
    using handler_429 reachable_retry_after by blast
  have 10: "(limiter st0 caller = None
          \<or> (\<exists>b'. limiter st0 caller = Some b' \<and> resetTime b' \<le> ae_now env1))
        \<and> passes_validation req1 \<and> userId_of req1 = caller \<and> length calls = 5
        \<and> (\<forall>(e, r)\<in>set (calls @ [(env7, req7)]).
              passes_validation r \<and> userId_of r = caller \<and> ae_now e < ae_now env1 + 60000) \<longrightarrow>
        (\<exists>resps. fst (invocations ((env1, req1) # calls @ [(env7, req7)]) st0)
             = resps @ [TooManyRequests429
                          \<lceil>(of_int (ae_now env1 + 60000 - ae_now env7) :: rat) / 1000\<rceil>]
           \<and> length resps = 6 \<and> list_all (\<lambda>r. \<not> rejected r) resps)"
    using seven_invocations [of st0 caller env1 req1 calls env7 req7] by blast
  from 0 1 2 3 4 5 6 7 8 9 10 show ?thesis by (intro conjI)
qed

theorem rate_limiter_fixed_window_witness:
  "check_rate_limit 3000 ''user-1'' Map.empty
     = (Allowed, [''user-1'' \<mapsto> \<lparr>count = 1, resetTime = 3000 + 60000\<rparr>])
   \<and> check_rate_limit 3000 ''user-1'' (limiter (counted 5))
     = (Allowed, (limiter (counted 5))(''user-1'' \<mapsto> \<lparr>count = 5, resetTime = 63000\<rparr>\<lparr>count := 5 + 1\<rparr>))
   \<and> check_rate_limit 3500 ''user-1'' (limiter (counted 6)) = (Limited 60, limiter (counted 6))
   \<and> passes_validation scenario_request \<and> userId_of scenario_request = ''user-1''
   \<and> handleApiGatewayRequest not_found_env scenario_request (counted 6)
       = (TooManyRequests429 60, counted 6)
   \<and> limiter (snd (handleApiGatewayRequest not_found_env scenario_request (counted 5)))
       = limiter (counted 6)
   \<and> \<not> rejected (fst (handleApiGatewayRequest not_found_env scenario_request (counted 5)))
   \<and> reachable (counted 6) \<and> clock (counted 6) \<le> 3500
   \<and> (1::int) \<le> 60 \<and> (60::int) \<le> 60
   \<and> last (fst (invocations (replicate 7 (not_found_env, scenario_request))
                 \<lparr>limiter = Map.empty, db = Map.empty, clock = 0\<rparr>))
       = TooManyRequests429 60
   \<and> length (fst (invocations (replicate 7 (not_found_env, scenario_request))
                 \<lparr>limiter = Map.empty, db = Map.empty, clock = 0\<rparr>)) = 7
   \<and> list_all (\<lambda>r. \<not> rejected r)
        (butlast (fst (invocations (replicate 7 (not_found_env, scenario_request))
                 \<lparr>limiter = Map.empty, db = Map.empty, clock = 0\<rparr>)))"
proof -
  note a = rate_limiter_fixed_window [where store = Map.empty and u = "''user-1''" and now = 3000
      and env = not_found_env and req = scenario_request and st = "counted 6"
      and ?st0.0 = "\<lparr>limiter = Map.empty, db = Map.empty, clock = 0\<rparr>" and caller = "''user-1''"
      and ?env1.0 = not_found_env and ?req1.0 = scenario_request
      and calls = "replicate 5 (not_found_env, scenario_request)"
      and ?env7.0 = not_found_env and ?req7.0 = scenario_request]
  note b = rate_limiter_fixed_window [where store = "limiter (counted 5)" and u = "''user-1''"
      and now = 3000 and b = "\<lparr>count = 5, resetTime = 63000\<rparr>"
      and env = not_found_env and req = scenario_request and st = "counted 5"]
  note c = rate_limiter_fixed_window [where store = "limiter (counted 6)" and u = "''user-1''"
      and now = 3500 and b = "\<lparr>count = 6, resetTime = 63000\<rparr>" and s = "counted 6"]
  have r: "reachable (counted 6)" by (rule reachable_counted) simp_all
  have k: "clock (counted 6) \<le> 3500" by (simp add: counted_def)
  have t: "ae_now not_found_env = 3000" by (simp add: not_found_env_def scenario_api_env_def)
  have e1: "\<lceil>(of_int (resetTime \<lparr>count = 6, resetTime = 63000\<rparr> - 3500) :: rat) / 1000\<rceil> = 60"
    by (rule ceil_eval) simp_all
  have e2: "\<lceil>(of_int (3000 + 60000 - 3000) :: rat) / 1000\<rceil> = 60"
    by (rule ceil_eval) simp_all
  have e3: "\<lceil>(of_int (resetTime \<lparr>count = 6, resetTime = 63000\<rparr> - 3000) :: rat) / 1000\<rceil> = 60"
    by (rule ceil_eval) simp_all
  have 1: "check_rate_limit 3000 ''user-1'' Map.empty
     = (Allowed, [''user-1'' \<mapsto> \<lparr>count = 1, resetTime = 3000 + 60000\<rparr>])"
    by (rule a [THEN conjunct2, THEN conjunct2, THEN conjunct1, rule_format]) simp
  have 2: "check_rate_limit 3000 ''user-1'' (limiter (counted 5))
     = (Allowed, (limiter (counted 5))(''user-1'' \<mapsto> \<lparr>count = 5, resetTime = 63000\<rparr>\<lparr>count := count \<lparr>count = 5, resetTime = 63000\<rparr> + 1\<rparr>))"
    by (rule b [THEN conjunct2, THEN conjunct2, THEN conjunct2, THEN conjunct1, rule_format])
       (simp add: counted_def)
  have "check_rate_limit 3500 ''user-1'' (limiter (counted 6))
      = (Limited \<lceil>(of_int (resetTime \<lparr>count = 6, resetTime = 63000\<rparr> - 3500) :: rat) / 1000\<rceil>,
         limiter (counted 6))"
    by (rule c [THEN conjunct2, THEN conjunct2, THEN conjunct2, THEN conjunct2, THEN conjunct1,
          rule_format]) (simp add: counted_def)
  then have 3: "check_rate_limit 3500 ''user-1'' (limiter (counted 6)) = (Limited 60, limiter (counted 6))"
    by (simp only: e1)
  have "check_rate_limit 3000 ''user-1'' (limiter (counted 6))
      = (Limited \<lceil>(of_int (resetTime \<lparr>count = 6, resetTime = 63000\<rparr> - 3000) :: rat) / 1000\<rceil>,
         limiter (counted 6))"
    by (rule check_exceeded) (simp_all add: counted_def)
  then have l: "check_rate_limit (ae_now not_found_env) (userId_of scenario_request) (limiter (counted 6))
      = (Limited 60, limiter (counted 6))"
    by (simp only: e3 t scenario_user)
  have 4: "handleApiGatewayRequest not_found_env scenario_request (counted 6)
       = (TooManyRequests429 60, counted 6)"
    by (rule a [THEN conjunct2, THEN conjunct2, THEN conjunct2, THEN conjunct2, THEN conjunct2,
          THEN conjunct2, THEN conjunct1, rule_format]) (simp only: scenario_request_valid l simp_thms)
  have m: "check_rate_limit (ae_now not_found_env) (userId_of scenario_request) (limiter (counted 5))
      = (Allowed, limiter (counted 6))"
    unfolding t scenario_user
    using check_within [of "limiter (counted 5)" "''user-1''" "\<lparr>count = 5, resetTime = 63000\<rparr>" 3000]
    by (simp add: counted_def)
  have 5: "limiter (snd (handleApiGatewayRequest not_found_env scenario_request (counted 5)))
       = limiter (counted 6)
     \<and> \<not> rejected (fst (handleApiGatewayRequest not_found_env scenario_request (counted 5)))"
    by (rule b [THEN conjunct2, THEN conjunct2, THEN conjunct2, THEN conjunct2, THEN conjunct2,
          THEN conjunct2, THEN conjunct2, THEN conjunct1, rule_format])
       (simp only: scenario_request_valid m simp_thms)
  have 6: "(1::int) \<le> 60 \<and> (60::int) \<le> 60"
    by (rule c [THEN conjunct2, THEN conjunct2, THEN conjunct2, THEN conjunct2, THEN conjunct2,
          THEN conjunct2, THEN conjunct2, THEN conjunct2, THEN conjunct2, THEN conjunct1, rule_format])
       (simp add: r k 3)
  have "\<exists>resps. fst (invocations ((not_found_env, scenario_request)
                      # replicate 5 (not_found_env, scenario_request)
                      @ [(not_found_env, scenario_request)])
                    \<lparr>limiter = Map.empty, db = Map.empty, clock = 0\<rparr>)
             = resps @ [TooManyRequests429
                          \<lceil>(of_int (ae_now not_found_env + 60000 - ae_now not_found_env) :: rat) / 1000\<rceil>]
           \<and> length resps = 6 \<and> list_all (\<lambda>r. \<not> rejected r) resps"
    by (rule a [THEN conjunct2, THEN conjunct2, THEN conjunct2, THEN conjunct2, THEN conjunct2,
          THEN conjunct2, THEN conjunct2, THEN conjunct2, THEN conjunct2, THEN conjunct2,
          THEN conjunct2, rule_format])
       (simp add: scenario_request_valid scenario_user)
  moreover have "(not_found_env, scenario_request) # replicate 5 (not_found_env, scenario_request)
                      @ [(not_found_env, scenario_request)]
      = replicate 7 (not_found_env, scenario_request)"
    by (simp add: numeral_eq_Suc)
  moreover have "\<lceil>(of_int (ae_now not_found_env + 60000 - ae_now not_found_env) :: rat) / 1000\<rceil> = 60"
    unfolding t by (rule e2)
  ultimately obtain resps where
    "fst (invocations (replicate 7 (not_found_env, scenario_request))
           \<lparr>limiter = Map.empty, db = Map.empty, clock = 0\<rparr>) = resps @ [TooManyRequests429 60]"
    and "length resps = 6" and "list_all (\<lambda>r. \<not> rejected r) resps"
    by (auto simp only:)
  then have 7: "last (fst (invocations (replicate 7 (not_found_env, scenario_request))
                 \<lparr>limiter = Map.empty, db = Map.empty, clock = 0\<rparr>))
       = TooManyRequests429 60
   \<and> length (fst (invocations (replicate 7 (not_found_env, scenario_request))
                 \<lparr>limiter = Map.empty, db = Map.empty, clock = 0\<rparr>)) = 7
   \<and> list_all (\<lambda>r. \<not> rejected r)
        (butlast (fst (invocations (replicate 7 (not_found_env, scenario_request))
                 \<lparr>limiter = Map.empty, db = Map.empty, clock = 0\<rparr>)))"
    by simp
  from 1 2 3 scenario_request_valid scenario_user 4 5 r k 6 7 show ?thesis by simp
qed

lemma handler_Ok:
  assumes "handleApiGatewayRequest env req st = (Ok200 text d t p saved hist, st')"
  obtains fileRecord others key body data store' where
    "check_rate_limit (ae_now env) (userId_of req) (limiter st) = (Allowed, store')"
    and "q_dataId req = Some d"
    and "ae_scan env = Inr (Some (fileRecord # others))"
    and "s3Key fileRecord = Some key" and "ae_s3_get env key = Inr (Some body)"
    and "ae_JSON_parse env body = Inr data" and "ae_update env = None"
    and "answered env d (q_prompt req) (userId_of req) fileRecord data (st\<lparr>limiter := store'\<rparr>)
           (Ok200 text d t p saved hist) st'"
proof -
  from handleApiGatewayRequest_cases [OF assms]
  obtain store' d' where c: "check_rate_limit (ae_now env) (userId_of req) (limiter st) = (Allowed, store')"
    and d: "q_dataId req = Some d'"
    and a: "answer_query env d' (q_prompt req) (userId_of req) (st\<lparr>limiter := store'\<rparr>)
              = (Ok200 text d t p saved hist, st')"
    by auto
  from answer_query_cases [OF a]
  obtain fileRecord others key body data where f: "ae_scan env = Inr (Some (fileRecord # others))"
    "s3Key fileRecord = Some key" "ae_s3_get env key = Inr (Some body)"
    "ae_JSON_parse env body = Inr data" "ae_update env = None"
    and w: "answered env d' (q_prompt req) (userId_of req) fileRecord data (st\<lparr>limiter := store'\<rparr>)
              (Ok200 text d t p saved hist) st'"
    by blast
  from w have "d' = d" by (simp add: answered_def Let_def)
  with c d f w show thesis by (intro that) simp_all
qed

lemma answered_Ok:
  assumes "answered env d prompt u fileRecord data st0 (Ok200 text d' t p saved hist) st'"
  shows "text = generateAdditionalInsights (ae_bedrock env) data
                  (js_or (processingResults fileRecord) (JObj [])) prompt"
    and "d' = d" and "t = tenantId fileRecord" and "p = prompt" and "saved"
    and "hist = slice_last MAX_INSIGHTS (history fileRecord @
            [\<lparr>ir_timestamp = ae_timestamp env, ir_userId = u,
              ir_prompt = prompt_or_general prompt, ir_response = text\<rparr>])"
    and "st' = st0\<lparr>db := update_item (db st0) t d
                            (\<lambda>it. it\<lparr>insights := Some hist,
                                     lastInsightAt := Some (ae_timestamp env)\<rparr>)\<rparr>"
  using assms by (simp_all add: answered_def Let_def)

lemma handler_db:
  assumes "handleApiGatewayRequest env req st = (resp, st')"
  shows "db st' = db st
       \<or> (\<exists>t d hist. db st' = update_item (db st) t d
                           (\<lambda>it. it\<lparr>insights := Some hist, lastInsightAt := Some (ae_timestamp env)\<rparr>))"
proof -
  from handleApiGatewayRequest_cases [OF assms]
  consider (same) "st' = st"
    | (query) store' d where
        "answer_query env d (q_prompt req) (userId_of req) (st\<lparr>limiter := store'\<rparr>) = (resp, st')"
    by blast
  then show ?thesis
  proof cases
    case same
    then show ?thesis by simp
  next
    case query
    from answer_query_cases [OF query]
    consider (unchanged) "st' = st\<lparr>limiter := store'\<rparr>"
      | (answered) fileRecord data where
          "answered env d (q_prompt req) (userId_of req) fileRecord data (st\<lparr>limiter := store'\<rparr>) resp st'"
      by blast
    then show ?thesis
    proof cases
      case unchanged
      then show ?thesis by simp
    next
      case answered
      then obtain hist where
        "db st' = update_item (db st) (tenantId fileRecord) d
                    (\<lambda>it. it\<lparr>insights := Some hist, lastInsightAt := Some (ae_timestamp env)\<rparr>)"
        by (simp add: answered_def Let_def)
      then show ?thesis by blast
    qed
  qed
qed

lemma update_item_frame:
  assumes "tbl k = Some it"
  shows "\<exists>it'. update_item tbl t d (\<lambda>it. it\<lparr>insights := h, lastInsightAt := l\<rparr>) k = Some it'
           \<and> it' = it\<lparr>insights := insights it', lastInsightAt := lastInsightAt it'\<rparr>"
  using assms by (auto simp add: update_item_def)

lemma update_item_status:
  assumes "\<And>it. status (f it) = status it"
  shows "status_at (update_item tbl t d f) k = status_at tbl k"
  by (simp add: status_at_def update_item_def assms new_item_def split: option.splits)

lemma slice_last_last:
  "slice_last MAX_INSIGHTS (h @ [e]) \<noteq> [] \<and> last (slice_last MAX_INSIGHTS (h @ [e])) = e
   \<and> length (slice_last MAX_INSIGHTS (h @ [e])) = min 10 (length h + 1)
   \<and> slice_last MAX_INSIGHTS (h @ [e]) = drop (length h + 1 - 10) (h @ [e])"
  by (simp add: slice_last_append1 MAX_INSIGHTS_def length_slice_last) (simp add: slice_last_def)

text \<open>
  Claim C2. In every reachable state each record holds at most 10 insights, in the order of
  their timestamps. A query answered with 200 appends one entry (the timestamp, the user, the
  prompt or \<^verbatim>\<open>General insights\<close>, the answer) to the history of the scanned record,
  drops the oldest entries beyond 10, stores the result with \<^verbatim>\<open>lastInsightAt\<close>, and
  returns it with the answer: the last entry of the returned history is the new one.
\<close>

theorem insight_history_bounded:
  "(reachable s \<and> db s k = Some it \<longrightarrow>
      length (history it) \<le> 10 \<and> sorted (map ir_timestamp (history it)))
   \<and> (handleApiGatewayRequest env req st = (Ok200 text d t p saved hist, st') \<longrightarrow>
        (\<exists>fileRecord others entry.
            ae_scan env = Inr (Some (fileRecord # others))
          \<and> entry = \<lparr>ir_timestamp = ae_timestamp env, ir_userId = userId_of req,
                      ir_prompt = (case q_prompt req of
                                     Some q \<Rightarrow> (if q \<noteq> [] then q else ''General insights'')
                                   | None \<Rightarrow> ''General insights''),
                      ir_response = text\<rparr>
          \<and> hist = drop (length (history fileRecord) + 1 - 10) (history fileRecord @ [entry])
          \<and> length hist = min 10 (length (history fileRecord) + 1)
          \<and> hist \<noteq> [] \<and> last hist = entry
          \<and> t = tenantId fileRecord)
        \<and> saved \<and> p = q_prompt req \<and> q_dataId req = Some d
        \<and> db st' = update_item (db st) t d
                      (\<lambda>it. it\<lparr>insights := Some hist, lastInsightAt := Some (ae_timestamp env)\<rparr>)
        \<and> (\<exists>it'. db st' (t, d) = Some it' \<and> insights it' = Some hist
               \<and> lastInsightAt it' = Some (ae_timestamp env)))"
proof -
  have 1: "reachable s \<and> db s k = Some it \<longrightarrow>
      length (history it) \<le> 10 \<and> sorted (map ir_timestamp (history it))"
    using reachable_history by blast
  have 2: "(\<exists>fileRecord others entry.
            ae_scan env = Inr (Some (fileRecord # others))
          \<and> entry = \<lparr>ir_timestamp = ae_timestamp env, ir_userId = userId_of req,
                      ir_prompt = (case q_prompt req of
                                     Some q \<Rightarrow> (if q \<noteq> [] then q else ''General insights'')
                                   | None \<Rightarrow> ''General insights''),
                      ir_response = text\<rparr>
          \<and> hist = drop (length (history fileRecord) + 1 - 10) (history fileRecord @ [entry])
          \<and> length hist = min 10 (length (history fileRecord) + 1)
          \<and> hist \<noteq> [] \<and> last hist = entry
          \<and> t = tenantId fileRecord)
        \<and> saved \<and> p = q_prompt req \<and> q_dataId req = Some d
        \<and> db st' = update_item (db st) t d
                      (\<lambda>it. it\<lparr>insights := Some hist, lastInsightAt := Some (ae_timestamp env)\<rparr>)
        \<and> (\<exists>it'. db st' (t, d) = Some it' \<and> insights it' = Some hist
               \<and> lastInsightAt it' = Some (ae_timestamp env))"
    if run: "handleApiGatewayRequest env req st = (Ok200 text d t p saved hist, st')"
  proof -
    from run obtain fileRecord others data store' where
      scan: "ae_scan env = Inr (Some (fileRecord # others))" and q: "q_dataId req = Some d"
      and a: "answered env d (q_prompt req) (userId_of req) fileRecord data (st\<lparr>limiter := store'\<rparr>)
           (Ok200 text d t p saved hist) st'"
      by (rule handler_Ok)
    note f = answered_Ok [OF a]
    define entry where "entry = \<lparr>ir_timestamp = ae_timestamp env, ir_userId = userId_of req,
                      ir_prompt = (case q_prompt req of
                                     Some q \<Rightarrow> (if q \<noteq> [] then q else ''General insights'')
                                   | None \<Rightarrow> ''General insights''),
                      ir_response = text\<rparr>"
    have h: "hist = slice_last MAX_INSIGHTS (history fileRecord @ [entry])"
      using f(6) by (simp add: entry_def prompt_or_general_def)
    note sl = slice_last_last [of "history fileRecord" entry, folded h]
    have db: "db st' = update_item (db st) t d
                      (\<lambda>it. it\<lparr>insights := Some hist, lastInsightAt := Some (ae_timestamp env)\<rparr>)"
      using f(7) by simp
    have at: "\<exists>it'. db st' (t, d) = Some it' \<and> insights it' = Some hist
               \<and> lastInsightAt it' = Some (ae_timestamp env)"
      by (simp add: db update_item_at)
    from scan sl f(3,4,5) q db at entry_def show ?thesis by blast
  qed
  from 1 2 show ?thesis by blast
qed

theorem insight_history_bounded_witness:
  "reachable (scenario_answered\<lparr>clock := 3005\<rparr>)
   \<and> (\<exists>it. db (scenario_answered\<lparr>clock := 3005\<rparr>) (''t1'', ''d1'') = Some it
         \<and> history it = [scenario_entry] \<and> length (history it) \<le> 10
         \<and> sorted (map ir_timestamp (history it)))
   \<and> handleApiGatewayRequest scenario_api_env scenario_request scenario_processed
       = (Ok200 scenario_fallback ''d1'' ''t1'' (Some ''total amount?'') True [scenario_entry],
          scenario_answered)
   \<and> last [scenario_entry] = scenario_entry
   \<and> ir_prompt scenario_entry = ''total amount?''
   \<and> ir_response scenario_entry = scenario_fallback"
proof -
  have e: "ae_now scenario_api_env = 3000" "ae_timestamp scenario_api_env = 3005"
    "ae_scan scenario_api_env = Inr (Some [scenario_record])"
    by (simp_all add: scenario_api_env_def)
  have c: "clock scenario_processed = 2000" by (simp add: scenario_processed_def)
  have q: "q_dataId scenario_request = Some ''d1''" by (simp add: scenario_request_def)
  have sc: "scan_consistent (db scenario_processed) ''d1'' (Inr (Some [scenario_record]))"
    using scenario_record_at by (simp add: scan_consistent_def scenario_record_def)
  from reachable.query [OF reachable_scenario_processed _ _ _ scenario_query]
  have r: "reachable (scenario_answered\<lparr>clock := 3005\<rparr>)"
    by (simp add: e c q sc)
  have it: "db (scenario_answered\<lparr>clock := 3005\<rparr>) (''t1'', ''d1'')
      = Some (scenario_record\<lparr>insights := Some [scenario_entry], lastInsightAt := Some 3005\<rparr>)"
    using scenario_record_at by (simp add: scenario_answered_def update_item_at)
  from insight_history_bounded [of "scenario_answered\<lparr>clock := 3005\<rparr>" "(''t1'', ''d1'')"
      "scenario_record\<lparr>insights := Some [scenario_entry], lastInsightAt := Some 3005\<rparr>"
      scenario_api_env scenario_request scenario_processed scenario_fallback "''d1''" "''t1''"
      "Some ''total amount?''" True "[scenario_entry]" scenario_answered] r it
  have b: "length (history (scenario_record\<lparr>insights := Some [scenario_entry], lastInsightAt := Some 3005\<rparr>)) \<le> 10
     \<and> sorted (map ir_timestamp (history (scenario_record\<lparr>insights := Some [scenario_entry], lastInsightAt := Some 3005\<rparr>)))"
    by blast
  have h: "history (scenario_record\<lparr>insights := Some [scenario_entry], lastInsightAt := Some 3005\<rparr>) = [scenario_entry]"
    by (simp add: history_def)
  have p: "ir_prompt scenario_entry = ''total amount?''" "ir_response scenario_entry = scenario_fallback"
    by (simp_all add: scenario_entry_def)
  from r it b h scenario_query p show ?thesis by simp
qed

text \<open>
  Claim C8. A request whose prompt is longer than 100 characters is answered with 400 whatever
  the collaborators would answer, and leaves the rate limiter and the table as they were; with
  a \<^verbatim>\<open>dataId\<close> the message is that the prompt is too long. A request without prompt, or
  with a prompt of at most 100 characters, is never answered with that message. A query
  answered with 200 returns and stores the prompt as it was sent.
\<close>

theorem prompt_length_validation:
  "(q_prompt req = Some p \<and> 100 < length p \<longrightarrow>
      (\<exists>msg. handleApiGatewayRequest env req st = (BadRequest400 msg, st))
      \<and> handleApiGatewayRequest env req st = handleApiGatewayRequest env' req st)
   \<and> (str_truthy (q_dataId req) \<and> q_prompt req = Some p \<and> 100 < length p \<longrightarrow>
        handleApiGatewayRequest env req st
          = (BadRequest400 ''Prompt is too long. Maximum length is 100 characters.'', st))
   \<and> (q_prompt req = None \<or> q_prompt req = Some p \<and> length p \<le> 100 \<longrightarrow>
        fst (handleApiGatewayRequest env req st)
          \<noteq> BadRequest400 ''Prompt is too long. Maximum length is 100 characters.'')
   \<and> (handleApiGatewayRequest env req st = (Ok200 text d t pr saved hist, st') \<longrightarrow>
        pr = q_prompt req \<and> hist \<noteq> []
        \<and> ir_prompt (last hist) =
            (case q_prompt req of
               Some q \<Rightarrow> (if q \<noteq> [] then q else ''General insights'')
             | None \<Rightarrow> ''General insights''))"
proof -
  have long: "handleApiGatewayRequest e req st
          = (if str_truthy (q_dataId req)
             then (BadRequest400 ''Prompt is too long. Maximum length is 100 characters.'', st)
             else (BadRequest400 ''Missing required parameter: dataId'', st))"
    if "q_prompt req = Some p" and "100 < length p" for e
  proof -
    from that(2) have "p \<noteq> []" by (cases p) simp_all
    with that show ?thesis by (simp add: handleApiGatewayRequest_def)
  qed
  have 1: "q_prompt req = Some p \<and> 100 < length p \<longrightarrow>
      (\<exists>msg. handleApiGatewayRequest env req st = (BadRequest400 msg, st))
      \<and> handleApiGatewayRequest env req st = handleApiGatewayRequest env' req st"
    using long by simp
  have 2: "str_truthy (q_dataId req) \<and> q_prompt req = Some p \<and> 100 < length p \<longrightarrow>
        handleApiGatewayRequest env req st
          = (BadRequest400 ''Prompt is too long. Maximum length is 100 characters.'', st)"
    using long by simp
  have 3: "q_prompt req = None \<or> q_prompt req = Some p \<and> length p \<le> 100 \<longrightarrow>
        fst (handleApiGatewayRequest env req st)
          \<noteq> BadRequest400 ''Prompt is too long. Maximum length is 100 characters.''"
  proof
    assume a: "q_prompt req = None \<or> q_prompt req = Some p \<and> length p \<le> 100"
    obtain resp st1 where r: "handleApiGatewayRequest env req st = (resp, st1)"
      by (cases "handleApiGatewayRequest env req st") auto
    from handleApiGatewayRequest_cases [OF r] a
    consider "resp = BadRequest400 ''Missing required parameter: dataId''"
      | secs where "resp = TooManyRequests429 secs"
      | store' d where
        "answer_query env d (q_prompt req) (userId_of req) (st\<lparr>limiter := store'\<rparr>) = (resp, st1)"
      by auto
    then have "resp \<noteq> BadRequest400 ''Prompt is too long. Maximum length is 100 characters.''"
    proof cases
      case 3
      then show ?thesis
        unfolding answer_query_def Let_def
        by (auto split: sum.splits option.splits list.splits if_splits)
    qed simp_all
    then show "fst (handleApiGatewayRequest env req st)
          \<noteq> BadRequest400 ''Prompt is too long. Maximum length is 100 characters.''"
      by (simp add: r)
  qed
  have 4: "handleApiGatewayRequest env req st = (Ok200 text d t pr saved hist, st') \<longrightarrow>
        pr = q_prompt req \<and> hist \<noteq> []
        \<and> ir_prompt (last hist) =
            (case q_prompt req of
               Some q \<Rightarrow> (if q \<noteq> [] then q else ''General insights'')
             | None \<Rightarrow> ''General insights'')"
  proof
    assume run: "handleApiGatewayRequest env req st = (Ok200 text d t pr saved hist, st')"
    then obtain fileRecord data store' where
      a: "answered env d (q_prompt req) (userId_of req) fileRecord data (st\<lparr>limiter := store'\<rparr>)
           (Ok200 text d t pr saved hist) st'"
      by (rule handler_Ok)
    note f = answered_Ok [OF a]
    from slice_last_last [of "history fileRecord" "\<lparr>ir_timestamp = ae_timestamp env, ir_userId = userId_of req,
              ir_prompt = prompt_or_general (q_prompt req), ir_response = text\<rparr>", folded f(6)] f(4)
    show "pr = q_prompt req \<and> hist \<noteq> []
        \<and> ir_prompt (last hist) =
            (case q_prompt req of
               Some q \<Rightarrow> (if q \<noteq> [] then q else ''General insights'')
             | None \<Rightarrow> ''General insights'')"
      by (simp add: prompt_or_general_def)
  qed
  from 1 2 3 4 show ?thesis by blast
qed

theorem prompt_length_validation_witness:
  "q_prompt long_request = Some (replicate 101 (CHR ''a''))
   \<and> 100 < length (replicate 101 (CHR ''a''))
   \<and> str_truthy (q_dataId long_request)
   \<and> handleApiGatewayRequest scenario_api_env long_request scenario_processed
       = (BadRequest400 ''Prompt is too long. Maximum length is 100 characters.'', scenario_processed)
   \<and> handleApiGatewayRequest scenario_api_env long_request scenario_processed
       = handleApiGatewayRequest not_found_env long_request scenario_processed
   \<and> q_prompt limit_request = Some (replicate 100 (CHR ''a''))
   \<and> length (replicate 100 (CHR ''a'')) \<le> 100
   \<and> fst (handleApiGatewayRequest scenario_api_env limit_request scenario_processed)
       \<noteq> BadRequest400 ''Prompt is too long. Maximum length is 100 characters.''
   \<and> ir_prompt (last [scenario_entry]) = ''total amount?''"
proof -
  note a = prompt_length_validation [of long_request "replicate 101 (CHR ''a'')" scenario_api_env
      scenario_processed not_found_env scenario_fallback "''d1''" "''t1''" "Some ''total amount?''"
      True "[scenario_entry]" scenario_answered]
  note b = prompt_length_validation [of limit_request "replicate 100 (CHR ''a'')" scenario_api_env
      scenario_processed not_found_env scenario_fallback "''d1''" "''t1''" "Some ''total amount?''"
      True "[scenario_entry]" scenario_answered]
  note c = prompt_length_validation [of scenario_request "''total amount?''" scenario_api_env
      scenario_processed not_found_env scenario_fallback "''d1''" "''t1''" "Some ''total amount?''"
      True "[scenario_entry]" scenario_answered]
  have l: "q_prompt long_request = Some (replicate 101 (CHR ''a''))"
    "str_truthy (q_dataId long_request)" "100 < length (replicate 101 (CHR ''a''))"
    by (simp_all add: long_request_def scenario_request_def)
  have m: "q_prompt limit_request = Some (replicate 100 (CHR ''a''))"
    "length (replicate 100 (CHR ''a'')) \<le> 100"
    by (simp_all add: limit_request_def scenario_request_def)
  have 1: "handleApiGatewayRequest scenario_api_env long_request scenario_processed
       = (BadRequest400 ''Prompt is too long. Maximum length is 100 characters.'', scenario_processed)"
    by (rule a [THEN conjunct2, THEN conjunct1, rule_format]) (simp add: l)
  have 2: "handleApiGatewayRequest scenario_api_env long_request scenario_processed
       = handleApiGatewayRequest not_found_env long_request scenario_processed"
    by (rule a [THEN conjunct1, rule_format, THEN conjunct2]) (simp add: l)
  have 3: "fst (handleApiGatewayRequest scenario_api_env limit_request scenario_processed)
       \<noteq> BadRequest400 ''Prompt is too long. Maximum length is 100 characters.''"
    by (rule b [THEN conjunct2, THEN conjunct2, THEN conjunct1, rule_format]) (simp add: m)
  have "ir_prompt (last [scenario_entry]) =
            (case q_prompt scenario_request of
               Some q \<Rightarrow> (if q \<noteq> [] then q else ''General insights'')
             | None \<Rightarrow> ''General insights'')"
    using c [THEN conjunct2, THEN conjunct2, THEN conjunct2, rule_format, OF scenario_query]
    by blast
  then have 4: "ir_prompt (last [scenario_entry]) = ''total amount?''"
    by (simp add: scenario_request_def)
  from l m 1 2 3 4 show ?thesis by simp
qed






section \<open>Lemmas on the event path\<close>

lemma js_or_truthy: "truthy d \<Longrightarrow> truthy (js_or v d)"
  by (cases v) simp_all

lemma fallback_parsing_truthy: "list_all (\<lambda>(k, v). truthy v) (ai_fields (fallback_parsing content))"
  by (simp add: ai_fields_def fallback_parsing_def)

lemma parseAIResponse_cases:
  "(\<exists>m parsed. match_braces content = Some m \<and> JSON_parse m = Inr parsed \<and> parsed \<noteq> JNull
       \<and> ai_fields (parseAIResponse JSON_parse content)
           = map (\<lambda>(k, d). (k, js_or (get_prop parsed k) d)) parse_defaults)
   \<or> ((match_braces content = None
         \<or> (\<exists>m. match_braces content = Some m \<and> (JSON_parse m = Inr JNull \<or> (\<exists>e. JSON_parse m = Inl e))))
       \<and> parseAIResponse JSON_parse content = fallback_parsing content)"
  by (auto simp add: parseAIResponse_def ai_fields_def parse_defaults_def
        split: option.splits sum.splits)

lemma parseAIResponse_truthy:
  "list_all (\<lambda>(k, v). truthy v) (ai_fields (parseAIResponse JSON_parse content))"
  using parseAIResponse_cases [of content JSON_parse] fallback_parsing_truthy [of content]
  by (auto simp add: parse_defaults_def js_or_truthy)

lemma generateFallbackInsights_truthy:
  "list_all (\<lambda>(k, v). truthy v) (ai_fields (generateFallbackInsights data pr))"
  by (simp add: ai_fields_def generateFallbackInsights_def)

lemma insights_handler_Inl:
  assumes "handleEventBridgeEvent env ev tbl = (Inl e, tbl1)"
  shows "tbl1 = tbl"
    and "insights_handler env ev tbl =
           (Inl e,
            (case ee_catch_update env of
               None \<Rightarrow> update_item tbl (de_tenantId ev) (de_dataId ev)
                         (\<lambda>it. it\<lparr>insightsError := Some (message e),
                                  insightsGeneratedAt := Some (ee_catch_now env)\<rparr>)
             | Some update_error \<Rightarrow> tbl))"
proof -
  from handleEventBridgeEvent_cases [OF assms] show t: "tbl1 = tbl" by auto
  show "insights_handler env ev tbl =
           (Inl e,
            (case ee_catch_update env of
               None \<Rightarrow> update_item tbl (de_tenantId ev) (de_dataId ev)
                         (\<lambda>it. it\<lparr>insightsError := Some (message e),
                                  insightsGeneratedAt := Some (ee_catch_now env)\<rparr>)
             | Some update_error \<Rightarrow> tbl))"
    by (simp add: insights_handler_def assms t split: option.splits)
qed

lemma handler_status:
  assumes "handleApiGatewayRequest env req st = (resp, st')"
  shows "status_at (db st') k = status_at (db st) k"
  using handler_db [OF assms] by (auto simp add: update_item_status)

lemma handler_frame:
  assumes "handleApiGatewayRequest env req st = (resp, st')" and "db st k = Some it"
  shows "\<exists>it'. db st' k = Some it' \<and> it' = it\<lparr>insights := insights it', lastInsightAt := lastInsightAt it'\<rparr>"
proof -
  from handler_db [OF assms(1)]
  consider "db st' = db st"
    | t d hist where "db st' = update_item (db st) t d
          (\<lambda>it. it\<lparr>insights := Some hist, lastInsightAt := Some (ae_timestamp env)\<rparr>)"
    by blast
  then show ?thesis
  proof cases
    case 1
    with assms(2) show ?thesis by simp
  next
    case 2
    with update_item_frame [where tbl = "db st" and k = k and it = it and t = t and d = d
        and h = "Some hist" and l = "Some (ae_timestamp env)"] assms(2)
    show ?thesis by simp
  qed
qed

text \<open>
  Claim C9, amended. Whatever the handler of a query answers, the status under every key stays
  as it was, the table is unchanged or updated in \<^verbatim>\<open>insights\<close> and
  \<^verbatim>\<open>lastInsightAt\<close> of one record only, and every record keeps every other attribute.
  When the event path throws before or while persisting, the table is untouched up to then,
  the handler throws the same error again and no status changes; the \<^verbatim>\<open>catch\<close> block
  records \<^verbatim>\<open>insightsError\<close> and \<^verbatim>\<open>insightsGeneratedAt\<close> when the table accepts
  its update, and records nothing when the table refuses it.
\<close>

theorem query_path_frame:
  "(handleApiGatewayRequest env req st = (resp, st') \<longrightarrow>
      (\<forall>k. status_at (db st') k = status_at (db st) k)
      \<and> (db st' = db st
          \<or> (\<exists>t d hist. db st' = update_item (db st) t d
                (\<lambda>it. it\<lparr>insights := Some hist, lastInsightAt := Some (ae_timestamp env)\<rparr>)))
      \<and> (\<forall>k it. db st k = Some it \<longrightarrow>
            (\<exists>it'. db st' k = Some it'
               \<and> it' = it\<lparr>insights := insights it', lastInsightAt := lastInsightAt it'\<rparr>)))
   \<and> (handleApiGatewayRequest env req st = (Ok200 text d t p saved hist, st2) \<longrightarrow>
        db st2 = update_item (db st) t d
                   (\<lambda>it. it\<lparr>insights := Some hist, lastInsightAt := Some (ae_timestamp env)\<rparr>))
   \<and> (handleEventBridgeEvent eenv ev tbl = (Inl e, tbl1) \<longrightarrow>
        tbl1 = tbl
        \<and> fst (insights_handler eenv ev tbl) = Inl e
        \<and> (\<forall>k. status_at (snd (insights_handler eenv ev tbl)) k = status_at tbl k)
        \<and> (ee_catch_update eenv = None \<longrightarrow>
             snd (insights_handler eenv ev tbl)
               = update_item tbl (de_tenantId ev) (de_dataId ev)
                   (\<lambda>it. it\<lparr>insightsError := Some (message e),
                            insightsGeneratedAt := Some (ee_catch_now eenv)\<rparr>))
        \<and> (ee_catch_update eenv \<noteq> None \<longrightarrow> snd (insights_handler eenv ev tbl) = tbl))"
proof -
  have 1: "handleApiGatewayRequest env req st = (resp, st') \<longrightarrow>
      (\<forall>k. status_at (db st') k = status_at (db st) k)
      \<and> (db st' = db st
          \<or> (\<exists>t d hist. db st' = update_item (db st) t d
                (\<lambda>it. it\<lparr>insights := Some hist, lastInsightAt := Some (ae_timestamp env)\<rparr>)))
      \<and> (\<forall>k it. db st k = Some it \<longrightarrow>
            (\<exists>it'. db st' k = Some it'
               \<and> it' = it\<lparr>insights := insights it', lastInsightAt := lastInsightAt it'\<rparr>))"
  proof (intro impI conjI allI)
    assume r: "handleApiGatewayRequest env req st = (resp, st')"
    show "status_at (db st') k = status_at (db st) k" for k
      by (rule handler_status [OF r])
    show "db st' = db st
          \<or> (\<exists>t d hist. db st' = update_item (db st) t d
                (\<lambda>it. it\<lparr>insights := Some hist, lastInsightAt := Some (ae_timestamp env)\<rparr>))"
      by (rule handler_db [OF r])
    show "\<exists>it'. db st' k = Some it'
               \<and> it' = it\<lparr>insights := insights it', lastInsightAt := lastInsightAt it'\<rparr>"
      if "db st k = Some it" for k it
      using r that by (rule handler_frame)
  qed
  have 2: "handleApiGatewayRequest env req st = (Ok200 text d t p saved hist, st2) \<longrightarrow>
        db st2 = update_item (db st) t d
                   (\<lambda>it. it\<lparr>insights := Some hist, lastInsightAt := Some (ae_timestamp env)\<rparr>)"
  proof
    assume "handleApiGatewayRequest env req st = (Ok200 text d t p saved hist, st2)"
    then obtain fileRecord data store' where
      a: "answered env d (q_prompt req) (userId_of req) fileRecord data (st\<lparr>limiter := store'\<rparr>)
           (Ok200 text d t p saved hist) st2"
      by (rule handler_Ok)
    from answered_Ok(7) [OF a]
    show "db st2 = update_item (db st) t d
                   (\<lambda>it. it\<lparr>insights := Some hist, lastInsightAt := Some (ae_timestamp env)\<rparr>)"
      by simp
  qed
  have 3: "handleEventBridgeEvent eenv ev tbl = (Inl e, tbl1) \<longrightarrow>
        tbl1 = tbl
        \<and> fst (insights_handler eenv ev tbl) = Inl e
        \<and> (\<forall>k. status_at (snd (insights_handler eenv ev tbl)) k = status_at tbl k)
        \<and> (ee_catch_update eenv = None \<longrightarrow>
             snd (insights_handler eenv ev tbl)
               = update_item tbl (de_tenantId ev) (de_dataId ev)
                   (\<lambda>it. it\<lparr>insightsError := Some (message e),
                            insightsGeneratedAt := Some (ee_catch_now eenv)\<rparr>))
        \<and> (ee_catch_update eenv \<noteq> None \<longrightarrow> snd (insights_handler eenv ev tbl) = tbl)"
  proof
    assume a: "handleEventBridgeEvent eenv ev tbl = (Inl e, tbl1)"
    note h = insights_handler_Inl [OF a]
    have s: "\<forall>k. status_at (snd (insights_handler eenv ev tbl)) k = status_at tbl k"
      by (simp add: h(2) update_item_status split: option.splits)
    from h(1) s show "tbl1 = tbl
        \<and> fst (insights_handler eenv ev tbl) = Inl e
        \<and> (\<forall>k. status_at (snd (insights_handler eenv ev tbl)) k = status_at tbl k)
        \<and> (ee_catch_update eenv = None \<longrightarrow>
             snd (insights_handler eenv ev tbl)
               = update_item tbl (de_tenantId ev) (de_dataId ev)
                   (\<lambda>it. it\<lparr>insightsError := Some (message e),
                            insightsGeneratedAt := Some (ee_catch_now eenv)\<rparr>))
        \<and> (ee_catch_update eenv \<noteq> None \<longrightarrow> snd (insights_handler eenv ev tbl) = tbl)"
      by (auto simp add: h(2))
  qed
  from 1 2 3 show ?thesis by (intro conjI)
qed

lemma object_missing_event:
  "handleEventBridgeEvent object_missing_env scenario_processed_event (db scenario_processed)
     = (Inl (Error ''No data found in S3 object''), db scenario_processed)"
  by (simp add: handleEventBridgeEvent_def object_missing_env_def inference_down_env_def)

theorem query_path_frame_witness:
  "handleApiGatewayRequest scenario_api_env scenario_request scenario_processed
     = (Ok200 scenario_fallback ''d1'' ''t1'' (Some ''total amount?'') True [scenario_entry],
        scenario_answered)
   \<and> db scenario_processed (''t1'', ''d1'') = Some scenario_record
   \<and> status_at (db scenario_answered) (''t1'', ''d1'') = Some PROCESSED
   \<and> db scenario_answered (''t1'', ''d1'')
       = Some (scenario_record\<lparr>insights := Some [scenario_entry], lastInsightAt := Some 3005\<rparr>)
   \<and> handleEventBridgeEvent object_missing_env scenario_processed_event (db scenario_processed)
       = (Inl (Error ''No data found in S3 object''), db scenario_processed)
   \<and> ee_catch_update object_missing_env = None
   \<and> fst (insights_handler object_missing_env scenario_processed_event (db scenario_processed))
       = Inl (Error ''No data found in S3 object'')
   \<and> status_at (snd (insights_handler object_missing_env scenario_processed_event (db scenario_processed)))
        (''t1'', ''d1'') = Some PROCESSED
   \<and> snd (insights_handler object_missing_env scenario_processed_event (db scenario_processed))
        (''t1'', ''d1'')
       = Some (scenario_record\<lparr>insightsError := Some ''No data found in S3 object'',
                                insightsGeneratedAt := Some 4001\<rparr>)"
proof -
  note t = query_path_frame [of scenario_api_env scenario_request scenario_processed
      "Ok200 scenario_fallback ''d1'' ''t1'' (Some ''total amount?'') True [scenario_entry]"
      scenario_answered scenario_fallback "''d1''" "''t1''" "Some ''total amount?''" True
      "[scenario_entry]" scenario_answered object_missing_env scenario_processed_event
      "db scenario_processed" "Error ''No data found in S3 object''" "db scenario_processed"]
  note q = t [THEN conjunct1, rule_format, OF scenario_query]
  note ev = t [THEN conjunct2, THEN conjunct2, rule_format, OF object_missing_event]
  have c: "ee_catch_update object_missing_env = None" "ee_catch_now object_missing_env = 4001"
    by (simp_all add: object_missing_env_def inference_down_env_def)
  have k: "de_tenantId scenario_processed_event = ''t1''" "de_dataId scenario_processed_event = ''d1''"
    by (simp_all add: scenario_processed_event_def)
  have s0: "status_at (db scenario_processed) (''t1'', ''d1'') = Some PROCESSED"
    by (simp add: status_at_def scenario_record_at scenario_record_def)
  from q have 1: "status_at (db scenario_answered) (''t1'', ''d1'') = Some PROCESSED"
    by (simp add: s0)
  have 2: "db scenario_answered (''t1'', ''d1'')
       = Some (scenario_record\<lparr>insights := Some [scenario_entry], lastInsightAt := Some 3005\<rparr>)"
    using scenario_record_at by (simp add: scenario_answered_def update_item_at)
  from ev have 3: "fst (insights_handler object_missing_env scenario_processed_event (db scenario_processed))
       = Inl (Error ''No data found in S3 object'')"
    by blast
  from ev have 4: "status_at (snd (insights_handler object_missing_env scenario_processed_event (db scenario_processed)))
        (''t1'', ''d1'') = Some PROCESSED"
    by (simp add: s0)
  from ev c(1) have "snd (insights_handler object_missing_env scenario_processed_event (db scenario_processed))
      = update_item (db scenario_processed) (de_tenantId scenario_processed_event)
          (de_dataId scenario_processed_event)
          (\<lambda>it. it\<lparr>insightsError := Some (message (Error ''No data found in S3 object'')),
                   insightsGeneratedAt := Some (ee_catch_now object_missing_env)\<rparr>)"
    by blast
  then have 5: "snd (insights_handler object_missing_env scenario_processed_event (db scenario_processed))
        (''t1'', ''d1'')
       = Some (scenario_record\<lparr>insightsError := Some ''No data found in S3 object'',
                                insightsGeneratedAt := Some 4001\<rparr>)"
    using scenario_record_at by (simp add: k c update_item_at)
  from scenario_query scenario_record_at 1 2 object_missing_event c(1) 3 4 5 show ?thesis
    by simp
qed

text \<open>
  Claim C9 as stated fails when the table refuses the update of the \<^verbatim>\<open>catch\<close> block:
  the object is missing, the error is thrown again, and the record carries neither
  \<^verbatim>\<open>insightsError\<close> nor \<^verbatim>\<open>insightsGeneratedAt\<close>.
\<close>

theorem query_path_frame_counterexample:
  "handleEventBridgeEvent table_refuses_env scenario_processed_event (db scenario_processed)
     = (Inl (Error ''No data found in S3 object''), db scenario_processed)
   \<and> insights_handler table_refuses_env scenario_processed_event (db scenario_processed)
     = (Inl (Error ''No data found in S3 object''), db scenario_processed)
   \<and> db scenario_processed (''t1'', ''d1'') = Some scenario_record
   \<and> insightsError scenario_record = None
   \<and> insightsGeneratedAt scenario_record = None"
proof -
  have 1: "handleEventBridgeEvent table_refuses_env scenario_processed_event (db scenario_processed)
     = (Inl (Error ''No data found in S3 object''), db scenario_processed)"
    by (simp add: handleEventBridgeEvent_def table_refuses_env_def object_missing_env_def
          inference_down_env_def)
  have 2: "insights_handler table_refuses_env scenario_processed_event (db scenario_processed)
     = (Inl (Error ''No data found in S3 object''), db scenario_processed)"
    unfolding insights_handler_def 1
    by (simp add: table_refuses_env_def)
  have 3: "insightsError scenario_record = None" "insightsGeneratedAt scenario_record = None"
    by (simp_all add: scenario_record_def)
  from 1 2 3 scenario_record_at show ?thesis by simp
qed

lemma handleEventBridgeEvent_Inr:
  assumes "handleEventBridgeEvent env ev tbl = (Inr u, tbl')"
  shows "\<exists>ins it'. tbl' (de_tenantId ev, de_dataId ev) = Some it' \<and> aiInsights it' = Some ins
           \<and> status it' = Some INSIGHTS_GENERATED
           \<and> (\<exists>data. ins = generateAIInsights (ee_bedrock env) (ee_JSON_parse env) data
                              (de_processingResults ev))"
  using handleEventBridgeEvent_cases [OF assms]
  by (auto simp add: update_item_at)

lemma generateAIInsights_truthy:
  "list_all (\<lambda>(k, v). truthy v) (ai_fields (generateAIInsights bedrock JSON_parse data pr))"
  by (cases bedrock)
     (simp_all add: generateAIInsights_def parseAIResponse_truthy generateFallbackInsights_truthy)

text \<open>
  Claim C7, as the code has it. Every field of the insights the event path produces is defined
  and truthy. When the answer of the service holds a JSON object, each field is the field of
  that object when it is truthy and the fixed default when it is absent, \<^verbatim>\<open>null\<close>,
  \<^verbatim>\<open>false\<close>, 0 or the empty string; an empty list is truthy and is kept. When no JSON
  object can be read, the fixed values of the fallback parsing are used, with the first 200
  characters of the answer as summary. When the call of the service fails, the insights are
  the rule-based ones, computed from the processing results alone, with confidence 0.6.
\<close>

theorem insights_fields_defaulted:
  "list_all (\<lambda>(k, v). truthy v) (ai_fields (generateAIInsights bedrock JSON_parse data pr))
   \<and> (match_braces content = Some m \<and> JSON_parse m = Inr parsed \<and> parsed \<noteq> JNull \<longrightarrow>
        ai_fields (parseAIResponse JSON_parse content)
          = map (\<lambda>(k, d). (k, js_or (get_prop parsed k) d)) parse_defaults)
   \<and> (get_prop parsed k = None \<or> get_prop parsed k = Some v \<and> \<not> truthy v \<longrightarrow>
        js_or (get_prop parsed k) dflt = dflt)
   \<and> (get_prop parsed k = Some v \<and> truthy v \<longrightarrow> js_or (get_prop parsed k) dflt = v)
   \<and> (match_braces content = None
        \<or> match_braces content = Some m \<and> (JSON_parse m = Inr JNull \<or> JSON_parse m = Inl e') \<longrightarrow>
        parseAIResponse JSON_parse content = fallback_parsing content)
   \<and> summary (fallback_parsing content) = JStr (take 200 content @ ''...'')
   \<and> generateAIInsights (Inr content) JSON_parse data pr = parseAIResponse JSON_parse content
   \<and> generateAIInsights (Inl e) JSON_parse data pr = generateFallbackInsights data' pr
   \<and> confidence (generateFallbackInsights data pr) = JNum (6 / 10)
   \<and> modelUsed (generateFallbackInsights data pr) = JStr ''fallback-rule-based''
   \<and> (handleEventBridgeEvent env ev tbl = (Inr (), tbl') \<longrightarrow>
        (\<exists>ins it'. tbl' (de_tenantId ev, de_dataId ev) = Some it' \<and> aiInsights it' = Some ins
           \<and> status it' = Some INSIGHTS_GENERATED
           \<and> list_all (\<lambda>(k, v). truthy v) (ai_fields ins)))"
proof -
  have 2: "match_braces content = Some m \<and> JSON_parse m = Inr parsed \<and> parsed \<noteq> JNull \<longrightarrow>
        ai_fields (parseAIResponse JSON_parse content)
          = map (\<lambda>(k, d). (k, js_or (get_prop parsed k) d)) parse_defaults"
    by (simp add: parseAIResponse_def ai_fields_def parse_defaults_def)
  have 3: "get_prop parsed k = None \<or> get_prop parsed k = Some v \<and> \<not> truthy v \<longrightarrow>
        js_or (get_prop parsed k) dflt = dflt"
    by auto
  have 4: "get_prop parsed k = Some v \<and> truthy v \<longrightarrow> js_or (get_prop parsed k) dflt = v"
    by auto
  have 5: "match_braces content = None
        \<or> match_braces content = Some m \<and> (JSON_parse m = Inr JNull \<or> JSON_parse m = Inl e') \<longrightarrow>
        parseAIResponse JSON_parse content = fallback_parsing content"
    by (auto simp add: parseAIResponse_def)
  have 6: "summary (fallback_parsing content) = JStr (take 200 content @ ''...'')"
    by (simp add: fallback_parsing_def)
  have 7: "generateAIInsights (Inr content) JSON_parse data pr = parseAIResponse JSON_parse content"
    "generateAIInsights (Inl e) JSON_parse data pr = generateFallbackInsights data' pr"
    by (simp_all add: generateAIInsights_def generateFallbackInsights_def)
  have 8: "confidence (generateFallbackInsights data pr) = JNum (6 / 10)"
    "modelUsed (generateFallbackInsights data pr) = JStr ''fallback-rule-based''"
    by (simp_all add: generateFallbackInsights_def)
  have 9: "handleEventBridgeEvent env ev tbl = (Inr (), tbl') \<longrightarrow>
        (\<exists>ins it'. tbl' (de_tenantId ev, de_dataId ev) = Some it' \<and> aiInsights it' = Some ins
           \<and> status it' = Some INSIGHTS_GENERATED
           \<and> list_all (\<lambda>(k, v). truthy v) (ai_fields ins))"
  proof
    assume "handleEventBridgeEvent env ev tbl = (Inr (), tbl')"
    from handleEventBridgeEvent_Inr [OF this] generateAIInsights_truthy
    show "\<exists>ins it'. tbl' (de_tenantId ev, de_dataId ev) = Some it' \<and> aiInsights it' = Some ins
           \<and> status it' = Some INSIGHTS_GENERATED
           \<and> list_all (\<lambda>(k, v). truthy v) (ai_fields ins)"
      by metis
  qed
  from generateAIInsights_truthy [of bedrock JSON_parse data pr] 2 3 4 5 6 7 8 9
  show ?thesis by (intro conjI)
qed

lemma empty_list_match: "match_braces empty_list_answer = Some empty_list_answer"
  by (simp add: match_braces_def empty_list_answer_def quote_def escape_char_def)

lemma empty_list_parsed:
  "parseAIResponse empty_list_parse empty_list_answer =
     \<lparr>summary = JStr ''AI analysis completed'',
      keyInsights = JArr [],
      recommendations = JArr [JStr ''Review the data for business opportunities''],
      riskFactors = JArr [JStr ''No immediate risks identified''],
      opportunities = JArr [JStr ''Data analysis reveals potential for optimization''],
      dataQualityNotes = JArr [JStr ''Data quality assessment completed''],
      modelUsed = JStr ''anthropic.claude-3-sonnet-20240229-v1:0'',
      confidence = JNum (8 / 10)\<rparr>"
  by (simp add: parseAIResponse_def empty_list_match) (simp add: empty_list_parse_def)

text \<open>
  Claim C7 as stated fails on an answer whose \<^verbatim>\<open>keyInsights\<close> is the empty list: the
  list is truthy, so no default is substituted and the field stays empty.
\<close>

theorem insights_fields_counterexample:
  "keyInsights (parseAIResponse empty_list_parse empty_list_answer) = JArr []
   \<and> \<not> spec_filled (keyInsights (parseAIResponse empty_list_parse empty_list_answer))
   \<and> generateAIInsights (Inr empty_list_answer) empty_list_parse scenario_payload
        (de_processingResults scenario_processed_event)
       = parseAIResponse empty_list_parse empty_list_answer"
  by (simp add: empty_list_parsed generateAIInsights_def)

lemma inference_down_insights:
  "generateFallbackInsights scenario_payload (de_processingResults scenario_processed_event) =
     \<lparr>summary = JStr ''Fallback analysis for data with 2 records'',
      keyInsights = JArr [JStr ''Data contains 2 records'', JStr ''Data quality score: 100'',
                          JStr ''Data size: 0.0498046875 KB''],
      recommendations = JArr
        [JStr ''Review data quality and completeness'',
         JStr ''Consider implementing data validation rules'',
         JStr ''Monitor data processing performance''],
      riskFactors = JArr
        [JStr ''Fallback analysis used due to AI service unavailability'',
         JStr ''Limited insight depth compared to AI analysis''],
      opportunities = JArr
        [JStr ''Implement automated data quality checks'',
         JStr ''Set up regular data processing monitoring'',
         JStr ''Consider data enrichment strategies''],
      dataQualityNotes = JArr [JStr ''Quality score: 100'', JStr ''Fields extracted: name, amount''],
      modelUsed = JStr ''fallback-rule-based'',
      confidence = JNum (6 / 10)\<rparr>"
  by (simp add: generateFallbackInsights_def scenario_processed_event_def) code_simp

lemma inference_down_event:
  "handleEventBridgeEvent inference_down_env scenario_processed_event (db scenario_processed)
     = (Inr (),
        update_item (db scenario_processed) ''t1'' ''d1''
          (\<lambda>it. it\<lparr>aiInsights := Some (generateFallbackInsights scenario_payload
                                           (de_processingResults scenario_processed_event)),
                   insightsGeneratedAt := Some 4000,
                   status := Some INSIGHTS_GENERATED\<rparr>))"
  by (simp add: handleEventBridgeEvent_def inference_down_env_def scenario_parse_def
        generateAIInsights_def)
     (simp add: scenario_processed_event_def)

theorem insights_fields_defaulted_witness:
  "match_braces empty_list_answer = Some empty_list_answer
   \<and> empty_list_parse empty_list_answer = Inr (JObj [(''keyInsights'', JArr [])])
   \<and> ai_fields (parseAIResponse empty_list_parse empty_list_answer)
       = [(''summary'', JStr ''AI analysis completed''),
          (''keyInsights'', JArr []),
          (''recommendations'', JArr [JStr ''Review the data for business opportunities'']),
          (''riskFactors'', JArr [JStr ''No immediate risks identified'']),
          (''opportunities'', JArr [JStr ''Data analysis reveals potential for optimization'']),
          (''dataQualityNotes'', JArr [JStr ''Data quality assessment completed'']),
          (''modelUsed'', JStr ''anthropic.claude-3-sonnet-20240229-v1:0''),
          (''confidence'', JNum (8 / 10))]
   \<and> match_braces ''no json here'' = None
   \<and> parseAIResponse empty_list_parse ''no json here'' = fallback_parsing ''no json here''
   \<and> generateAIInsights (Inl (Error ''ThrottlingException'')) empty_list_parse scenario_payload
         (de_processingResults scenario_processed_event)
       = generateFallbackInsights JNull (de_processingResults scenario_processed_event)
   \<and> handleEventBridgeEvent inference_down_env scenario_processed_event (db scenario_processed)
       = (Inr (),
          update_item (db scenario_processed) ''t1'' ''d1''
            (\<lambda>it. it\<lparr>aiInsights := Some (generateFallbackInsights scenario_payload
                                             (de_processingResults scenario_processed_event)),
                     insightsGeneratedAt := Some 4000,
                     status := Some INSIGHTS_GENERATED\<rparr>))
   \<and> (\<exists>ins it'.
         update_item (db scenario_processed) ''t1'' ''d1''
            (\<lambda>it. it\<lparr>aiInsights := Some (generateFallbackInsights scenario_payload
                                             (de_processingResults scenario_processed_event)),
                     insightsGeneratedAt := Some 4000,
                     status := Some INSIGHTS_GENERATED\<rparr>) (''t1'', ''d1'') = Some it'
         \<and> aiInsights it' = Some ins \<and> status it' = Some INSIGHTS_GENERATED
         \<and> list_all (\<lambda>(k, v). truthy v) (ai_fields ins))"
proof -
  note t = insights_fields_defaulted [of "Inl (Error ''ThrottlingException'')" empty_list_parse
      scenario_payload "de_processingResults scenario_processed_event" empty_list_answer
      empty_list_answer "JObj [(''keyInsights'', JArr [])]" "''summary''" JNull
      "JStr ''AI analysis completed''" "SyntaxError ''Unexpected token''"
      "Error ''ThrottlingException''" JNull inference_down_env scenario_processed_event
      "db scenario_processed"
      "update_item (db scenario_processed) ''t1'' ''d1''
            (\<lambda>it. it\<lparr>aiInsights := Some (generateFallbackInsights scenario_payload
                                             (de_processingResults scenario_processed_event)),
                     insightsGeneratedAt := Some 4000,
                     status := Some INSIGHTS_GENERATED\<rparr>)"]
  note u = insights_fields_defaulted [of "Inl (Error ''ThrottlingException'')" empty_list_parse
      scenario_payload "de_processingResults scenario_processed_event" "''no json here''"
      empty_list_answer "JObj [(''keyInsights'', JArr [])]" "''summary''" JNull
      "JStr ''AI analysis completed''" "SyntaxError ''Unexpected token''"
      "Error ''ThrottlingException''" JNull inference_down_env scenario_processed_event
      "db scenario_processed" "db scenario_processed"]
  have p: "empty_list_parse empty_list_answer = Inr (JObj [(''keyInsights'', JArr [])])"
    by (simp add: empty_list_parse_def)
  have n: "match_braces ''no json here'' = None"
    by (simp add: match_braces_def)
  have k: "de_tenantId scenario_processed_event = ''t1''" "de_dataId scenario_processed_event = ''d1''"
    by (simp_all add: scenario_processed_event_def)
  have "ai_fields (parseAIResponse empty_list_parse empty_list_answer)
          = map (\<lambda>(k, d). (k, js_or (get_prop (JObj [(''keyInsights'', JArr [])]) k) d)) parse_defaults"
    by (rule t [THEN conjunct2, THEN conjunct1, rule_format]) (simp add: empty_list_match p)
  then have 1: "ai_fields (parseAIResponse empty_list_parse empty_list_answer)
       = [(''summary'', JStr ''AI analysis completed''),
          (''keyInsights'', JArr []),
          (''recommendations'', JArr [JStr ''Review the data for business opportunities'']),
          (''riskFactors'', JArr [JStr ''No immediate risks identified'']),
          (''opportunities'', JArr [JStr ''Data analysis reveals potential for optimization'']),
          (''dataQualityNotes'', JArr [JStr ''Data quality assessment completed'']),
          (''modelUsed'', JStr ''anthropic.claude-3-sonnet-20240229-v1:0''),
          (''confidence'', JNum (8 / 10))]"
    by (simp add: parse_defaults_def)
  have 2: "parseAIResponse empty_list_parse ''no json here'' = fallback_parsing ''no json here''"
    by (rule u [THEN conjunct2, THEN conjunct2, THEN conjunct2, THEN conjunct2, THEN conjunct1,
          rule_format]) (simp add: n)
  from t have 3: "generateAIInsights (Inl (Error ''ThrottlingException'')) empty_list_parse scenario_payload
         (de_processingResults scenario_processed_event)
       = generateFallbackInsights JNull (de_processingResults scenario_processed_event)"
    by blast
  have 4: "\<exists>ins it'.
         update_item (db scenario_processed) ''t1'' ''d1''
            (\<lambda>it. it\<lparr>aiInsights := Some (generateFallbackInsights scenario_payload
                                             (de_processingResults scenario_processed_event)),
                     insightsGeneratedAt := Some 4000,
                     status := Some INSIGHTS_GENERATED\<rparr>) (''t1'', ''d1'') = Some it'
         \<and> aiInsights it' = Some ins \<and> status it' = Some INSIGHTS_GENERATED
         \<and> list_all (\<lambda>(k, v). truthy v) (ai_fields ins)"
    using t [THEN conjunct2, THEN conjunct2, THEN conjunct2, THEN conjunct2, THEN conjunct2,
        THEN conjunct2, THEN conjunct2, THEN conjunct2, THEN conjunct2, THEN conjunct2, rule_format,
        OF inference_down_event]
    by (simp only: k)
  from empty_list_match p 1 n 2 3 inference_down_event 4 show ?thesis by (intro conjI)
qed


end
